theory Spec2Isabelle
  imports Complex_Main "HOL-Library.AList" "HOL-Library.Sublist"
begin

section \<open>Wire values, dictionaries and exceptions\<close>

text \<open>
  A wire row is a Python \<open>dict\<close> from column names to primitive JSON values. Dictionaries
  are association lists in insertion order; \<open>AList.update\<close> is \<open>d[k] = v\<close> (an existing
  key keeps its position, a new key goes to the end) and \<open>AList.delete\<close> is \<open>del d[k]\<close>.
  A float is represented by the rational number it denotes, which is all that the
  comparisons of the salary filters look at.
\<close>

datatype jval = JNull | JBool bool | JInt int | JFloat rat | JStr string

type_synonym pydict = "(string \<times> jval) list"

datatype error =
    KeyError string
  | ValueError
  | AttributeError
  | TypeError
  | Exception string

text \<open>Python truthiness of a primitive value (\<open>if v:\<close>).\<close>

fun truthy :: "jval \<Rightarrow> bool" where
  "truthy JNull = False"
| "truthy (JBool b) = b"
| "truthy (JInt i) = (i \<noteq> 0)"
| "truthy (JFloat r) = (r \<noteq> 0)"
| "truthy (JStr s) = (s \<noteq> [])"

text \<open>\<open>data.get(k)\<close>: the value, or \<open>None\<close> when the key is missing.\<close>

definition dget :: "pydict \<Rightarrow> string \<Rightarrow> jval" where
  "dget data k = (case map_of data k of None \<Rightarrow> JNull | Some v \<Rightarrow> v)"

text \<open>\<open>data.get(k, default)\<close>: the default only when the key is missing.\<close>

definition dget_default :: "pydict \<Rightarrow> string \<Rightarrow> jval \<Rightarrow> jval" where
  "dget_default data k dflt = (case map_of data k of None \<Rightarrow> dflt | Some v \<Rightarrow> v)"

text \<open>\<open>data[k]\<close>: raises \<open>KeyError\<close> when the key is missing.\<close>

definition ditem :: "pydict \<Rightarrow> string \<Rightarrow> error + jval" where
  "ditem data k = (case map_of data k of None \<Rightarrow> Inl (KeyError k) | Some v \<Rightarrow> Inr v)"

text \<open>Sequencing of computations that may raise; list comprehensions whose body may raise.\<close>

definition bindE :: "error + 'a \<Rightarrow> ('a \<Rightarrow> error + 'b) \<Rightarrow> error + 'b" where
  "bindE m f = (case m of Inl e \<Rightarrow> Inl e | Inr x \<Rightarrow> f x)"

fun mapE :: "('a \<Rightarrow> error + 'b) \<Rightarrow> 'a list \<Rightarrow> error + 'b list" where
  "mapE f [] = Inr []"
| "mapE f (x # xs) = bindE (f x) (\<lambda>y. bindE (mapE f xs) (\<lambda>ys. Inr (y # ys)))"

fun filterE :: "('a \<Rightarrow> error + bool) \<Rightarrow> 'a list \<Rightarrow> error + 'a list" where
  "filterE p [] = Inr []"
| "filterE p (x # xs) =
     bindE (p x) (\<lambda>b. bindE (filterE p xs) (\<lambda>ys. Inr (if b then x # ys else ys)))"

section \<open>The standard library, as parameters\<close>

text \<open>
  The functions of \<open>uuid\<close>, \<open>datetime\<close> and \<open>str\<close> that the modules call are parameters of
  the model: \<open>uuid_UUID s\<close> is \<open>uuid.UUID(s)\<close> for a string \<open>s\<close> (\<open>None\<close> is its
  \<open>ValueError\<close>), \<open>uuid_str u\<close> is \<open>str(u)\<close>, \<open>fromisoformat s\<close> is
  \<open>datetime.fromisoformat(s)\<close> for a string \<open>s\<close> (\<open>None\<close> is its \<open>ValueError\<close>) and
  \<open>str_lower s\<close> is \<open>s.lower()\<close>. The types \<open>'u\<close> and \<open>'d\<close> are the UUID and datetime
  objects.
\<close>

record ('u, 'd) pylib =
  uuid_UUID :: "string \<Rightarrow> 'u option"
  uuid_str :: "'u \<Rightarrow> string"
  fromisoformat :: "string \<Rightarrow> 'd option"
  str_lower :: "string \<Rightarrow> string"

text \<open>
  \<open>uuid.UUID(data[k]) if data.get(k) else None\<close>. A truthy value that is not a string has
  no \<open>replace\<close> method, so the constructor raises \<open>AttributeError\<close>.
\<close>

definition opt_uuid :: "('u, 'd) pylib \<Rightarrow> pydict \<Rightarrow> string \<Rightarrow> error + 'u option" where
  "opt_uuid L data k =
     (if truthy (dget data k) then
        (case dget data k of
           JStr s \<Rightarrow> (case uuid_UUID L s of None \<Rightarrow> Inl ValueError | Some u \<Rightarrow> Inr (Some u))
         | _ \<Rightarrow> Inl AttributeError)
      else Inr None)"

text \<open>
  \<open>datetime.fromisoformat(data[k]) if data.get(k) else None\<close>. A truthy value that is not a
  string is refused with \<open>TypeError\<close>.
\<close>

definition opt_datetime :: "('u, 'd) pylib \<Rightarrow> pydict \<Rightarrow> string \<Rightarrow> error + 'd option" where
  "opt_datetime L data k =
     (if truthy (dget data k) then
        (case dget data k of
           JStr s \<Rightarrow> (case fromisoformat L s of None \<Rightarrow> Inl ValueError | Some d \<Rightarrow> Inr (Some d))
         | _ \<Rightarrow> Inl TypeError)
      else Inr None)"

text \<open>
  \<open>needle in v.lower()\<close> for a field value \<open>v\<close>: only a string has \<open>lower\<close>; on a string
  the test is the contiguous-substring test.
\<close>

definition in_lower :: "('u, 'd) pylib \<Rightarrow> string \<Rightarrow> jval \<Rightarrow> error + bool" where
  "in_lower L needle v =
     (case v of JStr s \<Rightarrow> Inr (sublist needle (str_lower L s)) | _ \<Rightarrow> Inl AttributeError)"

section \<open>The record store (database.py)\<close>

text \<open>
  Modelled from the spec: the remote record store behind the Supabase client, which is
  an external service and not part of the repository. Following the store contract of
  the specification, a store holds one list of rows per table. What the store computes
  for an inserted payload (the rows with generated id and timestamp, no row at all, or a
  refusal with a message) is the store's own business and is the field \<open>on_insert\<close>.
\<close>

record store =
  tables :: "string \<Rightarrow> pydict list"
  on_insert :: "string \<Rightarrow> pydict \<Rightarrow> string + pydict list"

text \<open>
  Modelled from the spec: the equality predicate \<open>.eq(column, value)\<close> of a store query.
  It keeps the rows whose column has exactly the given value, the value \<open>None\<close> matching
  a column that is unset or null.
\<close>

definition eq_filter :: "string \<Rightarrow> jval \<Rightarrow> pydict list \<Rightarrow> pydict list" where
  "eq_filter column v rows = filter (\<lambda>r. dget r column = v) rows"

text \<open>
  \<open>query_table\<close>: all rows of the table when \<open>filters\<close> is \<open>None\<close> or empty, otherwise one
  equality predicate per item of \<open>filters\<close>.
\<close>

definition query_table :: "store \<Rightarrow> string \<Rightarrow> pydict option \<Rightarrow> pydict list" where
  "query_table st table_name filters =
     (let query = tables st table_name in
      case filters of
        None \<Rightarrow> query
      | Some fs \<Rightarrow> if fs \<noteq> [] then fold (\<lambda>(column, v) q. eq_filter column v q) fs query else query)"

text \<open>
  \<open>insert_record\<close>: the store appends and returns the rows it computed; an exception of
  the client is caught and raised again as \<open>Exception\<close> with the message built from the
  table name and the text of the exception.
\<close>

definition insert_record :: "store \<Rightarrow> string \<Rightarrow> pydict \<Rightarrow> error + store \<times> pydict list" where
  "insert_record st table_name data =
     (case on_insert st table_name data of
        Inl msg \<Rightarrow> Inl (Exception (''Error inserting into '' @ table_name @ '': '' @ msg))
      | Inr rows \<Rightarrow>
          Inr (st\<lparr>tables := (tables st)(table_name := tables st table_name @ rows)\<rparr>, rows))"

text \<open>
  Modelled from the spec: what the store's update does to one row. It writes the given
  columns, in the order of the mapping, and leaves the other columns as they are.
\<close>

definition apply_updates :: "pydict \<Rightarrow> pydict \<Rightarrow> pydict" where
  "apply_updates data row = fold (\<lambda>(k, v) r. AList.update k v r) data row"

text \<open>
  \<open>update_record\<close>: the store rewrites every row whose \<open>id\<close> column matches
  \<open>record_id\<close> and returns the rewritten rows, none when no row matches.
\<close>

definition update_record :: "store \<Rightarrow> string \<Rightarrow> jval \<Rightarrow> pydict \<Rightarrow> store \<times> pydict list" where
  "update_record st table_name record_id data =
     (let rows = tables st table_name;
          rows' = map (\<lambda>r. if dget r ''id'' = record_id then apply_updates data r else r) rows
      in (st\<lparr>tables := (tables st)(table_name := rows')\<rparr>,
          map (apply_updates data) (eq_filter ''id'' record_id rows)))"

section \<open>Applicants (applicants.py)\<close>

record ('u, 'd) applicant =
  app_name :: jval
  app_last_name :: jval
  app_linkedin :: jval
  app_email :: jval
  app_phone :: jval
  app_city :: jval
  app_english :: jval
  app_id :: "'u option"
  app_created_at :: "'d option"
  app_deactive_at :: "'d option"

definition Applicant_to_dict :: "('u, 'd) pylib \<Rightarrow> ('u, 'd) applicant \<Rightarrow> pydict" where
  "Applicant_to_dict L self =
     (let data = [(''name'', app_name self), (''last_name'', app_last_name self),
                  (''linkedin'', app_linkedin self), (''email'', app_email self),
                  (''phone'', app_phone self), (''city'', app_city self),
                  (''english'', app_english self)]
      in case app_id self of
           Some u \<Rightarrow> AList.update ''id'' (JStr (uuid_str L u)) data
         | None \<Rightarrow> data)"

definition Applicant_from_dict :: "('u, 'd) pylib \<Rightarrow> pydict \<Rightarrow> error + ('u, 'd) applicant" where
  "Applicant_from_dict L data =
     bindE (opt_uuid L data ''id'') (\<lambda>i.
     bindE (ditem data ''name'') (\<lambda>n.
     bindE (ditem data ''last_name'') (\<lambda>ln.
     bindE (ditem data ''linkedin'') (\<lambda>li.
     bindE (ditem data ''email'') (\<lambda>em.
     bindE (ditem data ''phone'') (\<lambda>ph.
     bindE (ditem data ''city'') (\<lambda>ci.
     bindE (ditem data ''english'') (\<lambda>en.
     bindE (opt_datetime L data ''created_at'') (\<lambda>cr.
     bindE (opt_datetime L data ''deactive_at'') (\<lambda>de.
       Inr \<lparr>app_name = n, app_last_name = ln, app_linkedin = li, app_email = em,
            app_phone = ph, app_city = ci, app_english = en, app_id = i,
            app_created_at = cr, app_deactive_at = de\<rparr>))))))))))"

definition TABLE_NAME_applicants :: string where
  "TABLE_NAME_applicants = ''applicants''"

definition search_applicants ::
  "('u, 'd) pylib \<Rightarrow> store \<Rightarrow> string option \<Rightarrow> string option \<Rightarrow> string option \<Rightarrow> string option
     \<Rightarrow> error + ('u, 'd) applicant list" where
  "search_applicants L st name city english_level email =
     (let filters = [];
          filters = (case email of
                       Some e \<Rightarrow> if e \<noteq> [] then AList.update ''email'' (JStr e) filters else filters
                     | None \<Rightarrow> filters);
          filters = (case english_level of
                       Some e \<Rightarrow> if e \<noteq> [] then AList.update ''english'' (JStr e) filters else filters
                     | None \<Rightarrow> filters);
          data = query_table st TABLE_NAME_applicants
                   (Some (if filters \<noteq> [] then filters else [(''deactive_at'', JNull)]))
      in bindE (mapE (Applicant_from_dict L) data) (\<lambda>applicants.
         bindE (case name of
                  Some n \<Rightarrow>
                    if n \<noteq> [] then
                      filterE (\<lambda>a. bindE (in_lower L (str_lower L n) (app_name a)) (\<lambda>b.
                                     if b then Inr True
                                     else in_lower L (str_lower L n) (app_last_name a)))
                        applicants
                    else Inr applicants
                | None \<Rightarrow> Inr applicants) (\<lambda>applicants.
         case city of
           Some c \<Rightarrow>
             if c \<noteq> [] then filterE (\<lambda>a. in_lower L (str_lower L c) (app_city a)) applicants
             else Inr applicants
         | None \<Rightarrow> Inr applicants)))"


text \<open>
  The repository operations return the store after the call together with the value
  returned or the exception raised: a row rewritten by the store stays rewritten when the
  decoding of the answer raises afterwards.
\<close>

definition create_applicant ::
  "('u, 'd) pylib \<Rightarrow> store \<Rightarrow> ('u, 'd) applicant \<Rightarrow> store \<times> (error + ('u, 'd) applicant)" where
  "create_applicant L st applicant =
     (let data = Applicant_to_dict L applicant in
      case insert_record st TABLE_NAME_applicants data of
        Inl e \<Rightarrow> (st, Inl e)
      | Inr (st', result) \<Rightarrow>
          (case result of
             r # _ \<Rightarrow> (st', Applicant_from_dict L r)
           | [] \<Rightarrow> (st', Inl (Exception ''Failed to create applicant''))))"

definition update_applicant ::
  "('u, 'd) pylib \<Rightarrow> store \<Rightarrow> jval \<Rightarrow> pydict \<Rightarrow> store \<times> (error + ('u, 'd) applicant option)" where
  "update_applicant L st applicant_id updates =
     (case update_record st TABLE_NAME_applicants applicant_id updates of
        (st', result) \<Rightarrow>
          (case result of
             r # _ \<Rightarrow> (st', bindE (Applicant_from_dict L r) (\<lambda>a. Inr (Some a)))
           | [] \<Rightarrow> (st', Inr None)))"

text \<open>
  In the soft-delete operations \<open>now\<close> is the string that
  \<open>datetime.utcnow().isoformat()\<close> returns when the call reads the clock.
\<close>

definition deactivate_applicant ::
  "('u, 'd) pylib \<Rightarrow> store \<Rightarrow> string \<Rightarrow> jval \<Rightarrow> store \<times> (error + ('u, 'd) applicant option)" where
  "deactivate_applicant L st now applicant_id =
     (let updates = [(''deactive_at'', JStr now)] in update_applicant L st applicant_id updates)"

definition reactivate_applicant ::
  "('u, 'd) pylib \<Rightarrow> store \<Rightarrow> jval \<Rightarrow> store \<times> (error + ('u, 'd) applicant option)" where
  "reactivate_applicant L st applicant_id =
     (let updates = [(''deactive_at'', JNull)] in update_applicant L st applicant_id updates)"

section \<open>Clients (clients.py)\<close>

record ('u, 'd) client =
  cli_description :: jval
  cli_id :: "'u option"
  cli_created_at :: "'d option"
  cli_deactive :: "'d option"

definition Client_to_dict :: "('u, 'd) pylib \<Rightarrow> ('u, 'd) client \<Rightarrow> pydict" where
  "Client_to_dict L self =
     (let data = [];
          data = (if cli_description self \<noteq> JNull
                  then AList.update ''description'' (cli_description self) data else data)
      in case cli_id self of
           Some u \<Rightarrow> AList.update ''id'' (JStr (uuid_str L u)) data
         | None \<Rightarrow> data)"

definition Client_from_dict :: "('u, 'd) pylib \<Rightarrow> pydict \<Rightarrow> error + ('u, 'd) client" where
  "Client_from_dict L data =
     bindE (opt_uuid L data ''id'') (\<lambda>i.
     bindE (opt_datetime L data ''created_at'') (\<lambda>cr.
     bindE (opt_datetime L data ''deactive'') (\<lambda>de.
       Inr \<lparr>cli_description = dget data ''description'', cli_id = i,
            cli_created_at = cr, cli_deactive = de\<rparr>)))"

definition TABLE_NAME_client :: string where
  "TABLE_NAME_client = ''client''"

text \<open>\<open>c.description and desc_lower in c.description.lower()\<close>\<close>

definition description_matches :: "('u, 'd) pylib \<Rightarrow> string \<Rightarrow> jval \<Rightarrow> error + bool" where
  "description_matches L desc_lower d =
     (if truthy d then in_lower L desc_lower d else Inr False)"

definition search_clients ::
  "('u, 'd) pylib \<Rightarrow> store \<Rightarrow> string option \<Rightarrow> error + ('u, 'd) client list" where
  "search_clients L st description =
     (let data = query_table st TABLE_NAME_client (Some [(''deactive'', JNull)]) in
      bindE (mapE (Client_from_dict L) data) (\<lambda>clients.
      case description of
        Some d \<Rightarrow>
          if d \<noteq> [] then
            filterE (\<lambda>c. description_matches L (str_lower L d) (cli_description c)) clients
          else Inr clients
      | None \<Rightarrow> Inr clients))"

text \<open>The dictionary \<open>data\<close> of \<open>create_client\<close> at the call of \<open>insert_record\<close>.\<close>

definition create_client_data :: "('u, 'd) pylib \<Rightarrow> ('u, 'd) client \<Rightarrow> pydict" where
  "create_client_data L client =
     (let data = Client_to_dict L client in
      if map_of data ''id'' \<noteq> None then AList.delete ''id'' data else data)"

definition create_client ::
  "('u, 'd) pylib \<Rightarrow> store \<Rightarrow> ('u, 'd) client \<Rightarrow> store \<times> (error + ('u, 'd) client)" where
  "create_client L st client =
     (let data = create_client_data L client in
      case insert_record st TABLE_NAME_client data of
        Inl e \<Rightarrow> (st, Inl e)
      | Inr (st', result) \<Rightarrow>
          (case result of
             r # _ \<Rightarrow> (st', Client_from_dict L r)
           | [] \<Rightarrow> (st', Inl (Exception ''Failed to create client''))))"

definition update_client ::
  "('u, 'd) pylib \<Rightarrow> store \<Rightarrow> jval \<Rightarrow> pydict \<Rightarrow> store \<times> (error + ('u, 'd) client option)" where
  "update_client L st client_id updates =
     (case update_record st TABLE_NAME_client client_id updates of
        (st', result) \<Rightarrow>
          (case result of
             r # _ \<Rightarrow> (st', bindE (Client_from_dict L r) (\<lambda>c. Inr (Some c)))
           | [] \<Rightarrow> (st', Inr None)))"

definition deactivate_client ::
  "('u, 'd) pylib \<Rightarrow> store \<Rightarrow> string \<Rightarrow> jval \<Rightarrow> store \<times> (error + ('u, 'd) client option)" where
  "deactivate_client L st now client_id =
     (let updates = [(''deactive'', JStr now)] in update_client L st client_id updates)"

definition reactivate_client ::
  "('u, 'd) pylib \<Rightarrow> store \<Rightarrow> jval \<Rightarrow> store \<times> (error + ('u, 'd) client option)" where
  "reactivate_client L st client_id =
     (let updates = [(''deactive'', JNull)] in update_client L st client_id updates)"

section \<open>Recruiters (recruiters.py)\<close>

text \<open>
  The field \<open>id\<close> of a recruiter is declared \<open>Optional[Any]\<close>: it holds a UUID object or
  the value of the row as it came.
\<close>

datatype 'u recruiter_id = UuidId 'u | RawId jval

record ('u, 'd) recruiter =
  rec_name :: jval
  rec_description :: jval
  rec_id :: "'u recruiter_id option"
  rec_created_at :: "'d option"
  rec_deactive_at :: "'d option"

definition Recruiter_to_dict :: "('u, 'd) pylib \<Rightarrow> ('u, 'd) recruiter \<Rightarrow> pydict" where
  "Recruiter_to_dict L self =
     (let data = [(''name'', rec_name self)] in
      if rec_description self \<noteq> JNull
      then AList.update ''description'' (rec_description self) data else data)"

definition Recruiter_from_dict :: "('u, 'd) pylib \<Rightarrow> pydict \<Rightarrow> error + ('u, 'd) recruiter" where
  "Recruiter_from_dict L data =
     (let id_val = dget data ''id'';
          id_val = (if id_val \<noteq> JNull then
                      (case id_val of
                         JStr s \<Rightarrow> (case uuid_UUID L s of
                                      Some u \<Rightarrow> Some (UuidId u)
                                    | None \<Rightarrow> Some (RawId id_val))
                       | _ \<Rightarrow> Some (RawId id_val))
                    else None)
      in bindE (ditem data ''name'') (\<lambda>n.
         bindE (opt_datetime L data ''created_at'') (\<lambda>cr.
         bindE (opt_datetime L data ''deactive_at'') (\<lambda>de.
           Inr \<lparr>rec_name = n, rec_description = dget data ''description'', rec_id = id_val,
                rec_created_at = cr, rec_deactive_at = de\<rparr>))))"

definition TABLE_NAME_recruiter :: string where
  "TABLE_NAME_recruiter = ''recruiter''"

definition search_recruiters ::
  "('u, 'd) pylib \<Rightarrow> store \<Rightarrow> string option \<Rightarrow> string option \<Rightarrow> error + ('u, 'd) recruiter list" where
  "search_recruiters L st name description =
     (let data = query_table st TABLE_NAME_recruiter (Some [(''deactive_at'', JNull)]) in
      bindE (mapE (Recruiter_from_dict L) data) (\<lambda>recruiters.
      bindE (case name of
               Some n \<Rightarrow>
                 if n \<noteq> [] then filterE (\<lambda>r. in_lower L (str_lower L n) (rec_name r)) recruiters
                 else Inr recruiters
             | None \<Rightarrow> Inr recruiters) (\<lambda>recruiters.
      case description of
        Some d \<Rightarrow>
          if d \<noteq> [] then
            filterE (\<lambda>r. description_matches L (str_lower L d) (rec_description r)) recruiters
          else Inr recruiters
      | None \<Rightarrow> Inr recruiters)))"

definition create_recruiter ::
  "('u, 'd) pylib \<Rightarrow> store \<Rightarrow> ('u, 'd) recruiter \<Rightarrow> store \<times> (error + ('u, 'd) recruiter)" where
  "create_recruiter L st recruiter =
     (let data = Recruiter_to_dict L recruiter in
      case insert_record st TABLE_NAME_recruiter data of
        Inl e \<Rightarrow> (st, Inl e)
      | Inr (st', result) \<Rightarrow>
          (case result of
             r # _ \<Rightarrow> (st', Recruiter_from_dict L r)
           | [] \<Rightarrow> (st', Inl (Exception ''Failed to create recruiter''))))"

definition update_recruiter ::
  "('u, 'd) pylib \<Rightarrow> store \<Rightarrow> jval \<Rightarrow> pydict \<Rightarrow> store \<times> (error + ('u, 'd) recruiter option)" where
  "update_recruiter L st recruiter_id updates =
     (case update_record st TABLE_NAME_recruiter recruiter_id updates of
        (st', result) \<Rightarrow>
          (case result of
             r # _ \<Rightarrow> (st', bindE (Recruiter_from_dict L r) (\<lambda>c. Inr (Some c)))
           | [] \<Rightarrow> (st', Inr None)))"

definition deactivate_recruiter ::
  "('u, 'd) pylib \<Rightarrow> store \<Rightarrow> string \<Rightarrow> jval \<Rightarrow> store \<times> (error + ('u, 'd) recruiter option)" where
  "deactivate_recruiter L st now recruiter_id =
     (let updates = [(''deactive_at'', JStr now)] in update_recruiter L st recruiter_id updates)"

definition reactivate_recruiter ::
  "('u, 'd) pylib \<Rightarrow> store \<Rightarrow> jval \<Rightarrow> store \<times> (error + ('u, 'd) recruiter option)" where
  "reactivate_recruiter L st recruiter_id =
     (let updates = [(''deactive_at'', JNull)] in update_recruiter L st recruiter_id updates)"

section \<open>Job descriptions (job_descriptions.py)\<close>

record ('u, 'd) job_description =
  jd_min_salary :: jval
  jd_status :: jval
  jd_description :: jval
  jd_max_salary :: jval
  jd_recruiter_id :: jval
  jd_client_id :: "'u option"
  jd_id :: "'u option"
  jd_created_at :: "'d option"
  jd_deactive_at :: "'d option"

definition JobDescription_to_dict :: "('u, 'd) pylib \<Rightarrow> ('u, 'd) job_description \<Rightarrow> pydict" where
  "JobDescription_to_dict L self =
     (let data = [(''min_salary'', jd_min_salary self), (''status'', jd_status self)];
          data = (if jd_description self \<noteq> JNull
                  then AList.update ''description'' (jd_description self) data else data);
          data = (if jd_max_salary self \<noteq> JNull
                  then AList.update ''max_salary'' (jd_max_salary self) data else data);
          data = (if jd_recruiter_id self \<noteq> JNull
                  then AList.update ''recruiter_id'' (jd_recruiter_id self) data else data)
      in case jd_client_id self of
           Some u \<Rightarrow> AList.update ''client_id'' (JStr (uuid_str L u)) data
         | None \<Rightarrow> data)"

definition JobDescription_from_dict ::
  "('u, 'd) pylib \<Rightarrow> pydict \<Rightarrow> error + ('u, 'd) job_description" where
  "JobDescription_from_dict L data =
     bindE (opt_uuid L data ''id'') (\<lambda>i.
     bindE (opt_uuid L data ''client_id'') (\<lambda>cl.
     bindE (opt_datetime L data ''created_at'') (\<lambda>cr.
     bindE (opt_datetime L data ''deactive_at'') (\<lambda>de.
       Inr \<lparr>jd_min_salary = dget_default data ''min_salary'' (JFloat 0),
            jd_status = dget_default data ''status'' (JStr ''OPEN''),
            jd_description = dget data ''description'',
            jd_max_salary = dget data ''max_salary'',
            jd_recruiter_id = dget data ''recruiter_id'',
            jd_client_id = cl, jd_id = i, jd_created_at = cr, jd_deactive_at = de\<rparr>))))"

definition TABLE_NAME_job_description :: string where
  "TABLE_NAME_job_description = ''job_description''"

text \<open>
  The comparisons \<open>j.min_salary >= bound\<close> and \<open>j.min_salary <= bound\<close> against a float
  bound: numbers (and booleans, which are integers) compare by value, anything else
  raises \<open>TypeError\<close>.
\<close>

definition num_of :: "jval \<Rightarrow> rat option" where
  "num_of v = (case v of
                 JInt i \<Rightarrow> Some (of_int i)
               | JFloat r \<Rightarrow> Some r
               | JBool b \<Rightarrow> Some (if b then 1 else 0)
               | _ \<Rightarrow> None)"

definition ge_float :: "jval \<Rightarrow> rat \<Rightarrow> error + bool" where
  "ge_float v bound = (case num_of v of Some r \<Rightarrow> Inr (r \<ge> bound) | None \<Rightarrow> Inl TypeError)"

definition le_float :: "jval \<Rightarrow> rat \<Rightarrow> error + bool" where
  "le_float v bound = (case num_of v of Some r \<Rightarrow> Inr (r \<le> bound) | None \<Rightarrow> Inl TypeError)"

definition search_job_descriptions ::
  "('u, 'd) pylib \<Rightarrow> store \<Rightarrow> string option \<Rightarrow> string option \<Rightarrow> int option \<Rightarrow> rat option
     \<Rightarrow> rat option \<Rightarrow> error + ('u, 'd) job_description list" where
  "search_job_descriptions L st status client_id recruiter_id min_salary_min min_salary_max =
     (let filters = [];
          filters = (case status of
                       Some s \<Rightarrow> if s \<noteq> [] then AList.update ''status'' (JStr s) filters else filters
                     | None \<Rightarrow> filters);
          filters = (case client_id of
                       Some c \<Rightarrow> if c \<noteq> [] then AList.update ''client_id'' (JStr c) filters
                                 else filters
                     | None \<Rightarrow> filters);
          filters = (case recruiter_id of
                       Some r \<Rightarrow> AList.update ''recruiter_id'' (JInt r) filters
                     | None \<Rightarrow> filters);
          data = (if filters \<noteq> [] then
                    query_table st TABLE_NAME_job_description
                      (Some (AList.update ''deactive_at'' JNull filters))
                  else query_table st TABLE_NAME_job_description (Some [(''deactive_at'', JNull)]))
      in bindE (mapE (JobDescription_from_dict L) data) (\<lambda>jobs.
         bindE (case min_salary_min of
                  Some b \<Rightarrow> filterE (\<lambda>j. ge_float (jd_min_salary j) b) jobs
                | None \<Rightarrow> Inr jobs) (\<lambda>jobs.
         case min_salary_max of
           Some b \<Rightarrow> filterE (\<lambda>j. le_float (jd_min_salary j) b) jobs
         | None \<Rightarrow> Inr jobs)))"

definition create_job_description ::
  "('u, 'd) pylib \<Rightarrow> store \<Rightarrow> ('u, 'd) job_description
     \<Rightarrow> store \<times> (error + ('u, 'd) job_description)" where
  "create_job_description L st job =
     (let data = JobDescription_to_dict L job in
      case insert_record st TABLE_NAME_job_description data of
        Inl e \<Rightarrow> (st, Inl e)
      | Inr (st', result) \<Rightarrow>
          (case result of
             r # _ \<Rightarrow> (st', JobDescription_from_dict L r)
           | [] \<Rightarrow> (st', Inl (Exception ''Failed to create job description''))))"

definition update_job_description ::
  "('u, 'd) pylib \<Rightarrow> store \<Rightarrow> jval \<Rightarrow> pydict
     \<Rightarrow> store \<times> (error + ('u, 'd) job_description option)" where
  "update_job_description L st job_id updates =
     (case update_record st TABLE_NAME_job_description job_id updates of
        (st', result) \<Rightarrow>
          (case result of
             r # _ \<Rightarrow> (st', bindE (JobDescription_from_dict L r) (\<lambda>j. Inr (Some j)))
           | [] \<Rightarrow> (st', Inr None)))"

definition close_job_description ::
  "('u, 'd) pylib \<Rightarrow> store \<Rightarrow> string \<Rightarrow> jval
     \<Rightarrow> store \<times> (error + ('u, 'd) job_description option)" where
  "close_job_description L st now job_id =
     (let updates = [(''deactive_at'', JStr now), (''status'', JStr ''CLOSED'')]
      in update_job_description L st job_id updates)"

definition reopen_job_description ::
  "('u, 'd) pylib \<Rightarrow> store \<Rightarrow> jval \<Rightarrow> store \<times> (error + ('u, 'd) job_description option)" where
  "reopen_job_description L st job_id =
     (let updates = [(''deactive_at'', JNull), (''status'', JStr ''OPEN'')]
      in update_job_description L st job_id updates)"

definition change_job_status ::
  "('u, 'd) pylib \<Rightarrow> store \<Rightarrow> jval \<Rightarrow> string
     \<Rightarrow> store \<times> (error + ('u, 'd) job_description option)" where
  "change_job_status L st job_id status =
     update_job_description L st job_id [(''status'', JStr status)]"

section \<open>Job applications (applicant_job_apply.py)\<close>

record ('u, 'd) applicant_job_apply =
  aja_applicant_id :: "'u option"
  aja_job_description_id :: "'u option"
  aja_id :: jval
  aja_created_at :: "'d option"
  aja_deactive_at :: "'d option"
  aja_recruiter_id :: "'u option"

text \<open>\<open>str(x)\<close> for a field that holds a UUID object or \<open>None\<close>.\<close>

definition str_of :: "('u, 'd) pylib \<Rightarrow> 'u option \<Rightarrow> string" where
  "str_of L x = (case x of Some u \<Rightarrow> uuid_str L u | None \<Rightarrow> ''None'')"

definition ApplicantJobApply_to_dict ::
  "('u, 'd) pylib \<Rightarrow> ('u, 'd) applicant_job_apply \<Rightarrow> pydict" where
  "ApplicantJobApply_to_dict L self =
     (let data = [(''applicant_id'', JStr (str_of L (aja_applicant_id self))),
                  (''job_description_id'', JStr (str_of L (aja_job_description_id self)))];
          data = (case aja_recruiter_id self of
                    Some u \<Rightarrow> AList.update ''recruiter_id'' (JStr (uuid_str L u)) data
                  | None \<Rightarrow> data)
      in if truthy (aja_id self) then AList.update ''id'' (aja_id self) data else data)"

definition ApplicantJobApply_from_dict ::
  "('u, 'd) pylib \<Rightarrow> pydict \<Rightarrow> error + ('u, 'd) applicant_job_apply" where
  "ApplicantJobApply_from_dict L data =
     bindE (opt_uuid L data ''applicant_id'') (\<lambda>ap.
     bindE (opt_uuid L data ''job_description_id'') (\<lambda>jo.
     bindE (opt_uuid L data ''recruiter_id'') (\<lambda>re.
     bindE (opt_datetime L data ''created_at'') (\<lambda>cr.
     bindE (opt_datetime L data ''deactive_at'') (\<lambda>de.
       Inr \<lparr>aja_applicant_id = ap, aja_job_description_id = jo, aja_id = dget data ''id'',
            aja_created_at = cr, aja_deactive_at = de, aja_recruiter_id = re\<rparr>)))))"

definition TABLE_NAME_applicant_job_apply :: string where
  "TABLE_NAME_applicant_job_apply = ''applicant_job_apply''"

definition search_applications ::
  "('u, 'd) pylib \<Rightarrow> store \<Rightarrow> string option \<Rightarrow> string option \<Rightarrow> string option
     \<Rightarrow> error + ('u, 'd) applicant_job_apply list" where
  "search_applications L st applicant_id job_description_id recruiter_id =
     (let filters = [];
          filters = (case applicant_id of
                       Some a \<Rightarrow> if a \<noteq> [] then AList.update ''applicant_id'' (JStr a) filters
                                 else filters
                     | None \<Rightarrow> filters);
          filters = (case job_description_id of
                       Some j \<Rightarrow> if j \<noteq> [] then AList.update ''job_description_id'' (JStr j) filters
                                 else filters
                     | None \<Rightarrow> filters);
          filters = (case recruiter_id of
                       Some r \<Rightarrow> if r \<noteq> [] then AList.update ''recruiter_id'' (JStr r) filters
                                 else filters
                     | None \<Rightarrow> filters);
          filters = (if map_of filters ''deactive_at'' = None
                     then AList.update ''deactive_at'' JNull filters else filters);
          data = query_table st TABLE_NAME_applicant_job_apply
                   (if filters \<noteq> [] then Some filters else None)
      in mapE (ApplicantJobApply_from_dict L) data)"

definition create_application ::
  "('u, 'd) pylib \<Rightarrow> store \<Rightarrow> ('u, 'd) applicant_job_apply
     \<Rightarrow> store \<times> (error + ('u, 'd) applicant_job_apply)" where
  "create_application L st application =
     (let data = ApplicantJobApply_to_dict L application in
      case insert_record st TABLE_NAME_applicant_job_apply data of
        Inl e \<Rightarrow> (st, Inl e)
      | Inr (st', result) \<Rightarrow>
          (case result of
             r # _ \<Rightarrow> (st', ApplicantJobApply_from_dict L r)
           | [] \<Rightarrow> (st', Inl (Exception ''Failed to create job application''))))"

definition update_application ::
  "('u, 'd) pylib \<Rightarrow> store \<Rightarrow> jval \<Rightarrow> pydict
     \<Rightarrow> store \<times> (error + ('u, 'd) applicant_job_apply option)" where
  "update_application L st application_id updates =
     (case update_record st TABLE_NAME_applicant_job_apply application_id updates of
        (st', result) \<Rightarrow>
          (case result of
             r # _ \<Rightarrow> (st', bindE (ApplicantJobApply_from_dict L r) (\<lambda>a. Inr (Some a)))
           | [] \<Rightarrow> (st', Inr None)))"

definition deactivate_application ::
  "('u, 'd) pylib \<Rightarrow> store \<Rightarrow> string \<Rightarrow> jval
     \<Rightarrow> store \<times> (error + ('u, 'd) applicant_job_apply option)" where
  "deactivate_application L st now application_id =
     (let updates = [(''deactive_at'', JStr now)]
      in update_application L st application_id updates)"

definition reactivate_application ::
  "('u, 'd) pylib \<Rightarrow> store \<Rightarrow> jval \<Rightarrow> store \<times> (error + ('u, 'd) applicant_job_apply option)" where
  "reactivate_application L st application_id =
     (let updates = [(''deactive_at'', JNull)]
      in update_application L st application_id updates)"

section \<open>Example data\<close>

text \<open>
  The library functions tabulated at the strings that occur in the examples below, with
  the values CPython returns there: a UUID object is given by its 128-bit integer, a
  datetime by its fields (year, month, day, hour, minute, second, microsecond), and
  \<open>lower\<close> acts on ASCII letters. \<open>uuid.UUID\<close> reads hexadecimal digits of either case and
  \<open>str\<close> prints them in lower case.
\<close>

definition cpython_sample :: "(int, int list) pylib" where
  "cpython_sample = \<lparr>
     uuid_UUID = map_of
       [(''11111111-1111-1111-1111-111111111111'', 0x11111111111111111111111111111111),
        (''22222222-2222-2222-2222-222222222222'', 0x22222222222222222222222222222222),
        (''33333333-3333-3333-3333-333333333333'', 0x33333333333333333333333333333333),
        (''ABCDEF12-3456-7890-ABCD-EF1234567890'', 0xABCDEF1234567890ABCDEF1234567890),
        (''abcdef12-3456-7890-abcd-ef1234567890'', 0xABCDEF1234567890ABCDEF1234567890)],
     uuid_str = (\<lambda>u. case map_of
       [(0x11111111111111111111111111111111, ''11111111-1111-1111-1111-111111111111''),
        (0x22222222222222222222222222222222, ''22222222-2222-2222-2222-222222222222''),
        (0x33333333333333333333333333333333, ''33333333-3333-3333-3333-333333333333''),
        (0xABCDEF1234567890ABCDEF1234567890, ''abcdef12-3456-7890-abcd-ef1234567890'')] u
       of Some s \<Rightarrow> s | None \<Rightarrow> []),
     fromisoformat = map_of
       [(''2024-01-01T00:00:00'', [2024, 1, 1, 0, 0, 0, 0]),
        (''2024-06-30T12:00:00'', [2024, 6, 30, 12, 0, 0, 0]),
        (''2024-07-01T08:30:00.250000'', [2024, 7, 1, 8, 30, 0, 250000]),
        (''2024-07-02T09:45:10.000500'', [2024, 7, 2, 9, 45, 10, 500])],
     str_lower = map (\<lambda>c. case map_of (zip ''ABCDEFGHIJKLMNOPQRSTUVWXYZ''
                                            ''abcdefghijklmnopqrstuvwxyz'') c
                            of Some l \<Rightarrow> l | None \<Rightarrow> c)\<rparr>"

text \<open>An applicant who was deactivated on 30 June 2024.\<close>

definition row_ana :: pydict where
  "row_ana =
     [(''id'', JStr ''11111111-1111-1111-1111-111111111111''),
      (''name'', JStr ''Ana''), (''last_name'', JStr ''Diaz''),
      (''linkedin'', JStr ''linkedin.com/in/ana''), (''email'', JStr ''ana@example.com''),
      (''phone'', JStr ''555-0101''), (''city'', JStr ''Lima''), (''english'', JStr ''B2''),
      (''created_at'', JStr ''2024-01-01T00:00:00''),
      (''deactive_at'', JStr ''2024-06-30T12:00:00'')]"

definition applicant_ana :: "(int, int list) applicant" where
  "applicant_ana =
     \<lparr>app_name = JStr ''Ana'', app_last_name = JStr ''Diaz'',
      app_linkedin = JStr ''linkedin.com/in/ana'', app_email = JStr ''ana@example.com'',
      app_phone = JStr ''555-0101'', app_city = JStr ''Lima'', app_english = JStr ''B2'',
      app_id = Some 0x11111111111111111111111111111111,
      app_created_at = Some [2024, 1, 1, 0, 0, 0, 0],
      app_deactive_at = Some [2024, 6, 30, 12, 0, 0, 0]\<rparr>"

text \<open>An active client without description, an active recruiter with an integer id, an
  open job and an application for it.\<close>

definition row_client :: pydict where
  "row_client =
     [(''id'', JStr ''22222222-2222-2222-2222-222222222222''),
      (''description'', JNull),
      (''created_at'', JStr ''2024-01-01T00:00:00''), (''deactive'', JNull)]"

definition row_recruiter :: pydict where
  "row_recruiter =
     [(''id'', JInt 7), (''name'', JStr ''Rita''), (''description'', JNull),
      (''created_at'', JStr ''2024-01-01T00:00:00''), (''deactive_at'', JNull)]"

definition row_job :: pydict where
  "row_job =
     [(''id'', JStr ''33333333-3333-3333-3333-333333333333''),
      (''min_salary'', JInt 50000), (''max_salary'', JNull), (''description'', JStr ''Backend''),
      (''status'', JStr ''OPEN''), (''recruiter_id'', JInt 7),
      (''client_id'', JStr ''22222222-2222-2222-2222-222222222222''),
      (''created_at'', JStr ''2024-01-01T00:00:00''), (''deactive_at'', JNull)]"

definition row_application :: pydict where
  "row_application =
     [(''id'', JInt 1),
      (''applicant_id'', JStr ''11111111-1111-1111-1111-111111111111''),
      (''job_description_id'', JStr ''33333333-3333-3333-3333-333333333333''),
      (''recruiter_id'', JNull),
      (''created_at'', JStr ''2024-01-01T00:00:00''), (''deactive_at'', JNull)]"

text \<open>A store holding these rows, which returns an inserted payload as it came.\<close>

definition store_sample :: store where
  "store_sample =
     \<lparr>tables = (\<lambda>t. if t = ''applicants'' then [row_ana]
                     else if t = ''client'' then [row_client]
                     else if t = ''recruiter'' then [row_recruiter]
                     else if t = ''job_description'' then [row_job]
                     else if t = ''applicant_job_apply'' then [row_application]
                     else []),
      on_insert = (\<lambda>t d. Inr [d])\<rparr>"

definition client_sample :: "(int, int list) client" where
  "client_sample =
     \<lparr>cli_description = JNull, cli_id = Some 0x22222222222222222222222222222222,
      cli_created_at = Some [2024, 1, 1, 0, 0, 0, 0], cli_deactive = None\<rparr>"

definition recruiter_sample :: "(int, int list) recruiter" where
  "recruiter_sample =
     \<lparr>rec_name = JStr ''Rita'', rec_description = JNull, rec_id = Some (RawId (JInt 7)),
      rec_created_at = Some [2024, 1, 1, 0, 0, 0, 0], rec_deactive_at = None\<rparr>"

definition job_sample :: "(int, int list) job_description" where
  "job_sample =
     \<lparr>jd_min_salary = JInt 50000, jd_status = JStr ''OPEN'', jd_description = JStr ''Backend'',
      jd_max_salary = JNull, jd_recruiter_id = JInt 7,
      jd_client_id = Some 0x22222222222222222222222222222222,
      jd_id = Some 0x33333333333333333333333333333333,
      jd_created_at = Some [2024, 1, 1, 0, 0, 0, 0], jd_deactive_at = None\<rparr>"

definition application_sample :: "(int, int list) applicant_job_apply" where
  "application_sample =
     \<lparr>aja_applicant_id = Some 0x11111111111111111111111111111111,
      aja_job_description_id = Some 0x33333333333333333333333333333333,
      aja_id = JInt 1, aja_created_at = Some [2024, 1, 1, 0, 0, 0, 0],
      aja_deactive_at = None, aja_recruiter_id = None\<rparr>"

text \<open>A client object for which the caller has chosen the id.\<close>

definition client_with_id :: "(int, int list) client" where
  "client_with_id =
     \<lparr>cli_description = JStr ''Acme Corp'', cli_id = Some 0xABCDEF1234567890ABCDEF1234567890,
      cli_created_at = None, cli_deactive = None\<rparr>"

text \<open>
  A row holds the identifier under \<open>k\<close> in canonical form when the string is the one
  that \<open>str\<close> prints for the UUID read from it.
\<close>

definition canonical_uuid :: "('u, 'd) pylib \<Rightarrow> pydict \<Rightarrow> string \<Rightarrow> bool" where
  "canonical_uuid L row k =
     (case map_of row k of
        Some (JStr s) \<Rightarrow> (case uuid_UUID L s of Some u \<Rightarrow> uuid_str L u = s | None \<Rightarrow> True)
      | _ \<Rightarrow> True)"

text \<open>The value under \<open>k\<close>, when the row has the key, is truthy.\<close>

definition truthy_if_present :: "pydict \<Rightarrow> string \<Rightarrow> bool" where
  "truthy_if_present row k = (case map_of row k of Some v \<Rightarrow> truthy v | None \<Rightarrow> True)"

text \<open>An application row whose applicant is null, and an applicant row whose id is
  written in upper case.\<close>

definition row_application_no_applicant :: pydict where
  "row_application_no_applicant =
     [(''id'', JInt 2), (''applicant_id'', JNull),
      (''job_description_id'', JStr ''33333333-3333-3333-3333-333333333333''),
      (''created_at'', JStr ''2024-01-01T00:00:00'')]"

definition application_no_applicant :: "(int, int list) applicant_job_apply" where
  "application_no_applicant =
     \<lparr>aja_applicant_id = None,
      aja_job_description_id = Some 0x33333333333333333333333333333333,
      aja_id = JInt 2, aja_created_at = Some [2024, 1, 1, 0, 0, 0, 0],
      aja_deactive_at = None, aja_recruiter_id = None\<rparr>"

definition row_upper :: pydict where
  "row_upper =
     [(''id'', JStr ''ABCDEF12-3456-7890-ABCD-EF1234567890''),
      (''name'', JStr ''Ugo''), (''last_name'', JStr ''Paz''),
      (''linkedin'', JStr ''linkedin.com/in/ugo''), (''email'', JStr ''ugo@example.com''),
      (''phone'', JStr ''555-0102''), (''city'', JStr ''Cusco''), (''english'', JStr ''C1'')]"

definition applicant_upper :: "(int, int list) applicant" where
  "applicant_upper =
     \<lparr>app_name = JStr ''Ugo'', app_last_name = JStr ''Paz'',
      app_linkedin = JStr ''linkedin.com/in/ugo'', app_email = JStr ''ugo@example.com'',
      app_phone = JStr ''555-0102'', app_city = JStr ''Cusco'', app_english = JStr ''C1'',
      app_id = Some 0xABCDEF1234567890ABCDEF1234567890,
      app_created_at = None, app_deactive_at = None\<rparr>"

section \<open>Dictionaries, decoding and the store: basic facts\<close>

lemma bindE_simps [simp]:
  "bindE (Inl e) f = Inl e"
  "bindE (Inr x) f = f x"
  by (simp_all add: bindE_def)

lemma bindE_eq_Inr_iff: "bindE m f = Inr y \<longleftrightarrow> (\<exists>x. m = Inr x \<and> f x = Inr y)"
  by (cases m) simp_all

lemma dget_update: "dget (AList.update k v r) k' = (if k' = k then v else dget r k')"
  by (simp add: dget_def update_conv')

lemma dget_default_update:
  "dget_default (AList.update k v r) k' d = (if k' = k then v else dget_default r k' d)"
  by (simp add: dget_default_def update_conv')

lemma ditem_update:
  "ditem (AList.update k v r) k' = (if k' = k then Inr v else ditem r k')"
  by (simp add: ditem_def update_conv')

lemma opt_uuid_update: "k' \<noteq> k \<Longrightarrow> opt_uuid L (AList.update k v r) k' = opt_uuid L r k'"
  by (simp add: opt_uuid_def dget_update)

lemma opt_datetime_update: "k' \<noteq> k \<Longrightarrow> opt_datetime L (AList.update k v r) k' = opt_datetime L r k'"
  by (simp add: opt_datetime_def dget_update)

lemma opt_datetime_set_null: "opt_datetime L (AList.update k JNull r) k = Inr None"
  by (simp add: opt_datetime_def dget_update)

lemma opt_datetime_set_str:
  "opt_datetime L (AList.update k (JStr s) r) k =
     (if s = [] then Inr None
      else case fromisoformat L s of None \<Rightarrow> Inl ValueError | Some d \<Rightarrow> Inr (Some d))"
  by (simp add: opt_datetime_def dget_update)

lemma apply_updates_Nil [simp]: "apply_updates [] r = r"
  by (simp add: apply_updates_def)

lemma apply_updates_Cons [simp]:
  "apply_updates ((k, v) # data) r = apply_updates data (AList.update k v r)"
  by (simp add: apply_updates_def)

lemma dget_apply_updates_other:
  "k \<notin> fst ` set data \<Longrightarrow> dget (apply_updates data r) k = dget r k"
  by (induction data arbitrary: r) (auto simp: dget_update)

lemma update_record_result:
  "snd (update_record st t i data) = map (apply_updates data) (eq_filter ''id'' i (tables st t))"
  by (simp add: update_record_def Let_def)

lemma update_record_tables:
  "tables (fst (update_record st t i data)) t' =
     (if t' = t then map (\<lambda>r. if dget r ''id'' = i then apply_updates data r else r) (tables st t)
      else tables st t')"
  by (simp add: update_record_def Let_def)

lemma eq_filter_id_after_update:
  assumes "''id'' \<notin> fst ` set data"
  shows "eq_filter ''id'' i (map (\<lambda>r. if dget r ''id'' = i then apply_updates data r else r) rows)
           = map (apply_updates data) (eq_filter ''id'' i rows)"
  using assms by (induction rows) (auto simp: eq_filter_def dget_apply_updates_other)

lemma eq_filter_after_update_record:
  assumes "''id'' \<notin> fst ` set data"
  shows "eq_filter ''id'' i (tables (fst (update_record st t i data)) t)
           = map (apply_updates data) (eq_filter ''id'' i (tables st t))"
  by (simp add: update_record_tables eq_filter_id_after_update [OF assms])


lemma dget_single: "dget [(k, v)] k = v"
  by (simp add: dget_def)

lemma opt_datetime_update_same:
  "opt_datetime L (AList.update k v r) k = opt_datetime L [(k, v)] k"
  by (simp add: opt_datetime_def dget_update dget_single)

lemma opt_datetime_single_null: "opt_datetime L [(k, JNull)] k = Inr None"
  by (simp add: opt_datetime_def dget_single)

lemma opt_datetime_single_str:
  "now \<noteq> [] \<Longrightarrow> fromisoformat L now = Some d \<Longrightarrow> opt_datetime L [(k, JStr now)] k = Inr (Some d)"
  by (simp add: opt_datetime_def dget_single)

lemma opt_datetime_Inr_None_iff:
  assumes "opt_datetime L r k = Inr de"
  shows "de = None \<longleftrightarrow> \<not> truthy (dget r k)"
proof (cases "truthy (dget r k)")
  case False
  then show ?thesis using assms by (simp add: opt_datetime_def)
next
  case True
  show ?thesis
  proof (cases "dget r k")
    case (JStr s)
    show ?thesis
    proof (cases "fromisoformat L s")
      case None
      with JStr True assms show ?thesis by (simp add: opt_datetime_def)
    next
      case (Some d)
      with JStr True assms show ?thesis by (auto simp: opt_datetime_def)
    qed
  qed (use True assms in \<open>simp_all add: opt_datetime_def\<close>)
qed

text \<open>What the store holds, after an update, in the rows that carry the id.\<close>

lemma length_matched_after_update:
  assumes "''id'' \<notin> fst ` set data"
  shows "length (eq_filter ''id'' i (tables (fst (update_record st t i data)) t))
           = length (eq_filter ''id'' i (tables st t))"
  by (simp add: eq_filter_after_update_record [OF assms])

lemma stored_after_update:
  assumes "''id'' \<notin> fst ` set data" and "\<And>r. f (apply_updates data r) = v"
  shows "map f (eq_filter ''id'' i (tables (fst (update_record st t i data)) t))
           = replicate (length (eq_filter ''id'' i (tables st t))) v"
  by (simp add: eq_filter_after_update_record [OF assms(1)] comp_def assms(2)
        map_replicate_const)

lemma stored_column_after_update:
  assumes "k \<noteq> ''id''"
  shows "map (\<lambda>row. dget row k) (eq_filter ''id'' i (tables (fst (update_record st t i [(k, v)])) t))
           = replicate (length (eq_filter ''id'' i (tables st t))) v"
  using assms
  by (intro stored_after_update) (simp_all add: dget_update)

lemma stored_columns_after_update:
  assumes "k \<noteq> ''id''" and "k' \<noteq> ''id''" and "k \<noteq> k'"
  shows "map (\<lambda>row. (dget row k, dget row k'))
           (eq_filter ''id'' i (tables (fst (update_record st t i [(k, v), (k', v')])) t))
           = replicate (length (eq_filter ''id'' i (tables st t))) (v, v')"
  using assms
  by (intro stored_after_update) (auto simp: dget_update)

lemma JobDescription_from_dict_Inr_iff:
  "JobDescription_from_dict L r = Inr j \<longleftrightarrow>
     (\<exists>i cl cr de.
        opt_uuid L r ''id'' = Inr i \<and> opt_uuid L r ''client_id'' = Inr cl \<and>
        opt_datetime L r ''created_at'' = Inr cr \<and> opt_datetime L r ''deactive_at'' = Inr de \<and>
        j = \<lparr>jd_min_salary = dget_default r ''min_salary'' (JFloat 0),
             jd_status = dget_default r ''status'' (JStr ''OPEN''),
             jd_description = dget r ''description'',
             jd_max_salary = dget r ''max_salary'',
             jd_recruiter_id = dget r ''recruiter_id'',
             jd_client_id = cl, jd_id = i, jd_created_at = cr, jd_deactive_at = de\<rparr>)"
  unfolding JobDescription_from_dict_def bindE_eq_Inr_iff by auto

lemma JobDescription_from_dict_set_status:
  assumes "JobDescription_from_dict L r = Inr j"
  shows "JobDescription_from_dict L (AList.update ''status'' v r) = Inr (j\<lparr>jd_status := v\<rparr>)"
  using assms unfolding JobDescription_from_dict_Inr_iff
  by (auto simp: opt_uuid_update opt_datetime_update dget_update dget_default_update)

lemma JobDescription_from_dict_set_deactive_at:
  assumes "JobDescription_from_dict L r = Inr j"
    and "opt_datetime L [(''deactive_at'', v)] ''deactive_at'' = Inr de"
  shows "JobDescription_from_dict L (AList.update ''deactive_at'' v r) = Inr (j\<lparr>jd_deactive_at := de\<rparr>)"
  using assms unfolding JobDescription_from_dict_Inr_iff
  by (auto simp: opt_uuid_update opt_datetime_update opt_datetime_update_same dget_update dget_default_update)


lemma Applicant_from_dict_Inr_iff:
  "Applicant_from_dict L r = Inr a \<longleftrightarrow>
     (\<exists>i n ln li em ph ci en cr de.
        opt_uuid L r ''id'' = Inr i \<and> ditem r ''name'' = Inr n \<and>
        ditem r ''last_name'' = Inr ln \<and> ditem r ''linkedin'' = Inr li \<and>
        ditem r ''email'' = Inr em \<and> ditem r ''phone'' = Inr ph \<and>
        ditem r ''city'' = Inr ci \<and> ditem r ''english'' = Inr en \<and>
        opt_datetime L r ''created_at'' = Inr cr \<and> opt_datetime L r ''deactive_at'' = Inr de \<and>
        a = \<lparr>app_name = n, app_last_name = ln, app_linkedin = li, app_email = em,
             app_phone = ph, app_city = ci, app_english = en, app_id = i,
             app_created_at = cr, app_deactive_at = de\<rparr>)"
  unfolding Applicant_from_dict_def bindE_eq_Inr_iff by auto

lemma Applicant_from_dict_set_deactive_at:
  assumes "Applicant_from_dict L r = Inr a"
    and "opt_datetime L [(''deactive_at'', v)] ''deactive_at'' = Inr de"
  shows "Applicant_from_dict L (AList.update ''deactive_at'' v r) = Inr (a\<lparr>app_deactive_at := de\<rparr>)"
  using assms unfolding Applicant_from_dict_Inr_iff
  by (auto simp: opt_uuid_update opt_datetime_update opt_datetime_update_same ditem_update)

lemma Client_from_dict_Inr_iff:
  "Client_from_dict L r = Inr c \<longleftrightarrow>
     (\<exists>i cr de.
        opt_uuid L r ''id'' = Inr i \<and> opt_datetime L r ''created_at'' = Inr cr \<and>
        opt_datetime L r ''deactive'' = Inr de \<and>
        c = \<lparr>cli_description = dget r ''description'', cli_id = i,
             cli_created_at = cr, cli_deactive = de\<rparr>)"
  unfolding Client_from_dict_def bindE_eq_Inr_iff by auto

lemma Client_from_dict_set_deactive:
  assumes "Client_from_dict L r = Inr c"
    and "opt_datetime L [(''deactive'', v)] ''deactive'' = Inr de"
  shows "Client_from_dict L (AList.update ''deactive'' v r) = Inr (c\<lparr>cli_deactive := de\<rparr>)"
  using assms unfolding Client_from_dict_Inr_iff
  by (auto simp: opt_uuid_update opt_datetime_update opt_datetime_update_same dget_update)

lemma Recruiter_from_dict_Inr_iff:
  "Recruiter_from_dict L r = Inr c \<longleftrightarrow>
     (\<exists>n cr de.
        ditem r ''name'' = Inr n \<and> opt_datetime L r ''created_at'' = Inr cr \<and>
        opt_datetime L r ''deactive_at'' = Inr de \<and>
        c = \<lparr>rec_name = n, rec_description = dget r ''description'',
             rec_id = (if dget r ''id'' \<noteq> JNull then
                         (case dget r ''id'' of
                            JStr s \<Rightarrow> (case uuid_UUID L s of
                                         Some u \<Rightarrow> Some (UuidId u)
                                       | None \<Rightarrow> Some (RawId (dget r ''id'')))
                          | _ \<Rightarrow> Some (RawId (dget r ''id'')))
                       else None),
             rec_created_at = cr, rec_deactive_at = de\<rparr>)"
  unfolding Recruiter_from_dict_def bindE_eq_Inr_iff Let_def by auto

lemma Recruiter_from_dict_set_deactive_at:
  assumes "Recruiter_from_dict L r = Inr c"
    and "opt_datetime L [(''deactive_at'', v)] ''deactive_at'' = Inr de"
  shows "Recruiter_from_dict L (AList.update ''deactive_at'' v r) = Inr (c\<lparr>rec_deactive_at := de\<rparr>)"
  using assms unfolding Recruiter_from_dict_Inr_iff
  by (auto simp: opt_datetime_update opt_datetime_update_same dget_update ditem_update
           split: jval.splits option.splits)

lemma ApplicantJobApply_from_dict_Inr_iff:
  "ApplicantJobApply_from_dict L r = Inr x \<longleftrightarrow>
     (\<exists>ap jo re cr de.
        opt_uuid L r ''applicant_id'' = Inr ap \<and> opt_uuid L r ''job_description_id'' = Inr jo \<and>
        opt_uuid L r ''recruiter_id'' = Inr re \<and>
        opt_datetime L r ''created_at'' = Inr cr \<and> opt_datetime L r ''deactive_at'' = Inr de \<and>
        x = \<lparr>aja_applicant_id = ap, aja_job_description_id = jo, aja_id = dget r ''id'',
             aja_created_at = cr, aja_deactive_at = de, aja_recruiter_id = re\<rparr>)"
  unfolding ApplicantJobApply_from_dict_def bindE_eq_Inr_iff by auto

lemma ApplicantJobApply_from_dict_set_deactive_at:
  assumes "ApplicantJobApply_from_dict L r = Inr x"
    and "opt_datetime L [(''deactive_at'', v)] ''deactive_at'' = Inr de"
  shows "ApplicantJobApply_from_dict L (AList.update ''deactive_at'' v r)
           = Inr (x\<lparr>aja_deactive_at := de\<rparr>)"
  using assms unfolding ApplicantJobApply_from_dict_Inr_iff
  by (auto simp: opt_uuid_update opt_datetime_update opt_datetime_update_same dget_update)

lemma update_applicant_result:
  "snd (update_applicant L st i data) =
     (case eq_filter ''id'' i (tables st TABLE_NAME_applicants) of
        [] \<Rightarrow> Inr None
      | r # _ \<Rightarrow> bindE (Applicant_from_dict L (apply_updates data r)) (\<lambda>x. Inr (Some x)))"
  by (cases "update_record st TABLE_NAME_applicants i data",
      cases "eq_filter ''id'' i (tables st TABLE_NAME_applicants)")
     (use update_record_result [of st TABLE_NAME_applicants i data] in
      \<open>auto simp: update_applicant_def split: list.splits\<close>)

lemma update_applicant_store:
  "fst (update_applicant L st i data) = fst (update_record st TABLE_NAME_applicants i data)"
  by (simp add: update_applicant_def split: prod.splits list.splits)

lemma update_client_result:
  "snd (update_client L st i data) =
     (case eq_filter ''id'' i (tables st TABLE_NAME_client) of
        [] \<Rightarrow> Inr None
      | r # _ \<Rightarrow> bindE (Client_from_dict L (apply_updates data r)) (\<lambda>x. Inr (Some x)))"
  by (cases "update_record st TABLE_NAME_client i data",
      cases "eq_filter ''id'' i (tables st TABLE_NAME_client)")
     (use update_record_result [of st TABLE_NAME_client i data] in
      \<open>auto simp: update_client_def split: list.splits\<close>)

lemma update_client_store:
  "fst (update_client L st i data) = fst (update_record st TABLE_NAME_client i data)"
  by (simp add: update_client_def split: prod.splits list.splits)

lemma update_recruiter_result:
  "snd (update_recruiter L st i data) =
     (case eq_filter ''id'' i (tables st TABLE_NAME_recruiter) of
        [] \<Rightarrow> Inr None
      | r # _ \<Rightarrow> bindE (Recruiter_from_dict L (apply_updates data r)) (\<lambda>x. Inr (Some x)))"
  by (cases "update_record st TABLE_NAME_recruiter i data",
      cases "eq_filter ''id'' i (tables st TABLE_NAME_recruiter)")
     (use update_record_result [of st TABLE_NAME_recruiter i data] in
      \<open>auto simp: update_recruiter_def split: list.splits\<close>)

lemma update_recruiter_store:
  "fst (update_recruiter L st i data) = fst (update_record st TABLE_NAME_recruiter i data)"
  by (simp add: update_recruiter_def split: prod.splits list.splits)

lemma update_application_result:
  "snd (update_application L st i data) =
     (case eq_filter ''id'' i (tables st TABLE_NAME_applicant_job_apply) of
        [] \<Rightarrow> Inr None
      | r # _ \<Rightarrow> bindE (ApplicantJobApply_from_dict L (apply_updates data r)) (\<lambda>x. Inr (Some x)))"
  by (cases "update_record st TABLE_NAME_applicant_job_apply i data",
      cases "eq_filter ''id'' i (tables st TABLE_NAME_applicant_job_apply)")
     (use update_record_result [of st TABLE_NAME_applicant_job_apply i data] in
      \<open>auto simp: update_application_def split: list.splits\<close>)

lemma update_application_store:
  "fst (update_application L st i data) = fst (update_record st TABLE_NAME_applicant_job_apply i data)"
  by (simp add: update_application_def split: prod.splits list.splits)

lemma update_job_description_result:
  "snd (update_job_description L st i data) =
     (case eq_filter ''id'' i (tables st TABLE_NAME_job_description) of
        [] \<Rightarrow> Inr None
      | r # _ \<Rightarrow> bindE (JobDescription_from_dict L (apply_updates data r)) (\<lambda>j. Inr (Some j)))"
  by (cases "update_record st TABLE_NAME_job_description i data",
      cases "eq_filter ''id'' i (tables st TABLE_NAME_job_description)")
     (use update_record_result [of st TABLE_NAME_job_description i data] in
      \<open>auto simp: update_job_description_def split: list.splits\<close>)

lemma update_job_description_store:
  "fst (update_job_description L st i data) = fst (update_record st TABLE_NAME_job_description i data)"
  by (simp add: update_job_description_def split: prod.splits list.splits)

lemma JobDescription_status_read:
  "JobDescription_from_dict L r = Inr j \<Longrightarrow> jd_status j = dget_default r ''status'' (JStr ''OPEN'')"
  unfolding JobDescription_from_dict_Inr_iff by auto

lemma JobDescription_deactive_at_read:
  "JobDescription_from_dict L r = Inr j \<Longrightarrow> jd_deactive_at j = None \<longleftrightarrow> \<not> truthy (dget r ''deactive_at'')"
  unfolding JobDescription_from_dict_Inr_iff by (auto dest: opt_datetime_Inr_None_iff)

section \<open>Closing and reopening a job description\<close>

text \<open>
  C2. When \<open>job_id\<close> matches a row that the codec accepts, \<open>close_job_description\<close>
  returns the job with status \<open>CLOSED\<close> and a deactivation timestamp (the instant read
  from the clock), and \<open>reopen_job_description\<close> returns it with status \<open>OPEN\<close> and no
  deactivation timestamp. The clock text \<open>now\<close> is an ISO string, non-empty and read back
  by \<open>fromisoformat\<close>.
\<close>

theorem close_reopen_job_description:
  assumes found: "eq_filter ''id'' job_id (tables st TABLE_NAME_job_description) = r # rest"
    and decodes: "JobDescription_from_dict L r = Inr j"
    and clock: "now \<noteq> []" "fromisoformat L now = Some d"
  shows "(\<exists>c. snd (close_job_description L st now job_id) = Inr (Some c) \<and>
              jd_status c = JStr ''CLOSED'' \<and> jd_deactive_at c = Some d) \<and>
         (\<exists>c. snd (reopen_job_description L st job_id) = Inr (Some c) \<and>
              jd_status c = JStr ''OPEN'' \<and> jd_deactive_at c = None)"
proof -
  have closed: "JobDescription_from_dict L
      (AList.update ''status'' (JStr ''CLOSED'') (AList.update ''deactive_at'' (JStr now) r))
      = Inr (j\<lparr>jd_deactive_at := Some d, jd_status := JStr ''CLOSED''\<rparr>)"
    by (intro JobDescription_from_dict_set_status JobDescription_from_dict_set_deactive_at
          decodes opt_datetime_single_str clock)
  have opened: "JobDescription_from_dict L
      (AList.update ''status'' (JStr ''OPEN'') (AList.update ''deactive_at'' JNull r))
      = Inr (j\<lparr>jd_deactive_at := None, jd_status := JStr ''OPEN''\<rparr>)"
    by (intro JobDescription_from_dict_set_status JobDescription_from_dict_set_deactive_at
          decodes opt_datetime_single_null)
  have c: "snd (close_job_description L st now job_id)
             = Inr (Some (j\<lparr>jd_deactive_at := Some d, jd_status := JStr ''CLOSED''\<rparr>))"
    by (simp add: close_job_description_def update_job_description_result found closed)
  have o: "snd (reopen_job_description L st job_id)
             = Inr (Some (j\<lparr>jd_deactive_at := None, jd_status := JStr ''OPEN''\<rparr>))"
    by (simp add: reopen_job_description_def update_job_description_result found opened)
  show ?thesis
    by (simp add: c o)
qed

theorem close_reopen_job_description_witness:
  "eq_filter ''id'' (JStr ''33333333-3333-3333-3333-333333333333'')
     (tables store_sample TABLE_NAME_job_description) = [row_job] \<and>
   JobDescription_from_dict cpython_sample row_job = Inr job_sample \<and>
   fromisoformat cpython_sample ''2024-07-01T08:30:00.250000'' = Some [2024, 7, 1, 8, 30, 0, 250000] \<and>
   (\<exists>c. snd (close_job_description cpython_sample store_sample ''2024-07-01T08:30:00.250000''
              (JStr ''33333333-3333-3333-3333-333333333333'')) = Inr (Some c) \<and>
        jd_status c = JStr ''CLOSED'' \<and> jd_deactive_at c = Some [2024, 7, 1, 8, 30, 0, 250000]) \<and>
   (\<exists>c. snd (reopen_job_description cpython_sample store_sample
              (JStr ''33333333-3333-3333-3333-333333333333'')) = Inr (Some c) \<and>
        jd_status c = JStr ''OPEN'' \<and> jd_deactive_at c = None)"
proof -
  have found: "eq_filter ''id'' (JStr ''33333333-3333-3333-3333-333333333333'')
     (tables store_sample TABLE_NAME_job_description) = [row_job]"
    by code_simp
  have decodes: "JobDescription_from_dict cpython_sample row_job = Inr job_sample"
    by code_simp
  have clock: "''2024-07-01T08:30:00.250000'' \<noteq> []"
    "fromisoformat cpython_sample ''2024-07-01T08:30:00.250000'' = Some [2024, 7, 1, 8, 30, 0, 250000]"
    by code_simp+
  from close_reopen_job_description [OF found decodes clock] found decodes clock
  show ?thesis by blast
qed

section \<open>Changing the status alone\<close>

lemma map_of_update_other: "k \<noteq> k' \<Longrightarrow> map_of (AList.update k' v r) k = map_of r k"
  by (simp add: update_conv')

lemma change_job_status_store:
  "fst (change_job_status L st job_id status)
     = fst (update_record st TABLE_NAME_job_description job_id [(''status'', JStr status)])"
  by (simp add: change_job_status_def update_job_description_store)

text \<open>
  C3. \<open>change_job_status\<close> writes the column \<open>status\<close> of the rows that carry the id and
  nothing else. In the store after the call, whatever the id and the status: the table
  is the table before with the status written into the rows that carry the id; each of
  these rows holds the new status, and the same \<open>deactive_at\<close> as before; every column
  other than \<open>status\<close> of every row is as before, and so are the other tables. For a
  matched row that the codec accepts, the job returned is the job decoded from the row
  before the call with the new status, all other fields unchanged, and the stored rows
  that carry the id are the rows before with the new status.
\<close>

theorem change_job_status_only_status:
  "tables (fst (change_job_status L st job_id status)) TABLE_NAME_job_description
     = map (\<lambda>row. if dget row ''id'' = job_id
                    then AList.update ''status'' (JStr status) row else row)
         (tables st TABLE_NAME_job_description) \<and>
   map (\<lambda>row. map_of row ''status'')
     (eq_filter ''id'' job_id
        (tables (fst (change_job_status L st job_id status)) TABLE_NAME_job_description))
     = replicate (length (eq_filter ''id'' job_id (tables st TABLE_NAME_job_description)))
         (Some (JStr status)) \<and>
   map (\<lambda>row. map_of row ''deactive_at'')
     (eq_filter ''id'' job_id
        (tables (fst (change_job_status L st job_id status)) TABLE_NAME_job_description))
     = map (\<lambda>row. map_of row ''deactive_at'')
         (eq_filter ''id'' job_id (tables st TABLE_NAME_job_description)) \<and>
   (\<forall>k. k \<noteq> ''status'' \<longrightarrow>
        map (\<lambda>row. map_of row k)
          (tables (fst (change_job_status L st job_id status)) TABLE_NAME_job_description)
        = map (\<lambda>row. map_of row k) (tables st TABLE_NAME_job_description)) \<and>
   (\<forall>t. t \<noteq> TABLE_NAME_job_description \<longrightarrow>
        tables (fst (change_job_status L st job_id status)) t = tables st t) \<and>
   (eq_filter ''id'' job_id (tables st TABLE_NAME_job_description) = r # rest \<and>
    JobDescription_from_dict L r = Inr j \<longrightarrow>
      snd (change_job_status L st job_id status) = Inr (Some (j\<lparr>jd_status := JStr status\<rparr>)) \<and>
      eq_filter ''id'' job_id
        (tables (fst (change_job_status L st job_id status)) TABLE_NAME_job_description)
        = AList.update ''status'' (JStr status) r
            # map (AList.update ''status'' (JStr status)) rest)"
proof -
  let ?T = TABLE_NAME_job_description
  let ?st' = "fst (change_job_status L st job_id status)"
  have no_id: "''id'' \<notin> fst ` set [(''status'', JStr status)]"
    by simp
  have matched: "eq_filter ''id'' job_id (tables ?st' ?T)
      = map (AList.update ''status'' (JStr status)) (eq_filter ''id'' job_id (tables st ?T))"
    using eq_filter_after_update_record [OF no_id, of job_id st ?T]
    by (simp add: change_job_status_store apply_updates_def)
  have table: "tables ?st' ?T
      = map (\<lambda>row. if dget row ''id'' = job_id
                      then AList.update ''status'' (JStr status) row else row) (tables st ?T)"
    by (simp add: change_job_status_store update_record_tables)
  have status: "map (\<lambda>row. map_of row ''status'') (eq_filter ''id'' job_id (tables ?st' ?T))
      = replicate (length (eq_filter ''id'' job_id (tables st ?T))) (Some (JStr status))"
    by (simp add: matched comp_def update_conv' map_replicate_const)
  have deactive: "map (\<lambda>row. map_of row ''deactive_at'') (eq_filter ''id'' job_id (tables ?st' ?T))
      = map (\<lambda>row. map_of row ''deactive_at'') (eq_filter ''id'' job_id (tables st ?T))"
    by (simp add: matched comp_def update_conv')
  have frame: "map (\<lambda>row. map_of row k) (tables ?st' ?T)
      = map (\<lambda>row. map_of row k) (tables st ?T)" if "k \<noteq> ''status''" for k
    using that by (simp add: table map_of_update_other)
  have others: "tables ?st' t = tables st t" if "t \<noteq> ?T" for t
    using that by (simp add: change_job_status_store update_record_tables)
  have returned: "snd (change_job_status L st job_id status)
      = Inr (Some (j\<lparr>jd_status := JStr status\<rparr>))"
    if "eq_filter ''id'' job_id (tables st ?T) = r # rest" "JobDescription_from_dict L r = Inr j"
    using that
    by (simp add: change_job_status_def update_job_description_result
          JobDescription_from_dict_set_status)
  have stored: "eq_filter ''id'' job_id (tables ?st' ?T)
      = AList.update ''status'' (JStr status) r # map (AList.update ''status'' (JStr status)) rest"
    if "eq_filter ''id'' job_id (tables st ?T) = r # rest"
    using that by (simp add: matched)
  from table status deactive frame others returned stored show ?thesis
    by blast
qed

text \<open>
  On the example store the open, active job becomes \<open>CLOSED\<close> while still active, in
  what is returned and in the row that the store holds; and once closed (status
  \<open>CLOSED\<close>, inactive) it becomes \<open>OPEN\<close> while still inactive.
\<close>

theorem change_job_status_only_status_witness:
  "snd (change_job_status cpython_sample store_sample
          (JStr ''33333333-3333-3333-3333-333333333333'') ''CLOSED'')
     = Inr (Some (job_sample\<lparr>jd_status := JStr ''CLOSED''\<rparr>)) \<and>
   jd_deactive_at (job_sample\<lparr>jd_status := JStr ''CLOSED''\<rparr>) = None \<and>
   eq_filter ''id'' (JStr ''33333333-3333-3333-3333-333333333333'')
     (tables (fst (change_job_status cpython_sample store_sample
                     (JStr ''33333333-3333-3333-3333-333333333333'') ''CLOSED''))
        TABLE_NAME_job_description)
     = [AList.update ''status'' (JStr ''CLOSED'') row_job] \<and>
   dget (AList.update ''status'' (JStr ''CLOSED'') row_job) ''status'' = JStr ''CLOSED'' \<and>
   dget (AList.update ''status'' (JStr ''CLOSED'') row_job) ''deactive_at'' = JNull \<and>
   snd (change_job_status cpython_sample
          (fst (close_job_description cpython_sample store_sample ''2024-07-01T08:30:00.250000''
                  (JStr ''33333333-3333-3333-3333-333333333333'')))
          (JStr ''33333333-3333-3333-3333-333333333333'') ''OPEN'')
     = Inr (Some (job_sample\<lparr>jd_status := JStr ''OPEN'',
                             jd_deactive_at := Some [2024, 7, 1, 8, 30, 0, 250000]\<rparr>))"
proof -
  let ?i = "JStr ''33333333-3333-3333-3333-333333333333''"
  let ?st = "fst (close_job_description cpython_sample store_sample
                    ''2024-07-01T08:30:00.250000'' ?i)"
  let ?r = "AList.update ''status'' (JStr ''CLOSED'')
              (AList.update ''deactive_at'' (JStr ''2024-07-01T08:30:00.250000'') row_job)"
  have found: "eq_filter ''id'' ?i (tables store_sample TABLE_NAME_job_description) = row_job # []"
    by code_simp
  have decodes: "JobDescription_from_dict cpython_sample row_job = Inr job_sample"
    by code_simp
  have found': "eq_filter ''id'' ?i (tables ?st TABLE_NAME_job_description) = ?r # []"
    by code_simp
  have decodes': "JobDescription_from_dict cpython_sample ?r
      = Inr (job_sample\<lparr>jd_status := JStr ''CLOSED'',
                         jd_deactive_at := Some [2024, 7, 1, 8, 30, 0, 250000]\<rparr>)"
    by code_simp
  have active: "jd_deactive_at (job_sample\<lparr>jd_status := JStr ''CLOSED''\<rparr>) = None"
    by (simp add: job_sample_def)
  have row: "dget (AList.update ''status'' (JStr ''CLOSED'') row_job) ''status'' = JStr ''CLOSED''"
    "dget (AList.update ''status'' (JStr ''CLOSED'') row_job) ''deactive_at'' = JNull"
    by code_simp+
  note closed = change_job_status_only_status [where status = "''CLOSED''"
      and L = cpython_sample and st = store_sample and job_id = ?i and r = row_job
      and rest = "[]" and j = job_sample]
  note opened = change_job_status_only_status [where status = "''OPEN''"
      and L = cpython_sample and st = ?st and job_id = ?i and r = ?r and rest = "[]"
      and j = "job_sample\<lparr>jd_status := JStr ''CLOSED'',
                  jd_deactive_at := Some [2024, 7, 1, 8, 30, 0, 250000]\<rparr>"]
  from closed found decodes
  have 1: "snd (change_job_status cpython_sample store_sample ?i ''CLOSED'')
     = Inr (Some (job_sample\<lparr>jd_status := JStr ''CLOSED''\<rparr>))"
    by blast
  from closed found decodes
  have 2: "eq_filter ''id'' ?i
     (tables (fst (change_job_status cpython_sample store_sample ?i ''CLOSED''))
        TABLE_NAME_job_description)
     = AList.update ''status'' (JStr ''CLOSED'') row_job
         # map (AList.update ''status'' (JStr ''CLOSED'')) []"
    by blast
  from opened found' decodes'
  have 3: "snd (change_job_status cpython_sample ?st ?i ''OPEN'')
     = Inr (Some (job_sample\<lparr>jd_status := JStr ''CLOSED'',
                  jd_deactive_at := Some [2024, 7, 1, 8, 30, 0, 250000]\<rparr>
                  \<lparr>jd_status := JStr ''OPEN''\<rparr>))"
    by blast
  from 1 2 3 active row show ?thesis by simp
qed

section \<open>Update returns the entity or nothing\<close>

lemma eq_filter_no_match:
  "(\<forall>r\<in>set rows. dget r k \<noteq> v) \<Longrightarrow> eq_filter k v rows = []"
  by (simp add: eq_filter_def)

lemma update_applicant_cases:
  "snd (update_applicant L st i u) =
     (case snd (update_record st TABLE_NAME_applicants i u) of
        [] \<Rightarrow> Inr None
      | r # _ \<Rightarrow> bindE (Applicant_from_dict L r) (\<lambda>x. Inr (Some x)))"
  by (simp add: update_applicant_def split: prod.splits list.splits)

lemma update_applicant_no_match:
  "(\<forall>r\<in>set (tables st TABLE_NAME_applicants). dget r ''id'' \<noteq> i) \<Longrightarrow>
     snd (update_applicant L st i u) = Inr None"
  by (simp add: update_applicant_result eq_filter_no_match)

lemma update_client_cases:
  "snd (update_client L st i u) =
     (case snd (update_record st TABLE_NAME_client i u) of
        [] \<Rightarrow> Inr None
      | r # _ \<Rightarrow> bindE (Client_from_dict L r) (\<lambda>x. Inr (Some x)))"
  by (simp add: update_client_def split: prod.splits list.splits)

lemma update_client_no_match:
  "(\<forall>r\<in>set (tables st TABLE_NAME_client). dget r ''id'' \<noteq> i) \<Longrightarrow>
     snd (update_client L st i u) = Inr None"
  by (simp add: update_client_result eq_filter_no_match)

lemma update_recruiter_cases:
  "snd (update_recruiter L st i u) =
     (case snd (update_record st TABLE_NAME_recruiter i u) of
        [] \<Rightarrow> Inr None
      | r # _ \<Rightarrow> bindE (Recruiter_from_dict L r) (\<lambda>x. Inr (Some x)))"
  by (simp add: update_recruiter_def split: prod.splits list.splits)

lemma update_recruiter_no_match:
  "(\<forall>r\<in>set (tables st TABLE_NAME_recruiter). dget r ''id'' \<noteq> i) \<Longrightarrow>
     snd (update_recruiter L st i u) = Inr None"
  by (simp add: update_recruiter_result eq_filter_no_match)

lemma update_job_description_cases:
  "snd (update_job_description L st i u) =
     (case snd (update_record st TABLE_NAME_job_description i u) of
        [] \<Rightarrow> Inr None
      | r # _ \<Rightarrow> bindE (JobDescription_from_dict L r) (\<lambda>x. Inr (Some x)))"
  by (simp add: update_job_description_def split: prod.splits list.splits)

lemma update_job_description_no_match:
  "(\<forall>r\<in>set (tables st TABLE_NAME_job_description). dget r ''id'' \<noteq> i) \<Longrightarrow>
     snd (update_job_description L st i u) = Inr None"
  by (simp add: update_job_description_result eq_filter_no_match)

lemma update_application_cases:
  "snd (update_application L st i u) =
     (case snd (update_record st TABLE_NAME_applicant_job_apply i u) of
        [] \<Rightarrow> Inr None
      | r # _ \<Rightarrow> bindE (ApplicantJobApply_from_dict L r) (\<lambda>x. Inr (Some x)))"
  by (simp add: update_application_def split: prod.splits list.splits)

lemma update_application_no_match:
  "(\<forall>r\<in>set (tables st TABLE_NAME_applicant_job_apply). dget r ''id'' \<noteq> i) \<Longrightarrow>
     snd (update_application L st i u) = Inr None"
  by (simp add: update_application_result eq_filter_no_match)

text \<open>
  C5. For each of the five entity types, \<open>update\<close> looks at the rows that the store's
  update returns: with no row it returns \<open>None\<close> and raises nothing, otherwise it returns
  the first row decoded (and raises what the codec raises when it refuses that row). In
  particular an update of an id that no row carries returns \<open>None\<close>, whatever the field
  mapping, the empty one included.
\<close>

theorem update_returns_entity_or_absent:
  "snd (update_applicant L st i u) =
     (case snd (update_record st TABLE_NAME_applicants i u) of
        [] \<Rightarrow> Inr None
      | r # _ \<Rightarrow> bindE (Applicant_from_dict L r) (\<lambda>x. Inr (Some x))) \<and>
   snd (update_client L st i u) =
     (case snd (update_record st TABLE_NAME_client i u) of
        [] \<Rightarrow> Inr None
      | r # _ \<Rightarrow> bindE (Client_from_dict L r) (\<lambda>x. Inr (Some x))) \<and>
   snd (update_recruiter L st i u) =
     (case snd (update_record st TABLE_NAME_recruiter i u) of
        [] \<Rightarrow> Inr None
      | r # _ \<Rightarrow> bindE (Recruiter_from_dict L r) (\<lambda>x. Inr (Some x))) \<and>
   snd (update_job_description L st i u) =
     (case snd (update_record st TABLE_NAME_job_description i u) of
        [] \<Rightarrow> Inr None
      | r # _ \<Rightarrow> bindE (JobDescription_from_dict L r) (\<lambda>x. Inr (Some x))) \<and>
   snd (update_application L st i u) =
     (case snd (update_record st TABLE_NAME_applicant_job_apply i u) of
        [] \<Rightarrow> Inr None
      | r # _ \<Rightarrow> bindE (ApplicantJobApply_from_dict L r) (\<lambda>x. Inr (Some x))) \<and>
   ((\<forall>r\<in>set (tables st TABLE_NAME_applicants). dget r ''id'' \<noteq> i) \<longrightarrow>
      snd (update_applicant L st i u) = Inr None \<and> snd (update_applicant L st i []) = Inr None) \<and>
   ((\<forall>r\<in>set (tables st TABLE_NAME_client). dget r ''id'' \<noteq> i) \<longrightarrow>
      snd (update_client L st i u) = Inr None \<and> snd (update_client L st i []) = Inr None) \<and>
   ((\<forall>r\<in>set (tables st TABLE_NAME_recruiter). dget r ''id'' \<noteq> i) \<longrightarrow>
      snd (update_recruiter L st i u) = Inr None \<and> snd (update_recruiter L st i []) = Inr None) \<and>
   ((\<forall>r\<in>set (tables st TABLE_NAME_job_description). dget r ''id'' \<noteq> i) \<longrightarrow>
      snd (update_job_description L st i u) = Inr None \<and> snd (update_job_description L st i []) = Inr None) \<and>
   ((\<forall>r\<in>set (tables st TABLE_NAME_applicant_job_apply). dget r ''id'' \<noteq> i) \<longrightarrow>
      snd (update_application L st i u) = Inr None \<and> snd (update_application L st i []) = Inr None)"
  by (intro conjI impI update_applicant_cases update_client_cases update_recruiter_cases
        update_job_description_cases update_application_cases update_applicant_no_match
        update_client_no_match update_recruiter_no_match update_job_description_no_match
        update_application_no_match)

text \<open>
  No row of the example store carries the id \<open>404\<close>: each update with the empty mapping
  returns \<open>None\<close>; the update of the recruiter with id \<open>7\<close> returns the recruiter.
\<close>

theorem update_returns_entity_or_absent_witness:
  "snd (update_applicant cpython_sample store_sample (JInt 404) []) = Inr None \<and>
   snd (update_client cpython_sample store_sample (JInt 404) []) = Inr None \<and>
   snd (update_recruiter cpython_sample store_sample (JInt 404) []) = Inr None \<and>
   snd (update_job_description cpython_sample store_sample (JInt 404) []) = Inr None \<and>
   snd (update_application cpython_sample store_sample (JInt 404) []) = Inr None \<and>
   snd (update_recruiter cpython_sample store_sample (JInt 7) [(''description'', JStr ''IT'')])
     = Inr (Some (recruiter_sample\<lparr>rec_description := JStr ''IT''\<rparr>))"
proof -
  have none:
    "\<forall>r\<in>set (tables store_sample TABLE_NAME_applicants). dget r ''id'' \<noteq> JInt 404"
    "\<forall>r\<in>set (tables store_sample TABLE_NAME_client). dget r ''id'' \<noteq> JInt 404"
    "\<forall>r\<in>set (tables store_sample TABLE_NAME_recruiter). dget r ''id'' \<noteq> JInt 404"
    "\<forall>r\<in>set (tables store_sample TABLE_NAME_job_description). dget r ''id'' \<noteq> JInt 404"
    "\<forall>r\<in>set (tables store_sample TABLE_NAME_applicant_job_apply). dget r ''id'' \<noteq> JInt 404"
    by code_simp+
  have row: "snd (update_record store_sample TABLE_NAME_recruiter (JInt 7)
                    [(''description'', JStr ''IT'')])
               = [AList.update ''description'' (JStr ''IT'') row_recruiter]"
    by code_simp
  have dec: "Recruiter_from_dict cpython_sample
               (AList.update ''description'' (JStr ''IT'') row_recruiter)
             = Inr (recruiter_sample\<lparr>rec_description := JStr ''IT''\<rparr>)"
    by code_simp
  from update_returns_entity_or_absent [of cpython_sample store_sample "JInt 404" "[]"] none
  have "snd (update_applicant cpython_sample store_sample (JInt 404) []) = Inr None"
    "snd (update_client cpython_sample store_sample (JInt 404) []) = Inr None"
    "snd (update_recruiter cpython_sample store_sample (JInt 404) []) = Inr None"
    "snd (update_job_description cpython_sample store_sample (JInt 404) []) = Inr None"
    "snd (update_application cpython_sample store_sample (JInt 404) []) = Inr None"
    by blast+
  moreover
  from update_returns_entity_or_absent
         [of cpython_sample store_sample "JInt 7" "[(''description'', JStr ''IT'')]"]
  have "snd (update_recruiter cpython_sample store_sample (JInt 7) [(''description'', JStr ''IT'')])
     = Inr (Some (recruiter_sample\<lparr>rec_description := JStr ''IT''\<rparr>))"
    by (simp add: row dec)
  ultimately show ?thesis by simp
qed

section \<open>Soft delete: deactivate, reactivate, deactivate again\<close>

lemma found_after_update:
  assumes "eq_filter ''id'' i (tables st t) = r # rest" and "''id'' \<notin> fst ` set data"
  shows "eq_filter ''id'' i (tables (fst (update_record st t i data)) t)
           = apply_updates data r # map (apply_updates data) rest"
  by (simp add: eq_filter_after_update_record [OF assms(2)] assms(1))

lemma applicant_set_deactive_at_step:
  assumes found: "eq_filter ''id'' i (tables st TABLE_NAME_applicants) = r # rest"
    and decodes: "Applicant_from_dict L r = Inr e"
    and ts: "opt_datetime L [(''deactive_at'', v)] ''deactive_at'' = Inr de"
  shows "snd (update_applicant L st i [(''deactive_at'', v)]) = Inr (Some (e\<lparr>app_deactive_at := de\<rparr>))"
    and "eq_filter ''id'' i (tables (fst (update_applicant L st i [(''deactive_at'', v)])) TABLE_NAME_applicants)
           = AList.update ''deactive_at'' v r # map (apply_updates [(''deactive_at'', v)]) rest"
    and "Applicant_from_dict L (AList.update ''deactive_at'' v r) = Inr (e\<lparr>app_deactive_at := de\<rparr>)"
proof -
  show dec: "Applicant_from_dict L (AList.update ''deactive_at'' v r) = Inr (e\<lparr>app_deactive_at := de\<rparr>)"
    by (rule Applicant_from_dict_set_deactive_at [OF decodes ts])
  show "snd (update_applicant L st i [(''deactive_at'', v)]) = Inr (Some (e\<lparr>app_deactive_at := de\<rparr>))"
    by (simp add: update_applicant_result found dec)
  show "eq_filter ''id'' i (tables (fst (update_applicant L st i [(''deactive_at'', v)])) TABLE_NAME_applicants)
           = AList.update ''deactive_at'' v r # map (apply_updates [(''deactive_at'', v)]) rest"
    using found_after_update [OF found, of "[(''deactive_at'', v)]"]
    by (simp add: update_applicant_store)
qed

lemma applicant_deactivate_reactivate:
  assumes found: "eq_filter ''id'' i (tables st TABLE_NAME_applicants) = r # rest"
    and decodes: "Applicant_from_dict L r = Inr e"
    and clock1: "now1 \<noteq> []" "fromisoformat L now1 = Some d1"
    and clock2: "now2 \<noteq> []" "fromisoformat L now2 = Some d2"
  shows "snd (deactivate_applicant L st now1 i) = Inr (Some (e\<lparr>app_deactive_at := Some d1\<rparr>))"
    and "snd (reactivate_applicant L (fst (deactivate_applicant L st now1 i)) i)
           = Inr (Some (e\<lparr>app_deactive_at := None\<rparr>))"
    and "snd (deactivate_applicant L (fst (deactivate_applicant L st now1 i)) now2 i)
           = Inr (Some (e\<lparr>app_deactive_at := Some d2\<rparr>))"
proof -
  note first = applicant_set_deactive_at_step [OF found decodes opt_datetime_single_str [OF clock1]]
  show "snd (deactivate_applicant L st now1 i) = Inr (Some (e\<lparr>app_deactive_at := Some d1\<rparr>))"
    using first(1) by (simp add: deactivate_applicant_def)
  have found1: "eq_filter ''id'' i (tables (fst (deactivate_applicant L st now1 i)) TABLE_NAME_applicants)
      = AList.update ''deactive_at'' (JStr now1) r # map (apply_updates [(''deactive_at'', JStr now1)]) rest"
    using first(2) by (simp add: deactivate_applicant_def)
  show "snd (reactivate_applicant L (fst (deactivate_applicant L st now1 i)) i)
           = Inr (Some (e\<lparr>app_deactive_at := None\<rparr>))"
    using applicant_set_deactive_at_step(1) [OF found1 first(3) opt_datetime_single_null]
    by (simp add: reactivate_applicant_def)
  show "snd (deactivate_applicant L (fst (deactivate_applicant L st now1 i)) now2 i)
           = Inr (Some (e\<lparr>app_deactive_at := Some d2\<rparr>))"
    using applicant_set_deactive_at_step(1) [OF found1 first(3) opt_datetime_single_str [OF clock2]]
    by (simp add: deactivate_applicant_def)
qed

lemma client_set_deactive_step:
  assumes found: "eq_filter ''id'' i (tables st TABLE_NAME_client) = r # rest"
    and decodes: "Client_from_dict L r = Inr e"
    and ts: "opt_datetime L [(''deactive'', v)] ''deactive'' = Inr de"
  shows "snd (update_client L st i [(''deactive'', v)]) = Inr (Some (e\<lparr>cli_deactive := de\<rparr>))"
    and "eq_filter ''id'' i (tables (fst (update_client L st i [(''deactive'', v)])) TABLE_NAME_client)
           = AList.update ''deactive'' v r # map (apply_updates [(''deactive'', v)]) rest"
    and "Client_from_dict L (AList.update ''deactive'' v r) = Inr (e\<lparr>cli_deactive := de\<rparr>)"
proof -
  show dec: "Client_from_dict L (AList.update ''deactive'' v r) = Inr (e\<lparr>cli_deactive := de\<rparr>)"
    by (rule Client_from_dict_set_deactive [OF decodes ts])
  show "snd (update_client L st i [(''deactive'', v)]) = Inr (Some (e\<lparr>cli_deactive := de\<rparr>))"
    by (simp add: update_client_result found dec)
  show "eq_filter ''id'' i (tables (fst (update_client L st i [(''deactive'', v)])) TABLE_NAME_client)
           = AList.update ''deactive'' v r # map (apply_updates [(''deactive'', v)]) rest"
    using found_after_update [OF found, of "[(''deactive'', v)]"]
    by (simp add: update_client_store)
qed

lemma client_deactivate_reactivate:
  assumes found: "eq_filter ''id'' i (tables st TABLE_NAME_client) = r # rest"
    and decodes: "Client_from_dict L r = Inr e"
    and clock1: "now1 \<noteq> []" "fromisoformat L now1 = Some d1"
    and clock2: "now2 \<noteq> []" "fromisoformat L now2 = Some d2"
  shows "snd (deactivate_client L st now1 i) = Inr (Some (e\<lparr>cli_deactive := Some d1\<rparr>))"
    and "snd (reactivate_client L (fst (deactivate_client L st now1 i)) i)
           = Inr (Some (e\<lparr>cli_deactive := None\<rparr>))"
    and "snd (deactivate_client L (fst (deactivate_client L st now1 i)) now2 i)
           = Inr (Some (e\<lparr>cli_deactive := Some d2\<rparr>))"
proof -
  note first = client_set_deactive_step [OF found decodes opt_datetime_single_str [OF clock1]]
  show "snd (deactivate_client L st now1 i) = Inr (Some (e\<lparr>cli_deactive := Some d1\<rparr>))"
    using first(1) by (simp add: deactivate_client_def)
  have found1: "eq_filter ''id'' i (tables (fst (deactivate_client L st now1 i)) TABLE_NAME_client)
      = AList.update ''deactive'' (JStr now1) r # map (apply_updates [(''deactive'', JStr now1)]) rest"
    using first(2) by (simp add: deactivate_client_def)
  show "snd (reactivate_client L (fst (deactivate_client L st now1 i)) i)
           = Inr (Some (e\<lparr>cli_deactive := None\<rparr>))"
    using client_set_deactive_step(1) [OF found1 first(3) opt_datetime_single_null]
    by (simp add: reactivate_client_def)
  show "snd (deactivate_client L (fst (deactivate_client L st now1 i)) now2 i)
           = Inr (Some (e\<lparr>cli_deactive := Some d2\<rparr>))"
    using client_set_deactive_step(1) [OF found1 first(3) opt_datetime_single_str [OF clock2]]
    by (simp add: deactivate_client_def)
qed

lemma recruiter_set_deactive_at_step:
  assumes found: "eq_filter ''id'' i (tables st TABLE_NAME_recruiter) = r # rest"
    and decodes: "Recruiter_from_dict L r = Inr e"
    and ts: "opt_datetime L [(''deactive_at'', v)] ''deactive_at'' = Inr de"
  shows "snd (update_recruiter L st i [(''deactive_at'', v)]) = Inr (Some (e\<lparr>rec_deactive_at := de\<rparr>))"
    and "eq_filter ''id'' i (tables (fst (update_recruiter L st i [(''deactive_at'', v)])) TABLE_NAME_recruiter)
           = AList.update ''deactive_at'' v r # map (apply_updates [(''deactive_at'', v)]) rest"
    and "Recruiter_from_dict L (AList.update ''deactive_at'' v r) = Inr (e\<lparr>rec_deactive_at := de\<rparr>)"
proof -
  show dec: "Recruiter_from_dict L (AList.update ''deactive_at'' v r) = Inr (e\<lparr>rec_deactive_at := de\<rparr>)"
    by (rule Recruiter_from_dict_set_deactive_at [OF decodes ts])
  show "snd (update_recruiter L st i [(''deactive_at'', v)]) = Inr (Some (e\<lparr>rec_deactive_at := de\<rparr>))"
    by (simp add: update_recruiter_result found dec)
  show "eq_filter ''id'' i (tables (fst (update_recruiter L st i [(''deactive_at'', v)])) TABLE_NAME_recruiter)
           = AList.update ''deactive_at'' v r # map (apply_updates [(''deactive_at'', v)]) rest"
    using found_after_update [OF found, of "[(''deactive_at'', v)]"]
    by (simp add: update_recruiter_store)
qed

lemma recruiter_deactivate_reactivate:
  assumes found: "eq_filter ''id'' i (tables st TABLE_NAME_recruiter) = r # rest"
    and decodes: "Recruiter_from_dict L r = Inr e"
    and clock1: "now1 \<noteq> []" "fromisoformat L now1 = Some d1"
    and clock2: "now2 \<noteq> []" "fromisoformat L now2 = Some d2"
  shows "snd (deactivate_recruiter L st now1 i) = Inr (Some (e\<lparr>rec_deactive_at := Some d1\<rparr>))"
    and "snd (reactivate_recruiter L (fst (deactivate_recruiter L st now1 i)) i)
           = Inr (Some (e\<lparr>rec_deactive_at := None\<rparr>))"
    and "snd (deactivate_recruiter L (fst (deactivate_recruiter L st now1 i)) now2 i)
           = Inr (Some (e\<lparr>rec_deactive_at := Some d2\<rparr>))"
proof -
  note first = recruiter_set_deactive_at_step [OF found decodes opt_datetime_single_str [OF clock1]]
  show "snd (deactivate_recruiter L st now1 i) = Inr (Some (e\<lparr>rec_deactive_at := Some d1\<rparr>))"
    using first(1) by (simp add: deactivate_recruiter_def)
  have found1: "eq_filter ''id'' i (tables (fst (deactivate_recruiter L st now1 i)) TABLE_NAME_recruiter)
      = AList.update ''deactive_at'' (JStr now1) r # map (apply_updates [(''deactive_at'', JStr now1)]) rest"
    using first(2) by (simp add: deactivate_recruiter_def)
  show "snd (reactivate_recruiter L (fst (deactivate_recruiter L st now1 i)) i)
           = Inr (Some (e\<lparr>rec_deactive_at := None\<rparr>))"
    using recruiter_set_deactive_at_step(1) [OF found1 first(3) opt_datetime_single_null]
    by (simp add: reactivate_recruiter_def)
  show "snd (deactivate_recruiter L (fst (deactivate_recruiter L st now1 i)) now2 i)
           = Inr (Some (e\<lparr>rec_deactive_at := Some d2\<rparr>))"
    using recruiter_set_deactive_at_step(1) [OF found1 first(3) opt_datetime_single_str [OF clock2]]
    by (simp add: deactivate_recruiter_def)
qed

lemma application_set_deactive_at_step:
  assumes found: "eq_filter ''id'' i (tables st TABLE_NAME_applicant_job_apply) = r # rest"
    and decodes: "ApplicantJobApply_from_dict L r = Inr e"
    and ts: "opt_datetime L [(''deactive_at'', v)] ''deactive_at'' = Inr de"
  shows "snd (update_application L st i [(''deactive_at'', v)]) = Inr (Some (e\<lparr>aja_deactive_at := de\<rparr>))"
    and "eq_filter ''id'' i (tables (fst (update_application L st i [(''deactive_at'', v)])) TABLE_NAME_applicant_job_apply)
           = AList.update ''deactive_at'' v r # map (apply_updates [(''deactive_at'', v)]) rest"
    and "ApplicantJobApply_from_dict L (AList.update ''deactive_at'' v r) = Inr (e\<lparr>aja_deactive_at := de\<rparr>)"
proof -
  show dec: "ApplicantJobApply_from_dict L (AList.update ''deactive_at'' v r) = Inr (e\<lparr>aja_deactive_at := de\<rparr>)"
    by (rule ApplicantJobApply_from_dict_set_deactive_at [OF decodes ts])
  show "snd (update_application L st i [(''deactive_at'', v)]) = Inr (Some (e\<lparr>aja_deactive_at := de\<rparr>))"
    by (simp add: update_application_result found dec)
  show "eq_filter ''id'' i (tables (fst (update_application L st i [(''deactive_at'', v)])) TABLE_NAME_applicant_job_apply)
           = AList.update ''deactive_at'' v r # map (apply_updates [(''deactive_at'', v)]) rest"
    using found_after_update [OF found, of "[(''deactive_at'', v)]"]
    by (simp add: update_application_store)
qed

lemma application_deactivate_reactivate:
  assumes found: "eq_filter ''id'' i (tables st TABLE_NAME_applicant_job_apply) = r # rest"
    and decodes: "ApplicantJobApply_from_dict L r = Inr e"
    and clock1: "now1 \<noteq> []" "fromisoformat L now1 = Some d1"
    and clock2: "now2 \<noteq> []" "fromisoformat L now2 = Some d2"
  shows "snd (deactivate_application L st now1 i) = Inr (Some (e\<lparr>aja_deactive_at := Some d1\<rparr>))"
    and "snd (reactivate_application L (fst (deactivate_application L st now1 i)) i)
           = Inr (Some (e\<lparr>aja_deactive_at := None\<rparr>))"
    and "snd (deactivate_application L (fst (deactivate_application L st now1 i)) now2 i)
           = Inr (Some (e\<lparr>aja_deactive_at := Some d2\<rparr>))"
proof -
  note first = application_set_deactive_at_step [OF found decodes opt_datetime_single_str [OF clock1]]
  show "snd (deactivate_application L st now1 i) = Inr (Some (e\<lparr>aja_deactive_at := Some d1\<rparr>))"
    using first(1) by (simp add: deactivate_application_def)
  have found1: "eq_filter ''id'' i (tables (fst (deactivate_application L st now1 i)) TABLE_NAME_applicant_job_apply)
      = AList.update ''deactive_at'' (JStr now1) r # map (apply_updates [(''deactive_at'', JStr now1)]) rest"
    using first(2) by (simp add: deactivate_application_def)
  show "snd (reactivate_application L (fst (deactivate_application L st now1 i)) i)
           = Inr (Some (e\<lparr>aja_deactive_at := None\<rparr>))"
    using application_set_deactive_at_step(1) [OF found1 first(3) opt_datetime_single_null]
    by (simp add: reactivate_application_def)
  show "snd (deactivate_application L (fst (deactivate_application L st now1 i)) now2 i)
           = Inr (Some (e\<lparr>aja_deactive_at := Some d2\<rparr>))"
    using application_set_deactive_at_step(1) [OF found1 first(3) opt_datetime_single_str [OF clock2]]
    by (simp add: deactivate_application_def)
qed

lemma job_description_set_both_step:
  assumes found: "eq_filter ''id'' i (tables st TABLE_NAME_job_description) = r # rest"
    and decodes: "JobDescription_from_dict L r = Inr e"
    and ts: "opt_datetime L [(''deactive_at'', v)] ''deactive_at'' = Inr de"
  shows "snd (update_job_description L st i [(''deactive_at'', v), (''status'', s)])
           = Inr (Some (e\<lparr>jd_deactive_at := de, jd_status := s\<rparr>))"
    and "eq_filter ''id'' i
           (tables (fst (update_job_description L st i [(''deactive_at'', v), (''status'', s)]))
              TABLE_NAME_job_description)
           = AList.update ''status'' s (AList.update ''deactive_at'' v r)
               # map (apply_updates [(''deactive_at'', v), (''status'', s)]) rest"
    and "JobDescription_from_dict L (AList.update ''status'' s (AList.update ''deactive_at'' v r))
           = Inr (e\<lparr>jd_deactive_at := de, jd_status := s\<rparr>)"
proof -
  show dec: "JobDescription_from_dict L (AList.update ''status'' s (AList.update ''deactive_at'' v r))
           = Inr (e\<lparr>jd_deactive_at := de, jd_status := s\<rparr>)"
    by (intro JobDescription_from_dict_set_status JobDescription_from_dict_set_deactive_at
          decodes ts)
  show "snd (update_job_description L st i [(''deactive_at'', v), (''status'', s)])
           = Inr (Some (e\<lparr>jd_deactive_at := de, jd_status := s\<rparr>))"
    by (simp add: update_job_description_result found dec)
  show "eq_filter ''id'' i
           (tables (fst (update_job_description L st i [(''deactive_at'', v), (''status'', s)]))
              TABLE_NAME_job_description)
           = AList.update ''status'' s (AList.update ''deactive_at'' v r)
               # map (apply_updates [(''deactive_at'', v), (''status'', s)]) rest"
    using found_after_update [OF found, of "[(''deactive_at'', v), (''status'', s)]"]
    by (simp add: update_job_description_store)
qed

lemma job_description_close_reopen:
  assumes found: "eq_filter ''id'' i (tables st TABLE_NAME_job_description) = r # rest"
    and decodes: "JobDescription_from_dict L r = Inr e"
    and clock1: "now1 \<noteq> []" "fromisoformat L now1 = Some d1"
    and clock2: "now2 \<noteq> []" "fromisoformat L now2 = Some d2"
  shows "snd (close_job_description L st now1 i)
           = Inr (Some (e\<lparr>jd_deactive_at := Some d1, jd_status := JStr ''CLOSED''\<rparr>))"
    and "snd (reopen_job_description L (fst (close_job_description L st now1 i)) i)
           = Inr (Some (e\<lparr>jd_deactive_at := None, jd_status := JStr ''OPEN''\<rparr>))"
    and "snd (close_job_description L (fst (close_job_description L st now1 i)) now2 i)
           = Inr (Some (e\<lparr>jd_deactive_at := Some d2, jd_status := JStr ''CLOSED''\<rparr>))"
proof -
  note first = job_description_set_both_step
                 [OF found decodes opt_datetime_single_str [OF clock1], of "JStr ''CLOSED''"]
  show "snd (close_job_description L st now1 i)
           = Inr (Some (e\<lparr>jd_deactive_at := Some d1, jd_status := JStr ''CLOSED''\<rparr>))"
    using first(1) by (simp add: close_job_description_def)
  have found1: "eq_filter ''id'' i
      (tables (fst (close_job_description L st now1 i)) TABLE_NAME_job_description)
      = AList.update ''status'' (JStr ''CLOSED'') (AList.update ''deactive_at'' (JStr now1) r)
          # map (apply_updates [(''deactive_at'', JStr now1), (''status'', JStr ''CLOSED'')]) rest"
    using first(2) by (simp add: close_job_description_def)
  show "snd (reopen_job_description L (fst (close_job_description L st now1 i)) i)
           = Inr (Some (e\<lparr>jd_deactive_at := None, jd_status := JStr ''OPEN''\<rparr>))"
    using job_description_set_both_step(1)
            [OF found1 first(3) opt_datetime_single_null, of "JStr ''OPEN''"]
    by (simp add: reopen_job_description_def)
  show "snd (close_job_description L (fst (close_job_description L st now1 i)) now2 i)
           = Inr (Some (e\<lparr>jd_deactive_at := Some d2, jd_status := JStr ''CLOSED''\<rparr>))"
    using job_description_set_both_step(1)
            [OF found1 first(3) opt_datetime_single_str [OF clock2], of "JStr ''CLOSED''"]
    by (simp add: close_job_description_def)
qed

text \<open>What the store holds after these calls, in the rows that carry the id.\<close>

lemma deactivate_applicant_store:
  "fst (deactivate_applicant L st now i) = fst (update_record st TABLE_NAME_applicants i [(''deactive_at'', JStr now)])"
  by (simp add: deactivate_applicant_def update_applicant_store)

lemma reactivate_applicant_store:
  "fst (reactivate_applicant L st i) = fst (update_record st TABLE_NAME_applicants i [(''deactive_at'', JNull)])"
  by (simp add: reactivate_applicant_def update_applicant_store)

lemma applicant_stored:
  assumes found: "eq_filter ''id'' i (tables st TABLE_NAME_applicants) = r # rest"
  shows "map (\<lambda>row. dget row ''deactive_at'')
           (eq_filter ''id'' i (tables (fst (deactivate_applicant L st now1 i)) TABLE_NAME_applicants))
           = replicate (Suc (length rest)) (JStr now1)"
    and "map (\<lambda>row. dget row ''deactive_at'')
           (eq_filter ''id'' i
              (tables (fst (reactivate_applicant L (fst (deactivate_applicant L st now1 i)) i)) TABLE_NAME_applicants))
           = replicate (Suc (length rest)) JNull"
    and "map (\<lambda>row. dget row ''deactive_at'')
           (eq_filter ''id'' i
              (tables (fst (deactivate_applicant L (fst (deactivate_applicant L st now1 i)) now2 i)) TABLE_NAME_applicants))
           = replicate (Suc (length rest)) (JStr now2)"
proof -
  let ?st1 = "fst (deactivate_applicant L st now1 i)"
  have len: "length (eq_filter ''id'' i (tables ?st1 TABLE_NAME_applicants)) = Suc (length rest)"
    by (simp add: deactivate_applicant_store length_matched_after_update found)
  show "map (\<lambda>row. dget row ''deactive_at'') (eq_filter ''id'' i (tables ?st1 TABLE_NAME_applicants))
          = replicate (Suc (length rest)) (JStr now1)"
    by (simp add: deactivate_applicant_store stored_column_after_update found)
  show "map (\<lambda>row. dget row ''deactive_at'')
          (eq_filter ''id'' i (tables (fst (reactivate_applicant L ?st1 i)) TABLE_NAME_applicants))
          = replicate (Suc (length rest)) JNull"
    unfolding reactivate_applicant_store [of L ?st1 i]
    by (simp add: stored_column_after_update len)
  show "map (\<lambda>row. dget row ''deactive_at'')
          (eq_filter ''id'' i (tables (fst (deactivate_applicant L ?st1 now2 i)) TABLE_NAME_applicants))
          = replicate (Suc (length rest)) (JStr now2)"
    unfolding deactivate_applicant_store [of L ?st1 now2 i]
    by (simp add: stored_column_after_update len)
qed

lemma deactivate_client_store:
  "fst (deactivate_client L st now i) = fst (update_record st TABLE_NAME_client i [(''deactive'', JStr now)])"
  by (simp add: deactivate_client_def update_client_store)

lemma reactivate_client_store:
  "fst (reactivate_client L st i) = fst (update_record st TABLE_NAME_client i [(''deactive'', JNull)])"
  by (simp add: reactivate_client_def update_client_store)

lemma client_stored:
  assumes found: "eq_filter ''id'' i (tables st TABLE_NAME_client) = r # rest"
  shows "map (\<lambda>row. dget row ''deactive'')
           (eq_filter ''id'' i (tables (fst (deactivate_client L st now1 i)) TABLE_NAME_client))
           = replicate (Suc (length rest)) (JStr now1)"
    and "map (\<lambda>row. dget row ''deactive'')
           (eq_filter ''id'' i
              (tables (fst (reactivate_client L (fst (deactivate_client L st now1 i)) i)) TABLE_NAME_client))
           = replicate (Suc (length rest)) JNull"
    and "map (\<lambda>row. dget row ''deactive'')
           (eq_filter ''id'' i
              (tables (fst (deactivate_client L (fst (deactivate_client L st now1 i)) now2 i)) TABLE_NAME_client))
           = replicate (Suc (length rest)) (JStr now2)"
proof -
  let ?st1 = "fst (deactivate_client L st now1 i)"
  have len: "length (eq_filter ''id'' i (tables ?st1 TABLE_NAME_client)) = Suc (length rest)"
    by (simp add: deactivate_client_store length_matched_after_update found)
  show "map (\<lambda>row. dget row ''deactive'') (eq_filter ''id'' i (tables ?st1 TABLE_NAME_client))
          = replicate (Suc (length rest)) (JStr now1)"
    by (simp add: deactivate_client_store stored_column_after_update found)
  show "map (\<lambda>row. dget row ''deactive'')
          (eq_filter ''id'' i (tables (fst (reactivate_client L ?st1 i)) TABLE_NAME_client))
          = replicate (Suc (length rest)) JNull"
    unfolding reactivate_client_store [of L ?st1 i]
    by (simp add: stored_column_after_update len)
  show "map (\<lambda>row. dget row ''deactive'')
          (eq_filter ''id'' i (tables (fst (deactivate_client L ?st1 now2 i)) TABLE_NAME_client))
          = replicate (Suc (length rest)) (JStr now2)"
    unfolding deactivate_client_store [of L ?st1 now2 i]
    by (simp add: stored_column_after_update len)
qed

lemma deactivate_recruiter_store:
  "fst (deactivate_recruiter L st now i) = fst (update_record st TABLE_NAME_recruiter i [(''deactive_at'', JStr now)])"
  by (simp add: deactivate_recruiter_def update_recruiter_store)

lemma reactivate_recruiter_store:
  "fst (reactivate_recruiter L st i) = fst (update_record st TABLE_NAME_recruiter i [(''deactive_at'', JNull)])"
  by (simp add: reactivate_recruiter_def update_recruiter_store)

lemma recruiter_stored:
  assumes found: "eq_filter ''id'' i (tables st TABLE_NAME_recruiter) = r # rest"
  shows "map (\<lambda>row. dget row ''deactive_at'')
           (eq_filter ''id'' i (tables (fst (deactivate_recruiter L st now1 i)) TABLE_NAME_recruiter))
           = replicate (Suc (length rest)) (JStr now1)"
    and "map (\<lambda>row. dget row ''deactive_at'')
           (eq_filter ''id'' i
              (tables (fst (reactivate_recruiter L (fst (deactivate_recruiter L st now1 i)) i)) TABLE_NAME_recruiter))
           = replicate (Suc (length rest)) JNull"
    and "map (\<lambda>row. dget row ''deactive_at'')
           (eq_filter ''id'' i
              (tables (fst (deactivate_recruiter L (fst (deactivate_recruiter L st now1 i)) now2 i)) TABLE_NAME_recruiter))
           = replicate (Suc (length rest)) (JStr now2)"
proof -
  let ?st1 = "fst (deactivate_recruiter L st now1 i)"
  have len: "length (eq_filter ''id'' i (tables ?st1 TABLE_NAME_recruiter)) = Suc (length rest)"
    by (simp add: deactivate_recruiter_store length_matched_after_update found)
  show "map (\<lambda>row. dget row ''deactive_at'') (eq_filter ''id'' i (tables ?st1 TABLE_NAME_recruiter))
          = replicate (Suc (length rest)) (JStr now1)"
    by (simp add: deactivate_recruiter_store stored_column_after_update found)
  show "map (\<lambda>row. dget row ''deactive_at'')
          (eq_filter ''id'' i (tables (fst (reactivate_recruiter L ?st1 i)) TABLE_NAME_recruiter))
          = replicate (Suc (length rest)) JNull"
    unfolding reactivate_recruiter_store [of L ?st1 i]
    by (simp add: stored_column_after_update len)
  show "map (\<lambda>row. dget row ''deactive_at'')
          (eq_filter ''id'' i (tables (fst (deactivate_recruiter L ?st1 now2 i)) TABLE_NAME_recruiter))
          = replicate (Suc (length rest)) (JStr now2)"
    unfolding deactivate_recruiter_store [of L ?st1 now2 i]
    by (simp add: stored_column_after_update len)
qed

lemma deactivate_application_store:
  "fst (deactivate_application L st now i) = fst (update_record st TABLE_NAME_applicant_job_apply i [(''deactive_at'', JStr now)])"
  by (simp add: deactivate_application_def update_application_store)

lemma reactivate_application_store:
  "fst (reactivate_application L st i) = fst (update_record st TABLE_NAME_applicant_job_apply i [(''deactive_at'', JNull)])"
  by (simp add: reactivate_application_def update_application_store)

lemma application_stored:
  assumes found: "eq_filter ''id'' i (tables st TABLE_NAME_applicant_job_apply) = r # rest"
  shows "map (\<lambda>row. dget row ''deactive_at'')
           (eq_filter ''id'' i (tables (fst (deactivate_application L st now1 i)) TABLE_NAME_applicant_job_apply))
           = replicate (Suc (length rest)) (JStr now1)"
    and "map (\<lambda>row. dget row ''deactive_at'')
           (eq_filter ''id'' i
              (tables (fst (reactivate_application L (fst (deactivate_application L st now1 i)) i)) TABLE_NAME_applicant_job_apply))
           = replicate (Suc (length rest)) JNull"
    and "map (\<lambda>row. dget row ''deactive_at'')
           (eq_filter ''id'' i
              (tables (fst (deactivate_application L (fst (deactivate_application L st now1 i)) now2 i)) TABLE_NAME_applicant_job_apply))
           = replicate (Suc (length rest)) (JStr now2)"
proof -
  let ?st1 = "fst (deactivate_application L st now1 i)"
  have len: "length (eq_filter ''id'' i (tables ?st1 TABLE_NAME_applicant_job_apply)) = Suc (length rest)"
    by (simp add: deactivate_application_store length_matched_after_update found)
  show "map (\<lambda>row. dget row ''deactive_at'') (eq_filter ''id'' i (tables ?st1 TABLE_NAME_applicant_job_apply))
          = replicate (Suc (length rest)) (JStr now1)"
    by (simp add: deactivate_application_store stored_column_after_update found)
  show "map (\<lambda>row. dget row ''deactive_at'')
          (eq_filter ''id'' i (tables (fst (reactivate_application L ?st1 i)) TABLE_NAME_applicant_job_apply))
          = replicate (Suc (length rest)) JNull"
    unfolding reactivate_application_store [of L ?st1 i]
    by (simp add: stored_column_after_update len)
  show "map (\<lambda>row. dget row ''deactive_at'')
          (eq_filter ''id'' i (tables (fst (deactivate_application L ?st1 now2 i)) TABLE_NAME_applicant_job_apply))
          = replicate (Suc (length rest)) (JStr now2)"
    unfolding deactivate_application_store [of L ?st1 now2 i]
    by (simp add: stored_column_after_update len)
qed

lemma close_job_description_store:
  "fst (close_job_description L st now i)
     = fst (update_record st TABLE_NAME_job_description i
              [(''deactive_at'', JStr now), (''status'', JStr ''CLOSED'')])"
  by (simp add: close_job_description_def update_job_description_store)

lemma reopen_job_description_store:
  "fst (reopen_job_description L st i)
     = fst (update_record st TABLE_NAME_job_description i
              [(''deactive_at'', JNull), (''status'', JStr ''OPEN'')])"
  by (simp add: reopen_job_description_def update_job_description_store)

lemma job_description_stored:
  assumes found: "eq_filter ''id'' i (tables st TABLE_NAME_job_description) = r # rest"
  shows "map (\<lambda>row. (dget row ''deactive_at'', dget row ''status''))
           (eq_filter ''id'' i
              (tables (fst (close_job_description L st now1 i)) TABLE_NAME_job_description))
           = replicate (Suc (length rest)) (JStr now1, JStr ''CLOSED'')"
    and "map (\<lambda>row. (dget row ''deactive_at'', dget row ''status''))
           (eq_filter ''id'' i
              (tables (fst (reopen_job_description L (fst (close_job_description L st now1 i)) i))
                 TABLE_NAME_job_description))
           = replicate (Suc (length rest)) (JNull, JStr ''OPEN'')"
    and "map (\<lambda>row. (dget row ''deactive_at'', dget row ''status''))
           (eq_filter ''id'' i
              (tables (fst (close_job_description L (fst (close_job_description L st now1 i))
                              now2 i))
                 TABLE_NAME_job_description))
           = replicate (Suc (length rest)) (JStr now2, JStr ''CLOSED'')"
proof -
  let ?T = TABLE_NAME_job_description
  let ?st1 = "fst (close_job_description L st now1 i)"
  have len: "length (eq_filter ''id'' i (tables ?st1 ?T)) = Suc (length rest)"
    by (simp add: close_job_description_store length_matched_after_update found)
  show "map (\<lambda>row. (dget row ''deactive_at'', dget row ''status''))
          (eq_filter ''id'' i (tables ?st1 ?T))
          = replicate (Suc (length rest)) (JStr now1, JStr ''CLOSED'')"
    by (simp add: close_job_description_store stored_columns_after_update found)
  show "map (\<lambda>row. (dget row ''deactive_at'', dget row ''status''))
          (eq_filter ''id'' i (tables (fst (reopen_job_description L ?st1 i)) ?T))
          = replicate (Suc (length rest)) (JNull, JStr ''OPEN'')"
    unfolding reopen_job_description_store [of L ?st1 i]
    by (simp add: stored_columns_after_update len)
  show "map (\<lambda>row. (dget row ''deactive_at'', dget row ''status''))
          (eq_filter ''id'' i (tables (fst (close_job_description L ?st1 now2 i)) ?T))
          = replicate (Suc (length rest)) (JStr now2, JStr ''CLOSED'')"
    unfolding close_job_description_store [of L ?st1 now2 i]
    by (simp add: stored_columns_after_update len)
qed

text \<open>
  C6. For each of the five entity types and an id that rows of the table carry, the
  store holds, in every such row: after deactivating, the clock text of that call as
  deactivation timestamp; after reactivating next, null; after deactivating a second
  time instead, while the entity is inactive, the clock text of the second call. When
  the first such row is one the codec accepts, the calls return the entity accordingly:
  with the instant read from the clock, then with no deactivation timestamp, and, for
  the second deactivation, which is accepted, with the instant of the second call. For a
  job description the two operations are \<open>close_job_description\<close> and
  \<open>reopen_job_description\<close>, which write the status as well. The clock texts \<open>now1\<close> and
  \<open>now2\<close> are ISO strings, non-empty and read back by \<open>fromisoformat\<close>.
\<close>

theorem deactivate_then_reactivate:
  assumes clock1: "now1 \<noteq> []" "fromisoformat L now1 = Some d1"
    and clock2: "now2 \<noteq> []" "fromisoformat L now2 = Some d2"
  shows "(eq_filter ''id'' i\<^sub>a (tables st TABLE_NAME_applicants) = r\<^sub>a # rest\<^sub>a \<longrightarrow>
     map (\<lambda>row. dget row ''deactive_at'')
       (eq_filter ''id'' i\<^sub>a (tables (fst (deactivate_applicant L st now1 i\<^sub>a)) TABLE_NAME_applicants))
       = replicate (Suc (length rest\<^sub>a)) (JStr now1) \<and>
     map (\<lambda>row. dget row ''deactive_at'')
       (eq_filter ''id'' i\<^sub>a
          (tables (fst (reactivate_applicant L (fst (deactivate_applicant L st now1 i\<^sub>a)) i\<^sub>a)) TABLE_NAME_applicants))
       = replicate (Suc (length rest\<^sub>a)) JNull \<and>
     map (\<lambda>row. dget row ''deactive_at'')
       (eq_filter ''id'' i\<^sub>a
          (tables (fst (deactivate_applicant L (fst (deactivate_applicant L st now1 i\<^sub>a)) now2 i\<^sub>a)) TABLE_NAME_applicants))
       = replicate (Suc (length rest\<^sub>a)) (JStr now2)) \<and>
    (eq_filter ''id'' i\<^sub>a (tables st TABLE_NAME_applicants) = r\<^sub>a # rest\<^sub>a \<and>
     Applicant_from_dict L r\<^sub>a = Inr e\<^sub>a \<longrightarrow>
     snd (deactivate_applicant L st now1 i\<^sub>a) = Inr (Some (e\<^sub>a\<lparr>app_deactive_at := Some d1\<rparr>)) \<and>
     snd (reactivate_applicant L (fst (deactivate_applicant L st now1 i\<^sub>a)) i\<^sub>a)
       = Inr (Some (e\<^sub>a\<lparr>app_deactive_at := None\<rparr>)) \<and>
     snd (deactivate_applicant L (fst (deactivate_applicant L st now1 i\<^sub>a)) now2 i\<^sub>a)
       = Inr (Some (e\<^sub>a\<lparr>app_deactive_at := Some d2\<rparr>))) \<and>
    (eq_filter ''id'' i\<^sub>c (tables st TABLE_NAME_client) = r\<^sub>c # rest\<^sub>c \<longrightarrow>
     map (\<lambda>row. dget row ''deactive'')
       (eq_filter ''id'' i\<^sub>c (tables (fst (deactivate_client L st now1 i\<^sub>c)) TABLE_NAME_client))
       = replicate (Suc (length rest\<^sub>c)) (JStr now1) \<and>
     map (\<lambda>row. dget row ''deactive'')
       (eq_filter ''id'' i\<^sub>c
          (tables (fst (reactivate_client L (fst (deactivate_client L st now1 i\<^sub>c)) i\<^sub>c)) TABLE_NAME_client))
       = replicate (Suc (length rest\<^sub>c)) JNull \<and>
     map (\<lambda>row. dget row ''deactive'')
       (eq_filter ''id'' i\<^sub>c
          (tables (fst (deactivate_client L (fst (deactivate_client L st now1 i\<^sub>c)) now2 i\<^sub>c)) TABLE_NAME_client))
       = replicate (Suc (length rest\<^sub>c)) (JStr now2)) \<and>
    (eq_filter ''id'' i\<^sub>c (tables st TABLE_NAME_client) = r\<^sub>c # rest\<^sub>c \<and>
     Client_from_dict L r\<^sub>c = Inr e\<^sub>c \<longrightarrow>
     snd (deactivate_client L st now1 i\<^sub>c) = Inr (Some (e\<^sub>c\<lparr>cli_deactive := Some d1\<rparr>)) \<and>
     snd (reactivate_client L (fst (deactivate_client L st now1 i\<^sub>c)) i\<^sub>c)
       = Inr (Some (e\<^sub>c\<lparr>cli_deactive := None\<rparr>)) \<and>
     snd (deactivate_client L (fst (deactivate_client L st now1 i\<^sub>c)) now2 i\<^sub>c)
       = Inr (Some (e\<^sub>c\<lparr>cli_deactive := Some d2\<rparr>))) \<and>
    (eq_filter ''id'' i\<^sub>r (tables st TABLE_NAME_recruiter) = r\<^sub>r # rest\<^sub>r \<longrightarrow>
     map (\<lambda>row. dget row ''deactive_at'')
       (eq_filter ''id'' i\<^sub>r (tables (fst (deactivate_recruiter L st now1 i\<^sub>r)) TABLE_NAME_recruiter))
       = replicate (Suc (length rest\<^sub>r)) (JStr now1) \<and>
     map (\<lambda>row. dget row ''deactive_at'')
       (eq_filter ''id'' i\<^sub>r
          (tables (fst (reactivate_recruiter L (fst (deactivate_recruiter L st now1 i\<^sub>r)) i\<^sub>r)) TABLE_NAME_recruiter))
       = replicate (Suc (length rest\<^sub>r)) JNull \<and>
     map (\<lambda>row. dget row ''deactive_at'')
       (eq_filter ''id'' i\<^sub>r
          (tables (fst (deactivate_recruiter L (fst (deactivate_recruiter L st now1 i\<^sub>r)) now2 i\<^sub>r)) TABLE_NAME_recruiter))
       = replicate (Suc (length rest\<^sub>r)) (JStr now2)) \<and>
    (eq_filter ''id'' i\<^sub>r (tables st TABLE_NAME_recruiter) = r\<^sub>r # rest\<^sub>r \<and>
     Recruiter_from_dict L r\<^sub>r = Inr e\<^sub>r \<longrightarrow>
     snd (deactivate_recruiter L st now1 i\<^sub>r) = Inr (Some (e\<^sub>r\<lparr>rec_deactive_at := Some d1\<rparr>)) \<and>
     snd (reactivate_recruiter L (fst (deactivate_recruiter L st now1 i\<^sub>r)) i\<^sub>r)
       = Inr (Some (e\<^sub>r\<lparr>rec_deactive_at := None\<rparr>)) \<and>
     snd (deactivate_recruiter L (fst (deactivate_recruiter L st now1 i\<^sub>r)) now2 i\<^sub>r)
       = Inr (Some (e\<^sub>r\<lparr>rec_deactive_at := Some d2\<rparr>))) \<and>
    (eq_filter ''id'' i\<^sub>x (tables st TABLE_NAME_applicant_job_apply) = r\<^sub>x # rest\<^sub>x \<longrightarrow>
     map (\<lambda>row. dget row ''deactive_at'')
       (eq_filter ''id'' i\<^sub>x (tables (fst (deactivate_application L st now1 i\<^sub>x)) TABLE_NAME_applicant_job_apply))
       = replicate (Suc (length rest\<^sub>x)) (JStr now1) \<and>
     map (\<lambda>row. dget row ''deactive_at'')
       (eq_filter ''id'' i\<^sub>x
          (tables (fst (reactivate_application L (fst (deactivate_application L st now1 i\<^sub>x)) i\<^sub>x)) TABLE_NAME_applicant_job_apply))
       = replicate (Suc (length rest\<^sub>x)) JNull \<and>
     map (\<lambda>row. dget row ''deactive_at'')
       (eq_filter ''id'' i\<^sub>x
          (tables (fst (deactivate_application L (fst (deactivate_application L st now1 i\<^sub>x)) now2 i\<^sub>x)) TABLE_NAME_applicant_job_apply))
       = replicate (Suc (length rest\<^sub>x)) (JStr now2)) \<and>
    (eq_filter ''id'' i\<^sub>x (tables st TABLE_NAME_applicant_job_apply) = r\<^sub>x # rest\<^sub>x \<and>
     ApplicantJobApply_from_dict L r\<^sub>x = Inr e\<^sub>x \<longrightarrow>
     snd (deactivate_application L st now1 i\<^sub>x) = Inr (Some (e\<^sub>x\<lparr>aja_deactive_at := Some d1\<rparr>)) \<and>
     snd (reactivate_application L (fst (deactivate_application L st now1 i\<^sub>x)) i\<^sub>x)
       = Inr (Some (e\<^sub>x\<lparr>aja_deactive_at := None\<rparr>)) \<and>
     snd (deactivate_application L (fst (deactivate_application L st now1 i\<^sub>x)) now2 i\<^sub>x)
       = Inr (Some (e\<^sub>x\<lparr>aja_deactive_at := Some d2\<rparr>))) \<and>
    (eq_filter ''id'' i\<^sub>j (tables st TABLE_NAME_job_description) = r\<^sub>j # rest\<^sub>j \<longrightarrow>
     map (\<lambda>row. (dget row ''deactive_at'', dget row ''status''))
       (eq_filter ''id'' i\<^sub>j (tables (fst (close_job_description L st now1 i\<^sub>j)) TABLE_NAME_job_description))
       = replicate (Suc (length rest\<^sub>j)) (JStr now1, JStr ''CLOSED'') \<and>
     map (\<lambda>row. (dget row ''deactive_at'', dget row ''status''))
       (eq_filter ''id'' i\<^sub>j
          (tables (fst (reopen_job_description L (fst (close_job_description L st now1 i\<^sub>j)) i\<^sub>j)) TABLE_NAME_job_description))
       = replicate (Suc (length rest\<^sub>j)) (JNull, JStr ''OPEN'') \<and>
     map (\<lambda>row. (dget row ''deactive_at'', dget row ''status''))
       (eq_filter ''id'' i\<^sub>j
          (tables (fst (close_job_description L (fst (close_job_description L st now1 i\<^sub>j)) now2 i\<^sub>j)) TABLE_NAME_job_description))
       = replicate (Suc (length rest\<^sub>j)) (JStr now2, JStr ''CLOSED'')) \<and>
    (eq_filter ''id'' i\<^sub>j (tables st TABLE_NAME_job_description) = r\<^sub>j # rest\<^sub>j \<and>
     JobDescription_from_dict L r\<^sub>j = Inr e\<^sub>j \<longrightarrow>
     snd (close_job_description L st now1 i\<^sub>j) = Inr (Some (e\<^sub>j\<lparr>jd_deactive_at := Some d1, jd_status := JStr ''CLOSED''\<rparr>)) \<and>
     snd (reopen_job_description L (fst (close_job_description L st now1 i\<^sub>j)) i\<^sub>j)
       = Inr (Some (e\<^sub>j\<lparr>jd_deactive_at := None, jd_status := JStr ''OPEN''\<rparr>)) \<and>
     snd (close_job_description L (fst (close_job_description L st now1 i\<^sub>j)) now2 i\<^sub>j)
       = Inr (Some (e\<^sub>j\<lparr>jd_deactive_at := Some d2, jd_status := JStr ''CLOSED''\<rparr>)))"
proof -
  note steps = applicant_deactivate_reactivate [OF _ _ clock1 clock2]
    client_deactivate_reactivate [OF _ _ clock1 clock2]
    recruiter_deactivate_reactivate [OF _ _ clock1 clock2]
    application_deactivate_reactivate [OF _ _ clock1 clock2]
    job_description_close_reopen [OF _ _ clock1 clock2]
    applicant_stored client_stored recruiter_stored application_stored job_description_stored
  show ?thesis
    by (intro conjI impI; (elim conjE)?; (rule steps; assumption))
qed

text \<open>
  On the example store, with the clock at 08:30:00.25 on 1 July and at 09:45:10.0005 on
  2 July 2024. The applicant of the example is inactive from the start.
\<close>

theorem deactivate_then_reactivate_witness:
  "map (\<lambda>row. dget row ''deactive_at'')
     (eq_filter ''id'' (JStr ''11111111-1111-1111-1111-111111111111'') (tables (fst (deactivate_applicant cpython_sample store_sample ''2024-07-01T08:30:00.250000'' (JStr ''11111111-1111-1111-1111-111111111111''))) TABLE_NAME_applicants))
     = [JStr ''2024-07-01T08:30:00.250000''] \<and>
   map (\<lambda>row. dget row ''deactive_at'')
     (eq_filter ''id'' (JStr ''11111111-1111-1111-1111-111111111111'')
        (tables (fst (reactivate_applicant cpython_sample (fst (deactivate_applicant cpython_sample store_sample ''2024-07-01T08:30:00.250000'' (JStr ''11111111-1111-1111-1111-111111111111''))) (JStr ''11111111-1111-1111-1111-111111111111''))) TABLE_NAME_applicants))
     = [JNull] \<and>
   map (\<lambda>row. dget row ''deactive_at'')
     (eq_filter ''id'' (JStr ''11111111-1111-1111-1111-111111111111'')
        (tables (fst (deactivate_applicant cpython_sample (fst (deactivate_applicant cpython_sample store_sample ''2024-07-01T08:30:00.250000'' (JStr ''11111111-1111-1111-1111-111111111111''))) ''2024-07-02T09:45:10.000500'' (JStr ''11111111-1111-1111-1111-111111111111''))) TABLE_NAME_applicants))
     = [JStr ''2024-07-02T09:45:10.000500''] \<and>
   snd (deactivate_applicant cpython_sample store_sample ''2024-07-01T08:30:00.250000'' (JStr ''11111111-1111-1111-1111-111111111111'')) = Inr (Some (applicant_ana\<lparr>app_deactive_at := Some [2024, 7, 1, 8, 30, 0, 250000]\<rparr>)) \<and>
   snd (reactivate_applicant cpython_sample (fst (deactivate_applicant cpython_sample store_sample ''2024-07-01T08:30:00.250000'' (JStr ''11111111-1111-1111-1111-111111111111''))) (JStr ''11111111-1111-1111-1111-111111111111''))
     = Inr (Some (applicant_ana\<lparr>app_deactive_at := None\<rparr>)) \<and>
   snd (deactivate_applicant cpython_sample (fst (deactivate_applicant cpython_sample store_sample ''2024-07-01T08:30:00.250000'' (JStr ''11111111-1111-1111-1111-111111111111''))) ''2024-07-02T09:45:10.000500'' (JStr ''11111111-1111-1111-1111-111111111111''))
     = Inr (Some (applicant_ana\<lparr>app_deactive_at := Some [2024, 7, 2, 9, 45, 10, 500]\<rparr>)) \<and>
   map (\<lambda>row. dget row ''deactive'')
     (eq_filter ''id'' (JStr ''22222222-2222-2222-2222-222222222222'') (tables (fst (deactivate_client cpython_sample store_sample ''2024-07-01T08:30:00.250000'' (JStr ''22222222-2222-2222-2222-222222222222''))) TABLE_NAME_client))
     = [JStr ''2024-07-01T08:30:00.250000''] \<and>
   map (\<lambda>row. dget row ''deactive'')
     (eq_filter ''id'' (JStr ''22222222-2222-2222-2222-222222222222'')
        (tables (fst (reactivate_client cpython_sample (fst (deactivate_client cpython_sample store_sample ''2024-07-01T08:30:00.250000'' (JStr ''22222222-2222-2222-2222-222222222222''))) (JStr ''22222222-2222-2222-2222-222222222222''))) TABLE_NAME_client))
     = [JNull] \<and>
   map (\<lambda>row. dget row ''deactive'')
     (eq_filter ''id'' (JStr ''22222222-2222-2222-2222-222222222222'')
        (tables (fst (deactivate_client cpython_sample (fst (deactivate_client cpython_sample store_sample ''2024-07-01T08:30:00.250000'' (JStr ''22222222-2222-2222-2222-222222222222''))) ''2024-07-02T09:45:10.000500'' (JStr ''22222222-2222-2222-2222-222222222222''))) TABLE_NAME_client))
     = [JStr ''2024-07-02T09:45:10.000500''] \<and>
   snd (deactivate_client cpython_sample store_sample ''2024-07-01T08:30:00.250000'' (JStr ''22222222-2222-2222-2222-222222222222'')) = Inr (Some (client_sample\<lparr>cli_deactive := Some [2024, 7, 1, 8, 30, 0, 250000]\<rparr>)) \<and>
   snd (reactivate_client cpython_sample (fst (deactivate_client cpython_sample store_sample ''2024-07-01T08:30:00.250000'' (JStr ''22222222-2222-2222-2222-222222222222''))) (JStr ''22222222-2222-2222-2222-222222222222''))
     = Inr (Some (client_sample\<lparr>cli_deactive := None\<rparr>)) \<and>
   snd (deactivate_client cpython_sample (fst (deactivate_client cpython_sample store_sample ''2024-07-01T08:30:00.250000'' (JStr ''22222222-2222-2222-2222-222222222222''))) ''2024-07-02T09:45:10.000500'' (JStr ''22222222-2222-2222-2222-222222222222''))
     = Inr (Some (client_sample\<lparr>cli_deactive := Some [2024, 7, 2, 9, 45, 10, 500]\<rparr>)) \<and>
   map (\<lambda>row. dget row ''deactive_at'')
     (eq_filter ''id'' (JInt 7) (tables (fst (deactivate_recruiter cpython_sample store_sample ''2024-07-01T08:30:00.250000'' (JInt 7))) TABLE_NAME_recruiter))
     = [JStr ''2024-07-01T08:30:00.250000''] \<and>
   map (\<lambda>row. dget row ''deactive_at'')
     (eq_filter ''id'' (JInt 7)
        (tables (fst (reactivate_recruiter cpython_sample (fst (deactivate_recruiter cpython_sample store_sample ''2024-07-01T08:30:00.250000'' (JInt 7))) (JInt 7))) TABLE_NAME_recruiter))
     = [JNull] \<and>
   map (\<lambda>row. dget row ''deactive_at'')
     (eq_filter ''id'' (JInt 7)
        (tables (fst (deactivate_recruiter cpython_sample (fst (deactivate_recruiter cpython_sample store_sample ''2024-07-01T08:30:00.250000'' (JInt 7))) ''2024-07-02T09:45:10.000500'' (JInt 7))) TABLE_NAME_recruiter))
     = [JStr ''2024-07-02T09:45:10.000500''] \<and>
   snd (deactivate_recruiter cpython_sample store_sample ''2024-07-01T08:30:00.250000'' (JInt 7)) = Inr (Some (recruiter_sample\<lparr>rec_deactive_at := Some [2024, 7, 1, 8, 30, 0, 250000]\<rparr>)) \<and>
   snd (reactivate_recruiter cpython_sample (fst (deactivate_recruiter cpython_sample store_sample ''2024-07-01T08:30:00.250000'' (JInt 7))) (JInt 7))
     = Inr (Some (recruiter_sample\<lparr>rec_deactive_at := None\<rparr>)) \<and>
   snd (deactivate_recruiter cpython_sample (fst (deactivate_recruiter cpython_sample store_sample ''2024-07-01T08:30:00.250000'' (JInt 7))) ''2024-07-02T09:45:10.000500'' (JInt 7))
     = Inr (Some (recruiter_sample\<lparr>rec_deactive_at := Some [2024, 7, 2, 9, 45, 10, 500]\<rparr>)) \<and>
   map (\<lambda>row. dget row ''deactive_at'')
     (eq_filter ''id'' (JInt 1) (tables (fst (deactivate_application cpython_sample store_sample ''2024-07-01T08:30:00.250000'' (JInt 1))) TABLE_NAME_applicant_job_apply))
     = [JStr ''2024-07-01T08:30:00.250000''] \<and>
   map (\<lambda>row. dget row ''deactive_at'')
     (eq_filter ''id'' (JInt 1)
        (tables (fst (reactivate_application cpython_sample (fst (deactivate_application cpython_sample store_sample ''2024-07-01T08:30:00.250000'' (JInt 1))) (JInt 1))) TABLE_NAME_applicant_job_apply))
     = [JNull] \<and>
   map (\<lambda>row. dget row ''deactive_at'')
     (eq_filter ''id'' (JInt 1)
        (tables (fst (deactivate_application cpython_sample (fst (deactivate_application cpython_sample store_sample ''2024-07-01T08:30:00.250000'' (JInt 1))) ''2024-07-02T09:45:10.000500'' (JInt 1))) TABLE_NAME_applicant_job_apply))
     = [JStr ''2024-07-02T09:45:10.000500''] \<and>
   snd (deactivate_application cpython_sample store_sample ''2024-07-01T08:30:00.250000'' (JInt 1)) = Inr (Some (application_sample\<lparr>aja_deactive_at := Some [2024, 7, 1, 8, 30, 0, 250000]\<rparr>)) \<and>
   snd (reactivate_application cpython_sample (fst (deactivate_application cpython_sample store_sample ''2024-07-01T08:30:00.250000'' (JInt 1))) (JInt 1))
     = Inr (Some (application_sample\<lparr>aja_deactive_at := None\<rparr>)) \<and>
   snd (deactivate_application cpython_sample (fst (deactivate_application cpython_sample store_sample ''2024-07-01T08:30:00.250000'' (JInt 1))) ''2024-07-02T09:45:10.000500'' (JInt 1))
     = Inr (Some (application_sample\<lparr>aja_deactive_at := Some [2024, 7, 2, 9, 45, 10, 500]\<rparr>)) \<and>
   map (\<lambda>row. (dget row ''deactive_at'', dget row ''status''))
     (eq_filter ''id'' (JStr ''33333333-3333-3333-3333-333333333333'') (tables (fst (close_job_description cpython_sample store_sample ''2024-07-01T08:30:00.250000'' (JStr ''33333333-3333-3333-3333-333333333333''))) TABLE_NAME_job_description))
     = [(JStr ''2024-07-01T08:30:00.250000'', JStr ''CLOSED'')] \<and>
   map (\<lambda>row. (dget row ''deactive_at'', dget row ''status''))
     (eq_filter ''id'' (JStr ''33333333-3333-3333-3333-333333333333'')
        (tables (fst (reopen_job_description cpython_sample (fst (close_job_description cpython_sample store_sample ''2024-07-01T08:30:00.250000'' (JStr ''33333333-3333-3333-3333-333333333333''))) (JStr ''33333333-3333-3333-3333-333333333333''))) TABLE_NAME_job_description))
     = [(JNull, JStr ''OPEN'')] \<and>
   map (\<lambda>row. (dget row ''deactive_at'', dget row ''status''))
     (eq_filter ''id'' (JStr ''33333333-3333-3333-3333-333333333333'')
        (tables (fst (close_job_description cpython_sample (fst (close_job_description cpython_sample store_sample ''2024-07-01T08:30:00.250000'' (JStr ''33333333-3333-3333-3333-333333333333''))) ''2024-07-02T09:45:10.000500'' (JStr ''33333333-3333-3333-3333-333333333333''))) TABLE_NAME_job_description))
     = [(JStr ''2024-07-02T09:45:10.000500'', JStr ''CLOSED'')] \<and>
   snd (close_job_description cpython_sample store_sample ''2024-07-01T08:30:00.250000'' (JStr ''33333333-3333-3333-3333-333333333333'')) = Inr (Some (job_sample\<lparr>jd_deactive_at := Some [2024, 7, 1, 8, 30, 0, 250000], jd_status := JStr ''CLOSED''\<rparr>)) \<and>
   snd (reopen_job_description cpython_sample (fst (close_job_description cpython_sample store_sample ''2024-07-01T08:30:00.250000'' (JStr ''33333333-3333-3333-3333-333333333333''))) (JStr ''33333333-3333-3333-3333-333333333333''))
     = Inr (Some (job_sample\<lparr>jd_deactive_at := None, jd_status := JStr ''OPEN''\<rparr>)) \<and>
   snd (close_job_description cpython_sample (fst (close_job_description cpython_sample store_sample ''2024-07-01T08:30:00.250000'' (JStr ''33333333-3333-3333-3333-333333333333''))) ''2024-07-02T09:45:10.000500'' (JStr ''33333333-3333-3333-3333-333333333333''))
     = Inr (Some (job_sample\<lparr>jd_deactive_at := Some [2024, 7, 2, 9, 45, 10, 500], jd_status := JStr ''CLOSED''\<rparr>))"
proof -
  have clock1: "''2024-07-01T08:30:00.250000'' \<noteq> []"
    "fromisoformat cpython_sample ''2024-07-01T08:30:00.250000'' = Some [2024, 7, 1, 8, 30, 0, 250000]"
    by code_simp+
  have clock2: "''2024-07-02T09:45:10.000500'' \<noteq> []"
    "fromisoformat cpython_sample ''2024-07-02T09:45:10.000500'' = Some [2024, 7, 2, 9, 45, 10, 500]"
    by code_simp+
  note all = deactivate_then_reactivate [OF clock1 clock2, where st = store_sample
      and ?i\<^sub>a = "JStr ''11111111-1111-1111-1111-111111111111''" and ?r\<^sub>a = row_ana and ?rest\<^sub>a = "[]" and ?e\<^sub>a = applicant_ana
      and ?i\<^sub>c = "JStr ''22222222-2222-2222-2222-222222222222''" and ?r\<^sub>c = row_client and ?rest\<^sub>c = "[]" and ?e\<^sub>c = client_sample
      and ?i\<^sub>r = "JInt 7" and ?r\<^sub>r = row_recruiter and ?rest\<^sub>r = "[]" and ?e\<^sub>r = recruiter_sample
      and ?i\<^sub>x = "JInt 1" and ?r\<^sub>x = row_application and ?rest\<^sub>x = "[]" and ?e\<^sub>x = application_sample
      and ?i\<^sub>j = "JStr ''33333333-3333-3333-3333-333333333333''" and ?r\<^sub>j = row_job and ?rest\<^sub>j = "[]" and ?e\<^sub>j = job_sample]
  have applicant: "eq_filter ''id'' (JStr ''11111111-1111-1111-1111-111111111111'') (tables store_sample TABLE_NAME_applicants) = row_ana # []"
    "Applicant_from_dict cpython_sample row_ana = Inr applicant_ana"
    by code_simp+
  note applicant_stored = all [THEN conjunct1, THEN mp, OF applicant(1)]
  note applicant_returned = all [THEN conjunct2, THEN conjunct1, THEN mp, OF conjI [OF applicant]]
  have client: "eq_filter ''id'' (JStr ''22222222-2222-2222-2222-222222222222'') (tables store_sample TABLE_NAME_client) = row_client # []"
    "Client_from_dict cpython_sample row_client = Inr client_sample"
    by code_simp+
  note client_stored = all [THEN conjunct2, THEN conjunct2, THEN conjunct1, THEN mp, OF client(1)]
  note client_returned = all [THEN conjunct2, THEN conjunct2, THEN conjunct2, THEN conjunct1, THEN mp, OF conjI [OF client]]
  have recruiter: "eq_filter ''id'' (JInt 7) (tables store_sample TABLE_NAME_recruiter) = row_recruiter # []"
    "Recruiter_from_dict cpython_sample row_recruiter = Inr recruiter_sample"
    by code_simp+
  note recruiter_stored = all [THEN conjunct2, THEN conjunct2, THEN conjunct2, THEN conjunct2, THEN conjunct1, THEN mp, OF recruiter(1)]
  note recruiter_returned = all [THEN conjunct2, THEN conjunct2, THEN conjunct2, THEN conjunct2, THEN conjunct2, THEN conjunct1, THEN mp, OF conjI [OF recruiter]]
  have application: "eq_filter ''id'' (JInt 1) (tables store_sample TABLE_NAME_applicant_job_apply) = row_application # []"
    "ApplicantJobApply_from_dict cpython_sample row_application = Inr application_sample"
    by code_simp+
  note application_stored = all [THEN conjunct2, THEN conjunct2, THEN conjunct2, THEN conjunct2, THEN conjunct2, THEN conjunct2, THEN conjunct1, THEN mp, OF application(1)]
  note application_returned = all [THEN conjunct2, THEN conjunct2, THEN conjunct2, THEN conjunct2, THEN conjunct2, THEN conjunct2, THEN conjunct2, THEN conjunct1, THEN mp, OF conjI [OF application]]
  have job_description: "eq_filter ''id'' (JStr ''33333333-3333-3333-3333-333333333333'') (tables store_sample TABLE_NAME_job_description) = row_job # []"
    "JobDescription_from_dict cpython_sample row_job = Inr job_sample"
    by code_simp+
  note job_description_stored = all [THEN conjunct2, THEN conjunct2, THEN conjunct2, THEN conjunct2, THEN conjunct2, THEN conjunct2, THEN conjunct2, THEN conjunct2, THEN conjunct1, THEN mp, OF job_description(1)]
  note job_description_returned = all [THEN conjunct2, THEN conjunct2, THEN conjunct2, THEN conjunct2, THEN conjunct2, THEN conjunct2, THEN conjunct2, THEN conjunct2, THEN conjunct2, THEN mp, OF conjI [OF job_description]]
  from applicant_stored applicant_returned client_stored client_returned recruiter_stored recruiter_returned application_stored application_returned job_description_stored job_description_returned
  show ?thesis by simp
qed

section \<open>Create\<close>

lemma bindE_not_Exception:
  "m \<noteq> Inl (Exception s) \<Longrightarrow> (\<And>x. f x \<noteq> Inl (Exception s)) \<Longrightarrow> bindE m f \<noteq> Inl (Exception s)"
  by (cases m) auto

lemma opt_uuid_not_Exception: "opt_uuid L r k \<noteq> Inl (Exception s)"
  by (simp add: opt_uuid_def split: jval.splits option.splits)

lemma opt_datetime_not_Exception: "opt_datetime L r k \<noteq> Inl (Exception s)"
  by (simp add: opt_datetime_def split: jval.splits option.splits)

lemma ditem_not_Exception: "ditem r k \<noteq> Inl (Exception s)"
  by (simp add: ditem_def split: option.splits)

lemmas not_Exception =
  bindE_not_Exception opt_uuid_not_Exception opt_datetime_not_Exception ditem_not_Exception

lemma Applicant_from_dict_not_Exception: "Applicant_from_dict L r \<noteq> Inl (Exception s)"
  unfolding Applicant_from_dict_def by (intro not_Exception) simp

lemma Client_from_dict_not_Exception: "Client_from_dict L r \<noteq> Inl (Exception s)"
  unfolding Client_from_dict_def by (intro not_Exception) simp

lemma Recruiter_from_dict_not_Exception: "Recruiter_from_dict L r \<noteq> Inl (Exception s)"
  unfolding Recruiter_from_dict_def Let_def by (intro not_Exception) simp

lemma JobDescription_from_dict_not_Exception: "JobDescription_from_dict L r \<noteq> Inl (Exception s)"
  unfolding JobDescription_from_dict_def by (intro not_Exception) simp

lemma ApplicantJobApply_from_dict_not_Exception:
  "ApplicantJobApply_from_dict L r \<noteq> Inl (Exception s)"
  unfolding ApplicantJobApply_from_dict_def by (intro not_Exception) simp

lemma create_client_data_delete: "create_client_data L c = AList.delete ''id'' (Client_to_dict L c)"
proof -
  have "map_of d ''id'' = None \<Longrightarrow> AList.delete ''id'' d = d" for d :: pydict
    by (induction d) (auto split: if_splits)
  then show ?thesis by (auto simp: create_client_data_def Let_def)
qed

lemma create_applicant_cases:
  "snd (create_applicant L st e) =
     (case on_insert st TABLE_NAME_applicants (Applicant_to_dict L e) of
        Inl msg \<Rightarrow> Inl (Exception (''Error inserting into '' @ TABLE_NAME_applicants @ '': '' @ msg))
      | Inr [] \<Rightarrow> Inl (Exception ''Failed to create applicant'')
      | Inr (r # _) \<Rightarrow> Applicant_from_dict L r)"
  by (simp add: create_applicant_def insert_record_def split: sum.splits list.splits)

lemma create_applicant_fails_iff:
  "snd (create_applicant L st e) = Inl (Exception ''Failed to create applicant'') \<longleftrightarrow>
     on_insert st TABLE_NAME_applicants (Applicant_to_dict L e) = Inr []"
  unfolding create_applicant_cases
  by (simp add: Applicant_from_dict_not_Exception split: sum.splits list.splits)

lemma create_client_cases:
  "snd (create_client L st e) =
     (case on_insert st TABLE_NAME_client (AList.delete ''id'' (Client_to_dict L e)) of
        Inl msg \<Rightarrow> Inl (Exception (''Error inserting into '' @ TABLE_NAME_client @ '': '' @ msg))
      | Inr [] \<Rightarrow> Inl (Exception ''Failed to create client'')
      | Inr (r # _) \<Rightarrow> Client_from_dict L r)"
  by (simp add: create_client_def insert_record_def create_client_data_delete split: sum.splits list.splits)

lemma create_client_fails_iff:
  "snd (create_client L st e) = Inl (Exception ''Failed to create client'') \<longleftrightarrow>
     on_insert st TABLE_NAME_client (AList.delete ''id'' (Client_to_dict L e)) = Inr []"
  unfolding create_client_cases
  by (simp add: Client_from_dict_not_Exception split: sum.splits list.splits)

lemma create_recruiter_cases:
  "snd (create_recruiter L st e) =
     (case on_insert st TABLE_NAME_recruiter (Recruiter_to_dict L e) of
        Inl msg \<Rightarrow> Inl (Exception (''Error inserting into '' @ TABLE_NAME_recruiter @ '': '' @ msg))
      | Inr [] \<Rightarrow> Inl (Exception ''Failed to create recruiter'')
      | Inr (r # _) \<Rightarrow> Recruiter_from_dict L r)"
  by (simp add: create_recruiter_def insert_record_def split: sum.splits list.splits)

lemma create_recruiter_fails_iff:
  "snd (create_recruiter L st e) = Inl (Exception ''Failed to create recruiter'') \<longleftrightarrow>
     on_insert st TABLE_NAME_recruiter (Recruiter_to_dict L e) = Inr []"
  unfolding create_recruiter_cases
  by (simp add: Recruiter_from_dict_not_Exception split: sum.splits list.splits)

lemma create_job_description_cases:
  "snd (create_job_description L st e) =
     (case on_insert st TABLE_NAME_job_description (JobDescription_to_dict L e) of
        Inl msg \<Rightarrow> Inl (Exception (''Error inserting into '' @ TABLE_NAME_job_description @ '': '' @ msg))
      | Inr [] \<Rightarrow> Inl (Exception ''Failed to create job description'')
      | Inr (r # _) \<Rightarrow> JobDescription_from_dict L r)"
  by (simp add: create_job_description_def insert_record_def split: sum.splits list.splits)

lemma create_job_description_fails_iff:
  "snd (create_job_description L st e) = Inl (Exception ''Failed to create job description'') \<longleftrightarrow>
     on_insert st TABLE_NAME_job_description (JobDescription_to_dict L e) = Inr []"
  unfolding create_job_description_cases
  by (simp add: JobDescription_from_dict_not_Exception split: sum.splits list.splits)

lemma create_application_cases:
  "snd (create_application L st e) =
     (case on_insert st TABLE_NAME_applicant_job_apply (ApplicantJobApply_to_dict L e) of
        Inl msg \<Rightarrow> Inl (Exception (''Error inserting into '' @ TABLE_NAME_applicant_job_apply @ '': '' @ msg))
      | Inr [] \<Rightarrow> Inl (Exception ''Failed to create job application'')
      | Inr (r # _) \<Rightarrow> ApplicantJobApply_from_dict L r)"
  by (simp add: create_application_def insert_record_def split: sum.splits list.splits)

lemma create_application_fails_iff:
  "snd (create_application L st e) = Inl (Exception ''Failed to create job application'') \<longleftrightarrow>
     on_insert st TABLE_NAME_applicant_job_apply (ApplicantJobApply_to_dict L e) = Inr []"
  unfolding create_application_cases
  by (simp add: ApplicantJobApply_from_dict_not_Exception split: sum.splits list.splits)

text \<open>
  C4, as stated, fails for clients: \<open>create_client\<close> does not send \<open>to_dict\<close> of the
  client. On the example store, which returns the payload it is given, inserting the
  dictionary of a client with an id would give back that client; \<open>create_client\<close> returns
  the client without id.
\<close>

theorem create_client_does_not_send_to_dict:
  "on_insert store_sample TABLE_NAME_client (Client_to_dict cpython_sample client_with_id)
     = Inr [[(''description'', JStr ''Acme Corp''),
             (''id'', JStr ''abcdef12-3456-7890-abcd-ef1234567890'')]] \<and>
   Client_from_dict cpython_sample
     [(''description'', JStr ''Acme Corp''), (''id'', JStr ''abcdef12-3456-7890-abcd-ef1234567890'')]
     = Inr client_with_id \<and>
   snd (create_client cpython_sample store_sample client_with_id)
     = Inr (client_with_id\<lparr>cli_id := None\<rparr>) \<and>
   client_with_id\<lparr>cli_id := None\<rparr> \<noteq> client_with_id"
  by code_simp

text \<open>
  C4, amended. For each of the five entity types, \<open>create\<close> calls the store's insert once,
  with \<open>to_dict\<close> of the entity, and for a client with \<open>to_dict\<close> of the client without the
  key \<open>id\<close>. It raises the creation error exactly when the store returns no row; when the
  store returns rows it returns the first one decoded; when the store refuses, the
  refusal is raised as an insertion error.
\<close>

theorem create_raises_iff_no_row:
  "snd (create_applicant L st e\<^sub>a) =
     (case on_insert st TABLE_NAME_applicants (Applicant_to_dict L e\<^sub>a) of
        Inl msg \<Rightarrow> Inl (Exception (''Error inserting into '' @ TABLE_NAME_applicants @ '': '' @ msg))
      | Inr [] \<Rightarrow> Inl (Exception ''Failed to create applicant'')
      | Inr (r # _) \<Rightarrow> Applicant_from_dict L r) \<and>
   (snd (create_applicant L st e\<^sub>a) = Inl (Exception ''Failed to create applicant'') \<longleftrightarrow>
     on_insert st TABLE_NAME_applicants (Applicant_to_dict L e\<^sub>a) = Inr []) \<and>
   snd (create_client L st e\<^sub>c) =
     (case on_insert st TABLE_NAME_client (AList.delete ''id'' (Client_to_dict L e\<^sub>c)) of
        Inl msg \<Rightarrow> Inl (Exception (''Error inserting into '' @ TABLE_NAME_client @ '': '' @ msg))
      | Inr [] \<Rightarrow> Inl (Exception ''Failed to create client'')
      | Inr (r # _) \<Rightarrow> Client_from_dict L r) \<and>
   (snd (create_client L st e\<^sub>c) = Inl (Exception ''Failed to create client'') \<longleftrightarrow>
     on_insert st TABLE_NAME_client (AList.delete ''id'' (Client_to_dict L e\<^sub>c)) = Inr []) \<and>
   snd (create_recruiter L st e\<^sub>r) =
     (case on_insert st TABLE_NAME_recruiter (Recruiter_to_dict L e\<^sub>r) of
        Inl msg \<Rightarrow> Inl (Exception (''Error inserting into '' @ TABLE_NAME_recruiter @ '': '' @ msg))
      | Inr [] \<Rightarrow> Inl (Exception ''Failed to create recruiter'')
      | Inr (r # _) \<Rightarrow> Recruiter_from_dict L r) \<and>
   (snd (create_recruiter L st e\<^sub>r) = Inl (Exception ''Failed to create recruiter'') \<longleftrightarrow>
     on_insert st TABLE_NAME_recruiter (Recruiter_to_dict L e\<^sub>r) = Inr []) \<and>
   snd (create_job_description L st e\<^sub>j) =
     (case on_insert st TABLE_NAME_job_description (JobDescription_to_dict L e\<^sub>j) of
        Inl msg \<Rightarrow> Inl (Exception (''Error inserting into '' @ TABLE_NAME_job_description @ '': '' @ msg))
      | Inr [] \<Rightarrow> Inl (Exception ''Failed to create job description'')
      | Inr (r # _) \<Rightarrow> JobDescription_from_dict L r) \<and>
   (snd (create_job_description L st e\<^sub>j) = Inl (Exception ''Failed to create job description'') \<longleftrightarrow>
     on_insert st TABLE_NAME_job_description (JobDescription_to_dict L e\<^sub>j) = Inr []) \<and>
   snd (create_application L st e\<^sub>x) =
     (case on_insert st TABLE_NAME_applicant_job_apply (ApplicantJobApply_to_dict L e\<^sub>x) of
        Inl msg \<Rightarrow> Inl (Exception (''Error inserting into '' @ TABLE_NAME_applicant_job_apply @ '': '' @ msg))
      | Inr [] \<Rightarrow> Inl (Exception ''Failed to create job application'')
      | Inr (r # _) \<Rightarrow> ApplicantJobApply_from_dict L r) \<and>
   (snd (create_application L st e\<^sub>x) = Inl (Exception ''Failed to create job application'') \<longleftrightarrow>
     on_insert st TABLE_NAME_applicant_job_apply (ApplicantJobApply_to_dict L e\<^sub>x) = Inr [])"
  by (intro conjI create_applicant_cases create_applicant_fails_iff create_client_cases
        create_client_fails_iff create_recruiter_cases create_recruiter_fails_iff
        create_job_description_cases create_job_description_fails_iff
        create_application_cases create_application_fails_iff)

section \<open>The identifier of a recruiter\<close>

lemma dget_delete: "dget (AList.delete k r) k' = (if k' = k then JNull else dget r k')"
  by (simp add: dget_def delete_conv')

lemma ditem_delete_other: "k' \<noteq> k \<Longrightarrow> ditem (AList.delete k r) k' = ditem r k'"
  by (simp add: ditem_def delete_conv')

lemma opt_datetime_delete_other:
  "k' \<noteq> k \<Longrightarrow> opt_datetime L (AList.delete k r) k' = opt_datetime L r k'"
  by (simp add: opt_datetime_def dget_delete)

text \<open>
  C8. Let the row carry a non-null \<open>id\<close>. Decoding the row raises exactly when decoding
  the row without the key \<open>id\<close> raises, with the same exception, so the id never makes
  \<open>from_dict\<close> fail; and the recruiter decoded carries the id resolved: the UUID object
  when the value is a string that \<open>uuid.UUID\<close> accepts, and otherwise the value itself,
  unchanged.
\<close>

theorem Recruiter_from_dict_resolves_id:
  assumes "dget row ''id'' = v" and "v \<noteq> JNull"
  shows "Recruiter_from_dict L row =
           (case Recruiter_from_dict L (AList.delete ''id'' row) of
              Inl e \<Rightarrow> Inl e
            | Inr r \<Rightarrow>
                Inr (r\<lparr>rec_id :=
                        Some (case v of
                                JStr s \<Rightarrow> (case uuid_UUID L s of
                                             Some u \<Rightarrow> UuidId u
                                           | None \<Rightarrow> RawId v)
                              | _ \<Rightarrow> RawId v)\<rparr>))"
proof -
  have name: "ditem (AList.delete ''id'' row) ''name'' = ditem row ''name''"
    by (simp add: ditem_delete_other)
  have cr: "opt_datetime L (AList.delete ''id'' row) ''created_at'' = opt_datetime L row ''created_at''"
    by (simp add: opt_datetime_delete_other)
  have de: "opt_datetime L (AList.delete ''id'' row) ''deactive_at'' = opt_datetime L row ''deactive_at''"
    by (simp add: opt_datetime_delete_other)
  have desc: "dget (AList.delete ''id'' row) ''description'' = dget row ''description''"
    by (simp add: dget_delete)
  have noid: "dget (AList.delete ''id'' row) ''id'' = JNull"
    by (simp add: dget_delete)
  show ?thesis
    unfolding Recruiter_from_dict_def Let_def name cr de desc noid
    using assms
    by (cases "ditem row ''name''"; cases "opt_datetime L row ''created_at''";
        cases "opt_datetime L row ''deactive_at''"; cases v)
       (auto split: option.splits)
qed

text \<open>
  On the example library: the integer \<open>7\<close> stays the integer \<open>7\<close>, a UUID string becomes
  the UUID object, and the string \<open>rec-7\<close>, which \<open>uuid.UUID\<close> refuses, stays that string.
\<close>

theorem Recruiter_from_dict_resolves_id_witness:
  "Recruiter_from_dict cpython_sample row_recruiter = Inr recruiter_sample \<and>
   rec_id recruiter_sample = Some (RawId (JInt 7)) \<and>
   Recruiter_from_dict cpython_sample
     (AList.update ''id'' (JStr ''22222222-2222-2222-2222-222222222222'') row_recruiter)
     = Inr (recruiter_sample\<lparr>rec_id := Some (UuidId 0x22222222222222222222222222222222)\<rparr>) \<and>
   Recruiter_from_dict cpython_sample (AList.update ''id'' (JStr ''rec-7'') row_recruiter)
     = Inr (recruiter_sample\<lparr>rec_id := Some (RawId (JStr ''rec-7''))\<rparr>)"
proof -
  let ?u = "AList.update ''id'' (JStr ''22222222-2222-2222-2222-222222222222'') row_recruiter"
  let ?s = "AList.update ''id'' (JStr ''rec-7'') row_recruiter"
  have ids: "dget row_recruiter ''id'' = JInt 7" "JInt 7 \<noteq> JNull"
    "dget ?u ''id'' = JStr ''22222222-2222-2222-2222-222222222222''"
    "JStr ''22222222-2222-2222-2222-222222222222'' \<noteq> JNull"
    "dget ?s ''id'' = JStr ''rec-7''" "JStr ''rec-7'' \<noteq> JNull"
    by code_simp+
  have rest: "Recruiter_from_dict cpython_sample (AList.delete ''id'' row_recruiter)
                = Inr (recruiter_sample\<lparr>rec_id := None\<rparr>)"
    "Recruiter_from_dict cpython_sample (AList.delete ''id'' ?u)
                = Inr (recruiter_sample\<lparr>rec_id := None\<rparr>)"
    "Recruiter_from_dict cpython_sample (AList.delete ''id'' ?s)
                = Inr (recruiter_sample\<lparr>rec_id := None\<rparr>)"
    by code_simp+
  have lib: "uuid_UUID cpython_sample ''22222222-2222-2222-2222-222222222222''
               = Some 0x22222222222222222222222222222222"
    "uuid_UUID cpython_sample ''rec-7'' = None"
    by code_simp+
  have "rec_id recruiter_sample = Some (RawId (JInt 7))"
    by (simp add: recruiter_sample_def)
  moreover have "recruiter_sample\<lparr>rec_id := Some (RawId (JInt 7))\<rparr> = recruiter_sample"
    by (simp add: recruiter_sample_def)
  ultimately show ?thesis
    using Recruiter_from_dict_resolves_id [OF ids(1,2), of cpython_sample]
      Recruiter_from_dict_resolves_id [OF ids(3,4), of cpython_sample]
      Recruiter_from_dict_resolves_id [OF ids(5,6), of cpython_sample]
    by (simp add: rest lib)
qed

section \<open>The payload of create_client\<close>

text \<open>
  C9. The dictionary that \<open>create_client\<close> hands to the store's insert has no key \<open>id\<close>:
  it is \<open>to_dict\<close> of the client without that key, the store is asked about exactly this
  dictionary, and an id chosen by the caller has no effect on the call. The dictionary
  of an applicant with an id, which \<open>create_applicant\<close> sends as it is, does carry the id.
\<close>

theorem create_client_payload_has_no_id:
  "map_of (create_client_data L c) ''id'' = None \<and>
   create_client_data L c = AList.delete ''id'' (Client_to_dict L c) \<and>
   snd (create_client L st c) =
     (case on_insert st TABLE_NAME_client (create_client_data L c) of
        Inl msg \<Rightarrow> Inl (Exception (''Error inserting into '' @ TABLE_NAME_client @ '': '' @ msg))
      | Inr [] \<Rightarrow> Inl (Exception ''Failed to create client'')
      | Inr (r # _) \<Rightarrow> Client_from_dict L r) \<and>
   create_client L st c = create_client L st (c\<lparr>cli_id := None\<rparr>) \<and>
   map_of (Applicant_to_dict L (a\<lparr>app_id := Some u\<rparr>)) ''id'' = Some (JStr (uuid_str L u)) \<and>
   snd (create_applicant L st (a\<lparr>app_id := Some u\<rparr>)) =
     (case on_insert st TABLE_NAME_applicants (Applicant_to_dict L (a\<lparr>app_id := Some u\<rparr>)) of
        Inl msg \<Rightarrow> Inl (Exception (''Error inserting into '' @ TABLE_NAME_applicants @ '': '' @ msg))
      | Inr [] \<Rightarrow> Inl (Exception ''Failed to create applicant'')
      | Inr (r # _) \<Rightarrow> Applicant_from_dict L r)"
proof -
  have payload: "create_client_data L c = AList.delete ''id'' (Client_to_dict L c)"
    by (rule create_client_data_delete)
  have no_id: "map_of (create_client_data L c) ''id'' = None"
    by (simp add: payload delete_conv')
  have same: "create_client_data L (c\<lparr>cli_id := None\<rparr>) = create_client_data L c"
    by (cases "cli_id c")
       (simp_all add: create_client_data_delete Client_to_dict_def Let_def)
  have call: "create_client L st c = create_client L st (c\<lparr>cli_id := None\<rparr>)"
    by (simp add: create_client_def same)
  have app: "map_of (Applicant_to_dict L (a\<lparr>app_id := Some u\<rparr>)) ''id'' = Some (JStr (uuid_str L u))"
    by (simp add: Applicant_to_dict_def)
  show ?thesis
    using payload no_id call app create_client_cases [of L st c]
      create_applicant_cases [of L st "a\<lparr>app_id := Some u\<rparr>"]
    by simp
qed

section \<open>The description filter on an entity without description\<close>

lemma bindE_assoc: "bindE (bindE m f) g = bindE m (\<lambda>x. bindE (f x) g)"
  by (cases m) simp_all

lemma bindE_Inr_right: "bindE m Inr = m"
  by (cases m) simp_all

lemma mapE_append:
  "mapE f (xs @ ys) = bindE (mapE f xs) (\<lambda>a. bindE (mapE f ys) (\<lambda>b. Inr (a @ b)))"
proof (induction xs)
  case Nil
  show ?case by (simp add: bindE_Inr_right)
next
  case (Cons x xs)
  show ?case
    by (cases "f x"; cases "mapE f xs"; cases "mapE f ys") (simp_all add: Cons)
qed

lemma filterE_append:
  "filterE p (xs @ ys) = bindE (filterE p xs) (\<lambda>a. bindE (filterE p ys) (\<lambda>b. Inr (a @ b)))"
proof (induction xs)
  case Nil
  show ?case by (simp add: bindE_Inr_right)
next
  case (Cons x xs)
  show ?case
    by (cases "p x"; cases "filterE p xs"; cases "filterE p ys") (simp_all add: Cons)
qed

lemma filterE_skip:
  assumes "p c = Inr False"
  shows "filterE p (as @ c # bs) = filterE p (as @ bs)"
  by (cases "filterE p as"; cases "filterE p bs") (simp_all add: filterE_append assms)

lemma filterE_holds:
  "filterE p xs = Inr ys \<Longrightarrow> y \<in> set ys \<Longrightarrow> p y = Inr True"
proof (induction xs arbitrary: ys)
  case Nil
  then show ?case by simp
next
  case (Cons x xs)
  then show ?case
    by (cases "p x"; cases "filterE p xs") (auto split: if_splits)
qed

text \<open>One decoded row that the last filter rejects contributes nothing to a search.\<close>

lemma decode_then_filter_skip:
  assumes dec: "f r = Inr c" and rej: "p c = Inr False"
  shows "bindE (mapE f (xs @ r # ys)) (filterE p) = bindE (mapE f (xs @ ys)) (filterE p)"
  by (cases "mapE f xs"; cases "mapE f ys")
     (simp_all add: mapE_append dec filterE_skip [of p c, OF rej])

lemma decode_then_two_filters_skip:
  assumes dec: "f r = Inr c" and first: "q c = Inr b" and rej: "p c = Inr False"
  shows "bindE (mapE f (xs @ r # ys)) (\<lambda>rs. bindE (filterE q rs) (filterE p))
           = bindE (mapE f (xs @ ys)) (\<lambda>rs. bindE (filterE q rs) (filterE p))"
proof (cases "mapE f xs")
  case (Inl e)
  then show ?thesis by (simp add: mapE_append)
next
  case xs': (Inr as)
  show ?thesis
  proof (cases "mapE f ys")
    case (Inl e)
    then show ?thesis by (simp add: mapE_append xs' dec)
  next
    case ys': (Inr bs)
    have "bindE (filterE q (as @ c # bs)) (filterE p) = bindE (filterE q (as @ bs)) (filterE p)"
    proof (cases b)
      case False
      with first show ?thesis by (simp add: filterE_skip)
    next
      case True
      with first have keep: "q c = Inr True" by simp
      show ?thesis
        by (cases "filterE q as"; cases "filterE q bs")
           (simp_all add: filterE_append keep rej bindE_Inr_right)
    qed
    then show ?thesis by (simp add: mapE_append xs' ys' dec)
  qed
qed

lemma eq_filter_append: "eq_filter k v (xs @ ys) = eq_filter k v xs @ eq_filter k v ys"
  by (simp add: eq_filter_def)

lemma eq_filter_Cons:
  "eq_filter k v (r # ys) = (if dget r k = v then r # eq_filter k v ys else eq_filter k v ys)"
  by (simp add: eq_filter_def)

lemma query_one_filter:
  "query_table st t (Some [(k, v)]) = eq_filter k v (tables st t)"
  by (simp add: query_table_def)

lemma description_matches_null: "description_matches L needle JNull = Inr False"
  by (simp add: description_matches_def)

lemma description_matches_True: "description_matches L needle v = Inr True \<Longrightarrow> v \<noteq> JNull"
  by (auto simp: description_matches_def)

lemma in_lower_str: "in_lower L needle (JStr s) = Inr (sublist needle (str_lower L s))"
  by (simp add: in_lower_def)

lemma search_clients_skip:
  assumes d: "d \<noteq> []"
    and rows: "tables st TABLE_NAME_client = xs @ r # ys"
    and dec: "Client_from_dict L r = Inr c"
    and null: "dget r ''description'' = JNull"
  shows "search_clients L st (Some d)
           = search_clients L (st\<lparr>tables := (tables st)(TABLE_NAME_client := xs @ ys)\<rparr>) (Some d)"
proof -
  let ?p = "\<lambda>c. description_matches L (str_lower L d) (cli_description c)"
  have "cli_description c = JNull"
    using dec null unfolding Client_from_dict_Inr_iff by auto
  then have rej: "?p c = Inr False"
    by (simp add: description_matches_null)
  show ?thesis
    using d decode_then_filter_skip [of "Client_from_dict L" r c ?p, OF dec rej]
    by (simp add: search_clients_def query_one_filter rows eq_filter_append eq_filter_Cons)
qed

lemma search_recruiters_skip:
  assumes d: "d \<noteq> []"
    and rows: "tables st TABLE_NAME_recruiter = xs @ r # ys"
    and dec: "Recruiter_from_dict L r = Inr c"
    and null: "dget r ''description'' = JNull"
    and name: "rec_name c = JStr s"
  shows "search_recruiters L st name (Some d)
           = search_recruiters L (st\<lparr>tables := (tables st)(TABLE_NAME_recruiter := xs @ ys)\<rparr>)
               name (Some d)"
proof -
  let ?p = "\<lambda>c. description_matches L (str_lower L d) (rec_description c)"
  have "rec_description c = JNull"
    using dec null unfolding Recruiter_from_dict_Inr_iff by auto
  then have rej: "?p c = Inr False"
    by (simp add: description_matches_null)
  show ?thesis
  proof (cases "\<exists>n. name = Some n \<and> n \<noteq> []")
    case True
    then obtain n where n: "name = Some n" "n \<noteq> []" by blast
    let ?q = "\<lambda>r. in_lower L (str_lower L n) (rec_name r)"
    have first: "?q c = Inr (sublist (str_lower L n) (str_lower L s))"
      by (simp add: name in_lower_str)
    show ?thesis
      using d n decode_then_two_filters_skip
                  [of "Recruiter_from_dict L" r c ?q _ ?p, OF dec first rej]
      by (simp add: search_recruiters_def query_one_filter rows eq_filter_append eq_filter_Cons)
  next
    case False
    then have "(case name of
                  Some n \<Rightarrow> if n \<noteq> [] then filterE (\<lambda>r. in_lower L (str_lower L n) (rec_name r)) rs
                            else Inr rs
                | None \<Rightarrow> Inr rs) = Inr rs" for rs :: "('a, 'b) recruiter list"
      by (cases name) auto
    then show ?thesis
      using d decode_then_filter_skip [of "Recruiter_from_dict L" r c ?p, OF dec rej]
      by (simp add: search_recruiters_def query_one_filter rows eq_filter_append eq_filter_Cons)
  qed
qed

lemma search_clients_results:
  assumes "d \<noteq> []" and "search_clients L st (Some d) = Inr cs" and "c \<in> set cs"
  shows "cli_description c \<noteq> JNull"
proof -
  from assms(1,2) obtain clients where
    "filterE (\<lambda>c. description_matches L (str_lower L d) (cli_description c)) clients = Inr cs"
    by (auto simp: search_clients_def bindE_eq_Inr_iff)
  from filterE_holds [OF this assms(3)] show ?thesis
    by (rule description_matches_True)
qed

lemma search_recruiters_results:
  assumes "d \<noteq> []" and "search_recruiters L st name (Some d) = Inr cs" and "c \<in> set cs"
  shows "rec_description c \<noteq> JNull"
proof -
  from assms(1,2) obtain recruiters where
    "filterE (\<lambda>c. description_matches L (str_lower L d) (rec_description c)) recruiters = Inr cs"
    by (auto simp: search_recruiters_def bindE_eq_Inr_iff)
  from filterE_holds [OF this assms(3)] show ?thesis
    by (rule description_matches_True)
qed

text \<open>
  C10. Let the description filter be non-empty. On a missing (absent or null)
  description the test of the filter answers \<open>False\<close> without raising. A client row
  without description that the codec accepts contributes neither a result nor a failure
  to \<open>search_clients\<close>: the search is the search on the store without that row. The same
  holds for a recruiter row whose name is a string, whatever the name filter. No client
  or recruiter returned by such a search lacks a description.
\<close>

theorem description_filter_on_missing_description:
  assumes "d \<noteq> []"
  shows "description_matches L needle JNull = Inr False \<and>
         (tables st TABLE_NAME_client = xs\<^sub>c @ r\<^sub>c # ys\<^sub>c \<and> Client_from_dict L r\<^sub>c = Inr c \<and>
          dget r\<^sub>c ''description'' = JNull \<longrightarrow>
            search_clients L st (Some d)
              = search_clients L (st\<lparr>tables := (tables st)(TABLE_NAME_client := xs\<^sub>c @ ys\<^sub>c)\<rparr>)
                  (Some d)) \<and>
         (tables st TABLE_NAME_recruiter = xs\<^sub>r @ r\<^sub>r # ys\<^sub>r \<and> Recruiter_from_dict L r\<^sub>r = Inr r \<and>
          dget r\<^sub>r ''description'' = JNull \<and> rec_name r = JStr s \<longrightarrow>
            search_recruiters L st name (Some d)
              = search_recruiters L
                  (st\<lparr>tables := (tables st)(TABLE_NAME_recruiter := xs\<^sub>r @ ys\<^sub>r)\<rparr>) name (Some d)) \<and>
         (\<forall>cs. search_clients L st (Some d) = Inr cs \<longrightarrow>
               (\<forall>c\<in>set cs. cli_description c \<noteq> JNull)) \<and>
         (\<forall>rs. search_recruiters L st name (Some d) = Inr rs \<longrightarrow>
               (\<forall>r\<in>set rs. rec_description r \<noteq> JNull))"
  using search_clients_skip [OF assms] search_recruiters_skip [OF assms]
    search_clients_results [OF assms] search_recruiters_results [OF assms]
  by (intro conjI impI allI ballI description_matches_null) blast+

text \<open>
  On the example store the client and the recruiter have no description: a search for
  \<open>Acme\<close> or for \<open>Python\<close> returns nothing and raises nothing, as on the store without
  their rows.
\<close>

theorem description_filter_on_missing_description_witness:
  "search_clients cpython_sample store_sample (Some ''Acme'') = Inr [] \<and>
   search_clients cpython_sample store_sample (Some ''Acme'')
     = search_clients cpython_sample
         (store_sample\<lparr>tables := (tables store_sample)(TABLE_NAME_client := [] @ [])\<rparr>)
         (Some ''Acme'') \<and>
   search_recruiters cpython_sample store_sample (Some ''rit'') (Some ''Python'') = Inr [] \<and>
   search_recruiters cpython_sample store_sample (Some ''rit'') (Some ''Python'')
     = search_recruiters cpython_sample
         (store_sample\<lparr>tables := (tables store_sample)(TABLE_NAME_recruiter := [] @ [])\<rparr>)
         (Some ''rit'') (Some ''Python'')"
proof -
  have d: "''Acme'' \<noteq> []" "''Python'' \<noteq> []"
    by simp_all
  have client: "tables store_sample TABLE_NAME_client = [] @ row_client # [] \<and>
      Client_from_dict cpython_sample row_client = Inr client_sample \<and>
      dget row_client ''description'' = JNull"
    by code_simp
  have recruiter: "tables store_sample TABLE_NAME_recruiter = [] @ row_recruiter # [] \<and>
      Recruiter_from_dict cpython_sample row_recruiter = Inr recruiter_sample \<and>
      dget row_recruiter ''description'' = JNull \<and> rec_name recruiter_sample = JStr ''Rita''"
    by code_simp
  have none: "search_clients cpython_sample store_sample (Some ''Acme'') = Inr []"
    "search_recruiters cpython_sample store_sample (Some ''rit'') (Some ''Python'') = Inr []"
    by code_simp+
  from description_filter_on_missing_description
         [OF d(1), of cpython_sample _ store_sample "[]" row_client "[]" client_sample]
       client
  have "search_clients cpython_sample store_sample (Some ''Acme'')
     = search_clients cpython_sample
         (store_sample\<lparr>tables := (tables store_sample)(TABLE_NAME_client := [] @ [])\<rparr>)
         (Some ''Acme'')"
    by blast
  moreover
  from description_filter_on_missing_description [OF d(2), where L = cpython_sample
         and st = store_sample and ?xs\<^sub>r = "[]" and ?r\<^sub>r = row_recruiter and ?ys\<^sub>r = "[]"
         and r = recruiter_sample and s = "''Rita''" and name = "Some ''rit''"]
       recruiter
  have "search_recruiters cpython_sample store_sample (Some ''rit'') (Some ''Python'')
     = search_recruiters cpython_sample
         (store_sample\<lparr>tables := (tables store_sample)(TABLE_NAME_recruiter := [] @ [])\<rparr>)
         (Some ''rit'') (Some ''Python'')"
    by blast
  ultimately show ?thesis
    using none by simp
qed

section \<open>Round trip of the codecs\<close>

lemma ditem_Inr: "ditem row k = Inr v \<longleftrightarrow> map_of row k = Some v"
  by (simp add: ditem_def split: option.splits)

lemma dget_Some: "map_of row k = Some v \<Longrightarrow> dget row k = v"
  by (simp add: dget_def)

lemma dget_default_Some: "map_of row k = Some v \<Longrightarrow> dget_default row k d = v"
  by (simp add: dget_default_def)

lemma opt_uuid_Some:
  assumes "opt_uuid L row k = Inr (Some u)"
  shows "\<exists>s. map_of row k = Some (JStr s) \<and> uuid_UUID L s = Some u"
proof (cases "map_of row k")
  case None
  with assms show ?thesis by (simp add: opt_uuid_def dget_def)
next
  case (Some v)
  then have v: "dget row k = v" by (rule dget_Some)
  show ?thesis
  proof (cases v)
    case (JStr s)
    with assms v Some show ?thesis
      by (cases "uuid_UUID L s") (auto simp: opt_uuid_def split: if_splits)
  qed (use assms v in \<open>auto simp: opt_uuid_def split: if_splits\<close>)
qed

lemma opt_uuid_None:
  assumes "opt_uuid L row k = Inr None"
  shows "\<not> truthy (dget row k)"
proof (cases "dget row k")
  case (JStr s)
  with assms show ?thesis
    by (cases "uuid_UUID L s") (auto simp: opt_uuid_def split: if_splits)
qed (use assms in \<open>auto simp: opt_uuid_def split: if_splits\<close>)

lemma canonical_uuid_str:
  assumes "canonical_uuid L row k" and "opt_uuid L row k = Inr (Some u)"
  shows "map_of row k = Some (JStr (uuid_str L u))"
proof -
  from opt_uuid_Some [OF assms(2)] obtain s where
    s: "map_of row k = Some (JStr s)" "uuid_UUID L s = Some u" by blast
  with assms(1) have "uuid_str L u = s" by (simp add: canonical_uuid_def)
  with s show ?thesis by simp
qed

lemma truthy_uuid_Some:
  assumes "truthy_if_present row k" and "map_of row k = Some v" and "opt_uuid L row k = Inr x"
  shows "\<exists>u. x = Some u"
proof (cases x)
  case None
  with assms(3) have "\<not> truthy (dget row k)" by (simp add: opt_uuid_None)
  with assms(1,2) show ?thesis by (simp add: truthy_if_present_def dget_def)
qed simp

lemma Applicant_round_trip:
  assumes dec: "Applicant_from_dict L row = Inr a" and canon: "canonical_uuid L row ''id''"
    and row: "map_of row k = Some v" and out: "map_of (Applicant_to_dict L a) k = Some w"
  shows "v = w"
proof -
  from dec obtain i n ln li em ph ci en cr de where
    fields: "opt_uuid L row ''id'' = Inr i" "map_of row ''name'' = Some n"
      "map_of row ''last_name'' = Some ln" "map_of row ''linkedin'' = Some li"
      "map_of row ''email'' = Some em" "map_of row ''phone'' = Some ph"
      "map_of row ''city'' = Some ci" "map_of row ''english'' = Some en"
    and a: "a = \<lparr>app_name = n, app_last_name = ln, app_linkedin = li, app_email = em,
             app_phone = ph, app_city = ci, app_english = en, app_id = i,
             app_created_at = cr, app_deactive_at = de\<rparr>"
    unfolding Applicant_from_dict_Inr_iff ditem_Inr by blast
  show ?thesis
  proof (cases i)
    case None
    with out row fields show ?thesis
      by (auto simp: a Applicant_to_dict_def split: if_splits)
  next
    case (Some u)
    with canonical_uuid_str [OF canon] fields(1)
    have "map_of row ''id'' = Some (JStr (uuid_str L u))" by simp
    with Some out row fields show ?thesis
      by (auto simp: a Applicant_to_dict_def split: if_splits)
  qed
qed

lemma Client_round_trip:
  assumes dec: "Client_from_dict L row = Inr c" and canon: "canonical_uuid L row ''id''"
    and row: "map_of row k = Some v" and out: "map_of (Client_to_dict L c) k = Some w"
  shows "v = w"
proof -
  from dec obtain i cr de where
    fields: "opt_uuid L row ''id'' = Inr i"
    and c: "c = \<lparr>cli_description = dget row ''description'', cli_id = i,
             cli_created_at = cr, cli_deactive = de\<rparr>"
    unfolding Client_from_dict_Inr_iff by blast
  show ?thesis
  proof (cases i)
    case None
    with out row show ?thesis
      by (auto simp: c Client_to_dict_def Let_def dget_Some split: if_splits)
  next
    case (Some u)
    with canonical_uuid_str [OF canon] fields
    have "map_of row ''id'' = Some (JStr (uuid_str L u))" by simp
    with Some out row show ?thesis
      by (auto simp: c Client_to_dict_def Let_def dget_Some split: if_splits)
  qed
qed

lemma Recruiter_round_trip:
  assumes dec: "Recruiter_from_dict L row = Inr r"
    and row: "map_of row k = Some v" and out: "map_of (Recruiter_to_dict L r) k = Some w"
  shows "v = w"
proof -
  from dec obtain n where
    fields: "map_of row ''name'' = Some n"
    and r: "rec_name r = n" "rec_description r = dget row ''description''"
    unfolding Recruiter_from_dict_Inr_iff ditem_Inr by auto
  from out row fields show ?thesis
    by (auto simp: r Recruiter_to_dict_def Let_def dget_Some split: if_splits)
qed

lemma map_of_update_if:
  "map_of (AList.update k v d) k' = (if k' = k then Some v else map_of d k')"
  by (simp add: update_conv')

lemma map_of_update_unless:
  "map_of (if c then AList.update k v d else d) k' = (if c \<and> k' = k then Some v else map_of d k')"
  by (simp add: update_conv')

lemma JobDescription_to_dict_lookup:
  assumes "map_of (JobDescription_to_dict L j) k = Some w"
  shows "(k = ''min_salary'' \<and> w = jd_min_salary j) \<or> (k = ''status'' \<and> w = jd_status j) \<or>
         (k = ''description'' \<and> w = jd_description j \<and> w \<noteq> JNull) \<or>
         (k = ''max_salary'' \<and> w = jd_max_salary j \<and> w \<noteq> JNull) \<or>
         (k = ''recruiter_id'' \<and> w = jd_recruiter_id j \<and> w \<noteq> JNull) \<or>
         (\<exists>u. k = ''client_id'' \<and> jd_client_id j = Some u \<and> w = JStr (uuid_str L u))"
proof (cases "jd_client_id j")
  case None
  with assms show ?thesis
    unfolding JobDescription_to_dict_def Let_def
    by (simp add: map_of_update_unless split: if_splits)
next
  case (Some u)
  with assms show ?thesis
    unfolding JobDescription_to_dict_def Let_def
    by (simp add: map_of_update_unless map_of_update_if split: if_splits)
qed

lemma JobDescription_round_trip:
  assumes dec: "JobDescription_from_dict L row = Inr j" and canon: "canonical_uuid L row ''client_id''"
    and row: "map_of row k = Some v" and out: "map_of (JobDescription_to_dict L j) k = Some w"
  shows "v = w"
proof -
  from dec obtain i cl cr de where
    cl: "opt_uuid L row ''client_id'' = Inr cl"
    and j: "jd_min_salary j = dget_default row ''min_salary'' (JFloat 0)"
      "jd_status j = dget_default row ''status'' (JStr ''OPEN'')"
      "jd_description j = dget row ''description''"
      "jd_max_salary j = dget row ''max_salary''"
      "jd_recruiter_id j = dget row ''recruiter_id''"
      "jd_client_id j = cl"
    unfolding JobDescription_from_dict_Inr_iff by auto
  from JobDescription_to_dict_lookup [OF out] show ?thesis
  proof (elim disjE exE conjE)
    fix u
    assume u: "k = ''client_id''" "jd_client_id j = Some u" "w = JStr (uuid_str L u)"
    with canonical_uuid_str [OF canon] cl j(6)
    have "map_of row ''client_id'' = Some (JStr (uuid_str L u))" by simp
    with row u show ?thesis by simp
  qed (use row j in \<open>simp_all add: dget_Some dget_default_Some\<close>)
qed

lemma ApplicantJobApply_to_dict_lookup:
  assumes "map_of (ApplicantJobApply_to_dict L x) k = Some w"
  shows "(k = ''applicant_id'' \<and> w = JStr (str_of L (aja_applicant_id x))) \<or>
         (k = ''job_description_id'' \<and> w = JStr (str_of L (aja_job_description_id x))) \<or>
         (\<exists>u. k = ''recruiter_id'' \<and> aja_recruiter_id x = Some u \<and> w = JStr (uuid_str L u)) \<or>
         (k = ''id'' \<and> w = aja_id x \<and> truthy w)"
proof (cases "aja_recruiter_id x")
  case None
  with assms show ?thesis
    unfolding ApplicantJobApply_to_dict_def Let_def
    by (simp add: map_of_update_unless split: if_splits)
next
  case (Some u)
  with assms show ?thesis
    unfolding ApplicantJobApply_to_dict_def Let_def
    by (simp add: map_of_update_unless map_of_update_if split: if_splits)
qed

lemma ApplicantJobApply_round_trip:
  assumes dec: "ApplicantJobApply_from_dict L row = Inr x"
    and canon: "canonical_uuid L row ''applicant_id''"
      "canonical_uuid L row ''job_description_id''" "canonical_uuid L row ''recruiter_id''"
    and present: "truthy_if_present row ''applicant_id''"
      "truthy_if_present row ''job_description_id''"
    and row: "map_of row k = Some v" and out: "map_of (ApplicantJobApply_to_dict L x) k = Some w"
  shows "v = w"
proof -
  from dec obtain ap jo re where
    ids: "opt_uuid L row ''applicant_id'' = Inr ap"
      "opt_uuid L row ''job_description_id'' = Inr jo"
      "opt_uuid L row ''recruiter_id'' = Inr re"
    and x: "aja_applicant_id x = ap" "aja_job_description_id x = jo" "aja_recruiter_id x = re"
      "aja_id x = dget row ''id''"
    unfolding ApplicantJobApply_from_dict_Inr_iff by auto
  from ApplicantJobApply_to_dict_lookup [OF out] show ?thesis
  proof (elim disjE exE conjE)
    assume k: "k = ''applicant_id''" and w: "w = JStr (str_of L (aja_applicant_id x))"
    from truthy_uuid_Some [OF present(1) _ ids(1)] row k obtain u where u: "ap = Some u"
      by blast
    with canonical_uuid_str [OF canon(1)] ids(1)
    have "map_of row ''applicant_id'' = Some (JStr (uuid_str L u))" by simp
    with row k w u x(1) show ?thesis by (simp add: str_of_def)
  next
    assume k: "k = ''job_description_id''"
      and w: "w = JStr (str_of L (aja_job_description_id x))"
    from truthy_uuid_Some [OF present(2) _ ids(2)] row k obtain u where u: "jo = Some u"
      by blast
    with canonical_uuid_str [OF canon(2)] ids(2)
    have "map_of row ''job_description_id'' = Some (JStr (uuid_str L u))" by simp
    with row k w u x(2) show ?thesis by (simp add: str_of_def)
  next
    fix u
    assume u: "k = ''recruiter_id''" "aja_recruiter_id x = Some u" "w = JStr (uuid_str L u)"
    with canonical_uuid_str [OF canon(3)] ids(3) x(3)
    have "map_of row ''recruiter_id'' = Some (JStr (uuid_str L u))" by simp
    with row u show ?thesis by simp
  next
    assume "k = ''id''" "w = aja_id x"
    with row x(4) show ?thesis by (simp add: dget_Some)
  qed
qed

text \<open>
  C7, as stated, fails. The codec accepts an application row whose \<open>applicant_id\<close> is
  null, and \<open>to_dict\<close> of the application decoded prints the string \<open>None\<close> under that
  key. It accepts an applicant row whose id is written in upper case, and \<open>to_dict\<close>
  prints the id in lower case.
\<close>

theorem round_trip_changes_fields:
  "ApplicantJobApply_from_dict cpython_sample row_application_no_applicant
     = Inr application_no_applicant \<and>
   map_of row_application_no_applicant ''applicant_id'' = Some JNull \<and>
   map_of (ApplicantJobApply_to_dict cpython_sample application_no_applicant) ''applicant_id''
     = Some (JStr ''None'') \<and>
   Applicant_from_dict cpython_sample row_upper = Inr applicant_upper \<and>
   map_of row_upper ''id'' = Some (JStr ''ABCDEF12-3456-7890-ABCD-EF1234567890'') \<and>
   map_of (Applicant_to_dict cpython_sample applicant_upper) ''id''
     = Some (JStr ''abcdef12-3456-7890-abcd-ef1234567890'')"
  by code_simp

text \<open>
  C7, amended. For each of the five entity types and every row that the codec accepts,
  every field that is both in the row and in \<open>to_dict\<close> of the entity decoded has the
  same value in both, provided that the identifiers which \<open>to_dict\<close> prints are in the
  row in canonical form and that, for an application, the references to the applicant
  and to the job description are not falsy in the row.
\<close>

theorem round_trip_on_common_fields:
  "(Applicant_from_dict L row\<^sub>a = Inr a \<and> canonical_uuid L row\<^sub>a ''id'' \<longrightarrow>
      (\<forall>k v w. map_of row\<^sub>a k = Some v \<and> map_of (Applicant_to_dict L a) k = Some w \<longrightarrow> v = w)) \<and>
   (Client_from_dict L row\<^sub>c = Inr c \<and> canonical_uuid L row\<^sub>c ''id'' \<longrightarrow>
      (\<forall>k v w. map_of row\<^sub>c k = Some v \<and> map_of (Client_to_dict L c) k = Some w \<longrightarrow> v = w)) \<and>
   (Recruiter_from_dict L row\<^sub>r = Inr r \<longrightarrow>
      (\<forall>k v w. map_of row\<^sub>r k = Some v \<and> map_of (Recruiter_to_dict L r) k = Some w \<longrightarrow> v = w)) \<and>
   (JobDescription_from_dict L row\<^sub>j = Inr j \<and> canonical_uuid L row\<^sub>j ''client_id'' \<longrightarrow>
      (\<forall>k v w. map_of row\<^sub>j k = Some v \<and> map_of (JobDescription_to_dict L j) k = Some w
          \<longrightarrow> v = w)) \<and>
   (ApplicantJobApply_from_dict L row\<^sub>x = Inr x \<and> canonical_uuid L row\<^sub>x ''applicant_id'' \<and>
    canonical_uuid L row\<^sub>x ''job_description_id'' \<and> canonical_uuid L row\<^sub>x ''recruiter_id'' \<and>
    truthy_if_present row\<^sub>x ''applicant_id'' \<and> truthy_if_present row\<^sub>x ''job_description_id'' \<longrightarrow>
      (\<forall>k v w. map_of row\<^sub>x k = Some v \<and> map_of (ApplicantJobApply_to_dict L x) k = Some w
          \<longrightarrow> v = w))"
proof (intro conjI impI allI; elim conjE)
  fix k v w
  assume "Applicant_from_dict L row\<^sub>a = Inr a" "canonical_uuid L row\<^sub>a ''id''"
    "map_of row\<^sub>a k = Some v" "map_of (Applicant_to_dict L a) k = Some w"
  then show "v = w" by (rule Applicant_round_trip)
next
  fix k v w
  assume "Client_from_dict L row\<^sub>c = Inr c" "canonical_uuid L row\<^sub>c ''id''"
    "map_of row\<^sub>c k = Some v" "map_of (Client_to_dict L c) k = Some w"
  then show "v = w" by (rule Client_round_trip)
next
  fix k v w
  assume "Recruiter_from_dict L row\<^sub>r = Inr r"
    "map_of row\<^sub>r k = Some v" "map_of (Recruiter_to_dict L r) k = Some w"
  then show "v = w" by (rule Recruiter_round_trip)
next
  fix k v w
  assume "JobDescription_from_dict L row\<^sub>j = Inr j" "canonical_uuid L row\<^sub>j ''client_id''"
    "map_of row\<^sub>j k = Some v" "map_of (JobDescription_to_dict L j) k = Some w"
  then show "v = w" by (rule JobDescription_round_trip)
next
  fix k v w
  assume "ApplicantJobApply_from_dict L row\<^sub>x = Inr x" "canonical_uuid L row\<^sub>x ''applicant_id''"
    "canonical_uuid L row\<^sub>x ''job_description_id''" "canonical_uuid L row\<^sub>x ''recruiter_id''"
    "truthy_if_present row\<^sub>x ''applicant_id''" "truthy_if_present row\<^sub>x ''job_description_id''"
    "map_of row\<^sub>x k = Some v" "map_of (ApplicantJobApply_to_dict L x) k = Some w"
  then show "v = w" by (rule ApplicantJobApply_round_trip)
qed

text \<open>
  On the example rows, which hold their identifiers in canonical form: the id of the
  applicant and of the client, the name of the recruiter, the client of the job and the
  applicant of the application come back unchanged.
\<close>

theorem round_trip_on_common_fields_witness:
  "Applicant_from_dict cpython_sample row_ana = Inr applicant_ana \<and>
   canonical_uuid cpython_sample row_ana ''id'' \<and>
   map_of (Applicant_to_dict cpython_sample applicant_ana) ''id'' = map_of row_ana ''id'' \<and>
   map_of (Client_to_dict cpython_sample client_sample) ''id'' = map_of row_client ''id'' \<and>
   map_of (Recruiter_to_dict cpython_sample recruiter_sample) ''name''
     = map_of row_recruiter ''name'' \<and>
   map_of (JobDescription_to_dict cpython_sample job_sample) ''client_id''
     = map_of row_job ''client_id'' \<and>
   map_of (ApplicantJobApply_to_dict cpython_sample application_sample) ''applicant_id''
     = map_of row_application ''applicant_id''"
proof -
  note rt = round_trip_on_common_fields [of cpython_sample row_ana applicant_ana
    row_client client_sample row_recruiter recruiter_sample row_job job_sample
    row_application application_sample]
  have a: "Applicant_from_dict cpython_sample row_ana = Inr applicant_ana \<and>
      canonical_uuid cpython_sample row_ana ''id''"
    by code_simp
  have a_row: "map_of row_ana ''id'' = Some (JStr ''11111111-1111-1111-1111-111111111111'')"
    by code_simp
  have a_out: "map_of (Applicant_to_dict cpython_sample applicant_ana) ''id''
      = Some (JStr (uuid_str cpython_sample 0x11111111111111111111111111111111))"
    by (simp add: Applicant_to_dict_def applicant_ana_def)
  have c: "Client_from_dict cpython_sample row_client = Inr client_sample \<and>
      canonical_uuid cpython_sample row_client ''id''"
    by code_simp
  have c_row: "map_of row_client ''id'' = Some (JStr ''22222222-2222-2222-2222-222222222222'')"
    by code_simp
  have c_out: "map_of (Client_to_dict cpython_sample client_sample) ''id''
      = Some (JStr (uuid_str cpython_sample 0x22222222222222222222222222222222))"
    by (simp add: Client_to_dict_def client_sample_def)
  have r: "Recruiter_from_dict cpython_sample row_recruiter = Inr recruiter_sample"
    by code_simp
  have r_row: "map_of row_recruiter ''name'' = Some (JStr ''Rita'')"
    by code_simp
  have r_out: "map_of (Recruiter_to_dict cpython_sample recruiter_sample) ''name''
      = Some (rec_name recruiter_sample)"
    by (simp add: Recruiter_to_dict_def Let_def recruiter_sample_def)
  have j: "JobDescription_from_dict cpython_sample row_job = Inr job_sample \<and>
      canonical_uuid cpython_sample row_job ''client_id''"
    by code_simp
  have j_row: "map_of row_job ''client_id'' = Some (JStr ''22222222-2222-2222-2222-222222222222'')"
    by code_simp
  have j_out: "map_of (JobDescription_to_dict cpython_sample job_sample) ''client_id''
      = Some (JStr (uuid_str cpython_sample 0x22222222222222222222222222222222))"
    by (simp add: JobDescription_to_dict_def Let_def job_sample_def map_of_update_if)
  have x: "ApplicantJobApply_from_dict cpython_sample row_application = Inr application_sample \<and>
      canonical_uuid cpython_sample row_application ''applicant_id'' \<and>
      canonical_uuid cpython_sample row_application ''job_description_id'' \<and>
      canonical_uuid cpython_sample row_application ''recruiter_id'' \<and>
      truthy_if_present row_application ''applicant_id'' \<and>
      truthy_if_present row_application ''job_description_id''"
    by code_simp
  have x_row: "map_of row_application ''applicant_id''
      = Some (JStr ''11111111-1111-1111-1111-111111111111'')"
    by code_simp
  have x_out: "map_of (ApplicantJobApply_to_dict cpython_sample application_sample) ''applicant_id''
      = Some (JStr (str_of cpython_sample (Some 0x11111111111111111111111111111111)))"
    by (simp add: ApplicantJobApply_to_dict_def Let_def application_sample_def)
  from rt a a_row a_out
  have 1: "map_of (Applicant_to_dict cpython_sample applicant_ana) ''id'' = map_of row_ana ''id''"
    by metis
  from rt c c_row c_out
  have 2: "map_of (Client_to_dict cpython_sample client_sample) ''id'' = map_of row_client ''id''"
    by metis
  from rt r r_row r_out
  have 3: "map_of (Recruiter_to_dict cpython_sample recruiter_sample) ''name''
     = map_of row_recruiter ''name''"
    by metis
  from rt j j_row j_out
  have 4: "map_of (JobDescription_to_dict cpython_sample job_sample) ''client_id''
     = map_of row_job ''client_id''"
    by metis
  from rt x x_row x_out
  have 5: "map_of (ApplicantJobApply_to_dict cpython_sample application_sample) ''applicant_id''
     = map_of row_application ''applicant_id''"
    by metis
  from a 1 2 3 4 5 show ?thesis by simp
qed

section \<open>Search returns active entities, except for applicants with an exact filter\<close>

lemma set_eq_filter: "set (eq_filter k v rows) = {r \<in> set rows. dget r k = v}"
  by (auto simp: eq_filter_def)

lemma fold_eq_filter:
  "set (fold (\<lambda>(column, v) q. eq_filter column v q) fs rows)
     = {r \<in> set rows. \<forall>(column, v)\<in>set fs. dget r column = v}"
proof (induction fs arbitrary: rows)
  case Nil
  show ?case by simp
next
  case (Cons f fs)
  obtain k v where f: "f = (k, v)" by (cases f)
  have "set (fold (\<lambda>(column, v) q. eq_filter column v q) (f # fs) rows)
          = {r \<in> set (eq_filter k v rows). \<forall>(column, v)\<in>set fs. dget r column = v}"
    by (simp add: f Cons)
  also have "\<dots> = {r \<in> set rows. \<forall>(column, v)\<in>set (f # fs). dget r column = v}"
    by (auto simp: set_eq_filter f)
  finally show ?case .
qed

lemma update_mem: "(k, v) \<in> set (AList.update k v al)"
  by (induction al) auto

lemma query_table_filtered:
  assumes "(k, v) \<in> set fs" and "r \<in> set (query_table st t (Some fs))"
  shows "dget r k = v"
proof -
  from assms(1) have "fs \<noteq> []" by auto
  with assms show ?thesis
    by (auto simp: query_table_def fold_eq_filter)
qed

lemma mapE_decoded:
  "mapE f xs = Inr ys \<Longrightarrow> y \<in> set ys \<Longrightarrow> \<exists>x\<in>set xs. f x = Inr y"
proof (induction xs arbitrary: ys)
  case Nil
  then show ?case by simp
next
  case (Cons x xs)
  then show ?case
    by (cases "f x"; cases "mapE f xs") auto
qed

lemma filterE_subset: "filterE p xs = Inr ys \<Longrightarrow> set ys \<subseteq> set xs"
proof (induction xs arbitrary: ys)
  case Nil
  then show ?case by simp
next
  case (Cons x xs)
  then show ?case
    by (cases "p x"; cases "filterE p xs") (auto split: if_splits)
qed

lemma opt_filterE_subset:
  "(case f of Some b \<Rightarrow> filterE (p b) xs | None \<Rightarrow> Inr xs) = Inr ys \<Longrightarrow> set ys \<subseteq> set xs"
  by (cases f) (auto dest: filterE_subset)

lemma str_filterE_subset:
  "(case f of Some n \<Rightarrow> if n \<noteq> [] then filterE (p n) xs else Inr xs | None \<Rightarrow> Inr xs) = Inr ys
     \<Longrightarrow> set ys \<subseteq> set xs"
  by (cases f) (auto dest: filterE_subset split: if_splits)

lemma Client_active_row:
  "Client_from_dict L r = Inr c \<Longrightarrow> dget r ''deactive'' = JNull \<Longrightarrow> cli_deactive c = None"
  unfolding Client_from_dict_Inr_iff by (auto dest: opt_datetime_Inr_None_iff)

lemma Recruiter_active_row:
  "Recruiter_from_dict L r = Inr c \<Longrightarrow> dget r ''deactive_at'' = JNull \<Longrightarrow> rec_deactive_at c = None"
  unfolding Recruiter_from_dict_Inr_iff by (auto dest: opt_datetime_Inr_None_iff)

lemma JobDescription_active_row:
  "JobDescription_from_dict L r = Inr j \<Longrightarrow> dget r ''deactive_at'' = JNull \<Longrightarrow> jd_deactive_at j = None"
  unfolding JobDescription_from_dict_Inr_iff by (auto dest: opt_datetime_Inr_None_iff)

lemma ApplicantJobApply_active_row:
  "ApplicantJobApply_from_dict L r = Inr x \<Longrightarrow> dget r ''deactive_at'' = JNull \<Longrightarrow>
     aja_deactive_at x = None"
  unfolding ApplicantJobApply_from_dict_Inr_iff by (auto dest: opt_datetime_Inr_None_iff)

lemma Applicant_active_row:
  "Applicant_from_dict L r = Inr a \<Longrightarrow> dget r ''deactive_at'' = JNull \<Longrightarrow> app_deactive_at a = None"
  unfolding Applicant_from_dict_Inr_iff by (auto dest: opt_datetime_Inr_None_iff)

text \<open>The four other searches always ask the store for the rows whose deactivation
  column is null, so what they return is active.\<close>

lemma search_clients_active:
  assumes "search_clients L st description = Inr cs" and "c \<in> set cs"
  shows "cli_deactive c = None"
proof -
  let ?data = "query_table st TABLE_NAME_client (Some [(''deactive'', JNull)])"
  from assms(1) obtain clients where
    dec: "mapE (Client_from_dict L) ?data = Inr clients" and
    flt: "(case description of
             Some d \<Rightarrow>
               if d \<noteq> [] then
                 filterE (\<lambda>c. description_matches L (str_lower L d) (cli_description c)) clients
               else Inr clients
           | None \<Rightarrow> Inr clients) = Inr cs"
    unfolding search_clients_def Let_def bindE_eq_Inr_iff by blast
  from str_filterE_subset [OF flt] assms(2) have "c \<in> set clients" by blast
  from mapE_decoded [OF dec this] obtain r where
    r: "r \<in> set ?data" "Client_from_dict L r = Inr c" by blast
  from query_table_filtered [OF _ r(1)] have "dget r ''deactive'' = JNull" by simp
  with r(2) show ?thesis by (rule Client_active_row)
qed

lemma search_recruiters_active:
  assumes "search_recruiters L st name description = Inr cs" and "c \<in> set cs"
  shows "rec_deactive_at c = None"
proof -
  let ?data = "query_table st TABLE_NAME_recruiter (Some [(''deactive_at'', JNull)])"
  from assms(1) obtain rs1 rs2 where
    dec: "mapE (Recruiter_from_dict L) ?data = Inr rs1" and
    flt1: "(case name of
              Some n \<Rightarrow>
                if n \<noteq> [] then filterE (\<lambda>r. in_lower L (str_lower L n) (rec_name r)) rs1
                else Inr rs1
            | None \<Rightarrow> Inr rs1) = Inr rs2" and
    flt2: "(case description of
              Some d \<Rightarrow>
                if d \<noteq> [] then
                  filterE (\<lambda>r. description_matches L (str_lower L d) (rec_description r)) rs2
                else Inr rs2
            | None \<Rightarrow> Inr rs2) = Inr cs"
    unfolding search_recruiters_def Let_def bindE_eq_Inr_iff by blast
  from str_filterE_subset [OF flt1] str_filterE_subset [OF flt2] assms(2)
  have "c \<in> set rs1" by blast
  from mapE_decoded [OF dec this] obtain r where
    r: "r \<in> set ?data" "Recruiter_from_dict L r = Inr c" by blast
  from query_table_filtered [OF _ r(1)] have "dget r ''deactive_at'' = JNull" by simp
  with r(2) show ?thesis by (rule Recruiter_active_row)
qed

lemma job_description_query_active:
  assumes "r \<in> set (if filters \<noteq> [] then
                      query_table st t (Some (AList.update ''deactive_at'' JNull filters))
                    else query_table st t (Some [(''deactive_at'', JNull)]))"
  shows "dget r ''deactive_at'' = JNull"
proof (cases "filters \<noteq> []")
  case True
  with assms have "r \<in> set (query_table st t (Some (AList.update ''deactive_at'' JNull filters)))"
    by simp
  from query_table_filtered [OF update_mem this] show ?thesis .
next
  case False
  with assms have "r \<in> set (query_table st t (Some [(''deactive_at'', JNull)]))" by simp
  from query_table_filtered [OF _ this] show ?thesis by simp
qed

lemma search_job_descriptions_active:
  assumes "search_job_descriptions L st status client_id recruiter_id lo hi = Inr js"
    and "j \<in> set js"
  shows "jd_deactive_at j = None"
proof -
  from assms(1) obtain data jobs1 jobs2 where
    data: "\<forall>r\<in>set data. dget r ''deactive_at'' = JNull" and
    dec: "mapE (JobDescription_from_dict L) data = Inr jobs1" and
    flt1: "(case lo of Some b \<Rightarrow> filterE (\<lambda>j. ge_float (jd_min_salary j) b) jobs1
            | None \<Rightarrow> Inr jobs1) = Inr jobs2" and
    flt2: "(case hi of Some b \<Rightarrow> filterE (\<lambda>j. le_float (jd_min_salary j) b) jobs2
            | None \<Rightarrow> Inr jobs2) = Inr js"
    unfolding search_job_descriptions_def Let_def bindE_eq_Inr_iff
    using job_description_query_active by blast
  from opt_filterE_subset [OF flt1] opt_filterE_subset [OF flt2] assms(2)
  have "j \<in> set jobs1" by blast
  from mapE_decoded [OF dec this] obtain r where
    r: "r \<in> set data" "JobDescription_from_dict L r = Inr j" by blast
  with data show ?thesis
    by (simp add: JobDescription_active_row)
qed

lemma search_applications_rows:
  assumes "map_of filters ''deactive_at'' = None"
    and "mapE f (query_table st t
            (if (if map_of filters ''deactive_at'' = None
                 then AList.update ''deactive_at'' JNull filters else filters) \<noteq> []
             then Some (if map_of filters ''deactive_at'' = None
                        then AList.update ''deactive_at'' JNull filters else filters)
             else None)) = Inr xs"
    and "x \<in> set xs"
  shows "\<exists>r. dget r ''deactive_at'' = JNull \<and> f r = Inr x"
proof -
  have "AList.update ''deactive_at'' JNull filters \<noteq> []"
    using update_mem [of "''deactive_at''" JNull filters] by auto
  with assms(1,2)
  have "mapE f (query_table st t (Some (AList.update ''deactive_at'' JNull filters))) = Inr xs"
    by simp
  from mapE_decoded [OF this assms(3)] obtain r where
    r: "r \<in> set (query_table st t (Some (AList.update ''deactive_at'' JNull filters)))"
      "f r = Inr x" by blast
  from query_table_filtered [OF update_mem r(1)] r(2) show ?thesis by blast
qed

lemma search_applications_active:
  assumes "search_applications L st applicant_id job_description_id recruiter_id = Inr xs"
    and "x \<in> set xs"
  shows "aja_deactive_at x = None"
proof -
  have "\<exists>r. dget r ''deactive_at'' = JNull \<and> ApplicantJobApply_from_dict L r = Inr x"
    by (rule search_applications_rows
              [OF _ assms(1) [unfolded search_applications_def Let_def] assms(2)])
       (simp add: map_of_update_if split: option.splits)
  then show ?thesis
    by (auto dest: ApplicantJobApply_active_row)
qed

text \<open>So does the search for applicants as long as neither exact filter is given.\<close>

lemma search_applicants_active_without_exact_filter:
  assumes "search_applicants L st name city None None = Inr as" and "a \<in> set as"
  shows "app_deactive_at a = None"
proof -
  let ?data = "query_table st TABLE_NAME_applicants (Some [(''deactive_at'', JNull)])"
  from assms(1) obtain as1 as2 where
    dec: "mapE (Applicant_from_dict L) ?data = Inr as1" and
    flt1: "(case name of
              Some n \<Rightarrow>
                if n \<noteq> [] then
                  filterE (\<lambda>a. bindE (in_lower L (str_lower L n) (app_name a)) (\<lambda>b.
                                 if b then Inr True
                                 else in_lower L (str_lower L n) (app_last_name a)))
                    as1
                else Inr as1
            | None \<Rightarrow> Inr as1) = Inr as2" and
    flt2: "(case city of
              Some c \<Rightarrow>
                if c \<noteq> [] then filterE (\<lambda>a. in_lower L (str_lower L c) (app_city a)) as2
                else Inr as2
            | None \<Rightarrow> Inr as2) = Inr as"
    unfolding search_applicants_def Let_def bindE_eq_Inr_iff by auto
  from str_filterE_subset [OF flt1] str_filterE_subset [OF flt2] assms(2)
  have "a \<in> set as1" by blast
  from mapE_decoded [OF dec this] obtain r where
    r: "r \<in> set ?data" "Applicant_from_dict L r = Inr a" by blast
  from query_table_filtered [OF _ r(1)] have "dget r ''deactive_at'' = JNull" by simp
  with r(2) show ?thesis by (rule Applicant_active_row)
qed

text \<open>
  C1. Every search is meant to add the predicate that the deactivation column is null,
  and the four searches above do. \<open>search_applicants\<close> passes
  \<open>filters if filters else {"deactive_at": None}\<close> to the store: as soon as \<open>email\<close> or
  \<open>english_level\<close> is supplied the predicate is gone. On a store whose only applicant
  was deactivated, the search without filters returns nothing, and the search by her
  email returns her, with a deactivation timestamp.
\<close>

theorem search_applicants_email_returns_inactive:
  "search_applicants cpython_sample store_sample None None None None = Inr [] \<and>
   search_applicants cpython_sample store_sample None None None (Some ''ana@example.com'')
     = Inr [applicant_ana] \<and>
   app_deactive_at applicant_ana \<noteq> None"
  by code_simp

end
